theory Spec2Isabelle
  imports Complex_Main "HOL-Library.Sublist"
begin

section \<open>JavaScript values used by the similarity engine\<close>

text \<open>
  A JavaScript string is a sequence of UTF-16 code units; a code unit is modelled by its
  number.  The library method \<open>String.prototype.toLowerCase\<close> (full Unicode case mapping)
  is not part of the repository: every function that calls it takes it as the parameter
  \<open>lc\<close>, and the theorems below hold for every such function.  \<open>asciiLower\<close> is the
  instance that agrees with \<open>toLowerCase\<close> on ASCII text; it is used to evaluate the
  functions on concrete ASCII messages.
\<close>

type_synonym jsstring = "nat list"

definition ascii :: "string \<Rightarrow> jsstring" where
  "ascii s = map of_char s"

definition asciiLower :: "jsstring \<Rightarrow> jsstring" where
  "asciiLower s = map (\<lambda>c. if 65 \<le> c \<and> c \<le> 90 then c + 32 else c) s"

text \<open>
  A JavaScript number is modelled as an exact real or \<open>NaN\<close>: rounding of IEEE doubles is
  not modelled, the propagation of \<open>NaN\<close> through arithmetic and comparisons is.
\<close>

datatype jsnum = Num real | NaN

fun nplus :: "jsnum \<Rightarrow> jsnum \<Rightarrow> jsnum" where
  "nplus (Num a) (Num b) = Num (a + b)"
| "nplus _ _ = NaN"

fun ntimes :: "jsnum \<Rightarrow> jsnum \<Rightarrow> jsnum" where
  "ntimes (Num a) (Num b) = Num (a * b)"
| "ntimes _ _ = NaN"

fun nminus :: "jsnum \<Rightarrow> jsnum \<Rightarrow> jsnum" where
  "nminus (Num a) (Num b) = Num (a - b)"
| "nminus _ _ = NaN"

text \<open>Division is only used with a divisor that is not zero (the callers guard it).\<close>

fun ndiv :: "jsnum \<Rightarrow> jsnum \<Rightarrow> jsnum" where
  "ndiv (Num a) (Num b) = Num (a / b)"
| "ndiv _ _ = NaN"

text \<open>\<open>Math.sqrt\<close>, only applied to sums of squares here.\<close>

fun nsqrt :: "jsnum \<Rightarrow> jsnum" where
  "nsqrt (Num a) = (if a < 0 then NaN else Num (sqrt a))"
| "nsqrt NaN = NaN"

text \<open>\<open>Math.min\<close>: \<open>NaN\<close> if an argument is \<open>NaN\<close>.\<close>

fun nmin :: "jsnum \<Rightarrow> jsnum \<Rightarrow> jsnum" where
  "nmin (Num a) (Num b) = Num (min a b)"
| "nmin _ _ = NaN"

text \<open>Comparisons with \<open>NaN\<close> are false.\<close>

fun ngt :: "jsnum \<Rightarrow> jsnum \<Rightarrow> bool" where
  "ngt (Num a) (Num b) = (a > b)"
| "ngt _ _ = False"

fun nge :: "jsnum \<Rightarrow> jsnum \<Rightarrow> bool" where
  "nge (Num a) (Num b) = (a \<ge> b)"
| "nge _ _ = False"

text \<open>\<open>Math.round(x * 100) / 100\<close>; \<open>Math.round\<close> rounds halves up.\<close>

fun round2 :: "jsnum \<Rightarrow> jsnum" where
  "round2 (Num x) = Num (of_int \<lfloor>x * 100 + 1 / 2\<rfloor> / 100)"
| "round2 NaN = NaN"

subsection \<open>Strings: white space, trim, split, sets\<close>

text \<open>The code units matched by \<open>\s\<close> and removed by \<open>trim\<close> (WhiteSpace and LineTerminator).\<close>

definition isWhiteSpace :: "nat \<Rightarrow> bool" where
  "isWhiteSpace c \<longleftrightarrow>
     c \<in> {9, 10, 11, 12, 13, 32, 160, 5760, 8232, 8233, 8239, 8287, 12288, 65279}
     \<or> (8192 \<le> c \<and> c \<le> 8202)"

definition trim :: "jsstring \<Rightarrow> jsstring" where
  "trim s = rev (dropWhile isWhiteSpace (rev (dropWhile isWhiteSpace s)))"

text \<open>
  \<open>s.split(/\s+/)\<close>: the pieces between maximal runs of white space.  A leading or trailing
  run gives an empty first or last piece, and the empty string gives one empty piece.
\<close>

function splitWs :: "jsstring \<Rightarrow> jsstring list" where
  "splitWs [] = [[]]"
| "splitWs (c # cs) =
     (if isWhiteSpace c then [] # splitWs (dropWhile isWhiteSpace cs)
      else (case splitWs cs of [] \<Rightarrow> [[c]] | t # ts \<Rightarrow> (c # t) # ts))"
  by pat_completeness auto
termination
  by (relation "measure length") (auto simp: length_dropWhile_le less_Suc_eq_le)

text \<open>\<open>new Set(xs)\<close>, as the list of its elements in insertion order.\<close>

definition newSet :: "'a list \<Rightarrow> 'a list" where
  "newSet xs = foldl (\<lambda>acc x. if x \<in> set acc then acc else acc @ [x]) [] xs"

text \<open>\<open>s.includes(sub)\<close>: \<open>sub\<close> occurs in \<open>s\<close> as a contiguous piece.\<close>

fun strIncludes :: "jsstring \<Rightarrow> jsstring \<Rightarrow> bool" where
  "strIncludes [] sub = (sub = [])"
| "strIncludes (c # cs) sub = (take (length sub) (c # cs) = sub \<or> strIncludes cs sub)"

section \<open>calculateSimilarity.ts\<close>

subsection \<open>levenshteinDistance\<close>

text \<open>
  The source fills a matrix with \<open>len2 + 1\<close> rows and \<open>len1 + 1\<close> columns, row by row.
  Row 0 is \<open>[0, 1, ..., len1]\<close>; row \<open>i\<close> starts with \<open>i\<close>, and its entry \<open>j\<close> is the
  diagonal entry when the two characters agree and otherwise one more than the minimum
  of the diagonal, left and upper entries.  \<open>fillRow c str1 prev left\<close> computes the
  entries \<open>1 ..\<close> of a row from the previous row \<open>prev\<close> and the entry \<open>left\<close> just written.
\<close>

fun fillRow :: "nat \<Rightarrow> jsstring \<Rightarrow> nat list \<Rightarrow> nat \<Rightarrow> nat list" where
  "fillRow c (x # xs) (d # u # prev) left =
     (let v = (if c = x then d else min (d + 1) (min (left + 1) (u + 1)))
      in v # fillRow c xs (u # prev) v)"
| "fillRow c _ _ left = []"

definition nextRow :: "jsstring \<Rightarrow> nat list \<Rightarrow> nat \<Rightarrow> nat \<Rightarrow> nat list" where
  "nextRow str1 prev i c = i # fillRow c str1 prev i"

fun fillMatrix :: "jsstring \<Rightarrow> nat list list \<Rightarrow> nat \<Rightarrow> jsstring \<Rightarrow> nat list list" where
  "fillMatrix str1 matrix i [] = matrix"
| "fillMatrix str1 matrix i (c # cs) =
     fillMatrix str1 (matrix @ [nextRow str1 (last matrix) i c]) (i + 1) cs"

definition levenshteinMatrix :: "jsstring \<Rightarrow> jsstring \<Rightarrow> nat list list" where
  "levenshteinMatrix str1 str2 = fillMatrix str1 [[0 ..< length str1 + 1]] 1 str2"

definition levenshteinDistance :: "jsstring \<Rightarrow> jsstring \<Rightarrow> nat" where
  "levenshteinDistance str1 str2 =
     levenshteinMatrix str1 str2 ! length str2 ! length str1"

definition levenshteinSimilarity :: "jsstring \<Rightarrow> jsstring \<Rightarrow> real" where
  "levenshteinSimilarity str1 str2 =
     (let maxLength = max (length str1) (length str2)
      in if maxLength = 0 then 100
         else (real maxLength - real (levenshteinDistance str1 str2)) / real maxLength * 100)"

subsection \<open>jaccardSimilarity\<close>

definition jaccardSimilarity :: "(jsstring \<Rightarrow> jsstring) \<Rightarrow> jsstring \<Rightarrow> jsstring \<Rightarrow> real" where
  "jaccardSimilarity lc str1 str2 =
     (let words1 = newSet (splitWs (lc str1));
          words2 = newSet (splitWs (lc str2));
          intersection = newSet (filter (\<lambda>x. x \<in> set words2) words1);
          union = newSet (words1 @ words2)
      in if length union = 0 then 100
         else real (length intersection) / real (length union) * 100)"

subsection \<open>cosineSimilarity\<close>

text \<open>
  The frequency maps are plain objects created by \<open>{}\<close>, so a read \<open>freq[word]\<close> of a key
  that is not an own property goes to \<open>Object.prototype\<close>: for the keys below it yields a
  function or an object instead of \<open>undefined\<close>.  Such a value is truthy, \<open>+ 1\<close> turns it
  into a string, and its product with anything is \<open>NaN\<close>.  \<open>JOther\<close> stands for all these
  values that are not numbers.
\<close>

datatype jsval = JNumber real | JOther

definition objectPrototypeKeys :: "jsstring list" where
  "objectPrototypeKeys = map ascii
     [''constructor'', ''__defineGetter__'', ''__defineSetter__'', ''hasOwnProperty'',
      ''__lookupGetter__'', ''__lookupSetter__'', ''isPrototypeOf'',
      ''propertyIsEnumerable'', ''toString'', ''valueOf'', ''__proto__'',
      ''toLocaleString'']"

type_synonym freqmap = "jsstring \<rightharpoonup> jsval"

text \<open>\<open>freq[word]\<close>: own property first, then the prototype; \<open>None\<close> is \<open>undefined\<close>.\<close>

definition getProp :: "freqmap \<Rightarrow> jsstring \<Rightarrow> jsval option" where
  "getProp freq word =
     (case freq word of
        Some v \<Rightarrow> Some v
      | None \<Rightarrow> if word \<in> set objectPrototypeKeys then Some JOther else None)"

text \<open>\<open>v || 0\<close>\<close>

fun orZero :: "jsval option \<Rightarrow> jsval" where
  "orZero None = JNumber 0"
| "orZero (Some (JNumber n)) = JNumber n"
| "orZero (Some JOther) = JOther"

text \<open>\<open>v + 1\<close>: addition on numbers, string concatenation otherwise.\<close>

fun plusOne :: "jsval \<Rightarrow> jsval" where
  "plusOne (JNumber n) = JNumber (n + 1)"
| "plusOne JOther = JOther"

text \<open>\<open>a * b\<close>: both operands are converted to numbers.\<close>

fun times :: "jsval \<Rightarrow> jsval \<Rightarrow> jsnum" where
  "times (JNumber a) (JNumber b) = Num (a * b)"
| "times _ _ = NaN"

text \<open>
  \<open>words.forEach(word => freq[word] = (freq[word] || 0) + 1)\<close>.  (The assignment to
  \<open>__proto__\<close> is ignored by JavaScript; the later read finds the inherited object, which
  is \<open>JOther\<close> as well.)
\<close>

definition countWord :: "freqmap \<Rightarrow> jsstring \<Rightarrow> freqmap" where
  "countWord freq word = freq(word \<mapsto> plusOne (orZero (getProp freq word)))"

definition wordFrequencies :: "jsstring list \<Rightarrow> freqmap" where
  "wordFrequencies words = foldl countWord Map.empty words"

definition cosineStep ::
  "freqmap \<Rightarrow> freqmap \<Rightarrow> jsnum \<times> jsnum \<times> jsnum \<Rightarrow> jsstring \<Rightarrow> jsnum \<times> jsnum \<times> jsnum" where
  "cosineStep freq1 freq2 acc word =
     (case acc of (dotProduct, magnitude1, magnitude2) \<Rightarrow>
        (let f1 = orZero (getProp freq1 word);
             f2 = orZero (getProp freq2 word)
         in (nplus dotProduct (times f1 f2),
             nplus magnitude1 (times f1 f1),
             nplus magnitude2 (times f2 f2))))"

definition cosineSimilarity :: "(jsstring \<Rightarrow> jsstring) \<Rightarrow> jsstring \<Rightarrow> jsstring \<Rightarrow> jsnum" where
  "cosineSimilarity lc str1 str2 =
     (let words1 = splitWs (lc str1);
          words2 = splitWs (lc str2);
          freq1 = wordFrequencies words1;
          freq2 = wordFrequencies words2;
          allWords = newSet (words1 @ words2)
      in case foldl (cosineStep freq1 freq2) (Num 0, Num 0, Num 0) allWords of
           (dotProduct, magnitude1, magnitude2) \<Rightarrow>
             if magnitude1 = Num 0 \<or> magnitude2 = Num 0 then Num 0
             else ntimes (ndiv dotProduct (ntimes (nsqrt magnitude1) (nsqrt magnitude2)))
                         (Num 100))"

subsection \<open>keywordSimilarity\<close>

text \<open>\<open>\w\<close> without the unicode flag: ASCII letters, digits and the underscore.\<close>

definition isWordChar :: "nat \<Rightarrow> bool" where
  "isWordChar c \<longleftrightarrow>
     (48 \<le> c \<and> c \<le> 57) \<or> (65 \<le> c \<and> c \<le> 90) \<or> c = 95 \<or> (97 \<le> c \<and> c \<le> 122)"

text \<open>The maximal runs of word characters of a string, from left to right.\<close>

function wordRuns :: "jsstring \<Rightarrow> jsstring list" where
  "wordRuns [] = []"
| "wordRuns (c # cs) =
     (if isWordChar c
      then (c # takeWhile isWordChar cs) # wordRuns (dropWhile isWordChar cs)
      else wordRuns cs)"
  by pat_completeness auto
termination
  by (relation "measure length") (auto simp: length_dropWhile_le less_Suc_eq_le)

text \<open>
  \<open>s.match(/\b\w{3,}\b/g) || []\<close>: a match starts at a word boundary, takes word
  characters greedily and must end at a word boundary, so the matches are the maximal
  runs of word characters that have at least three of them.
\<close>

definition matchKeywords :: "jsstring \<Rightarrow> jsstring list" where
  "matchKeywords s = filter (\<lambda>r. 3 \<le> length r) (wordRuns s)"

definition keywordSimilarity :: "(jsstring \<Rightarrow> jsstring) \<Rightarrow> jsstring \<Rightarrow> jsstring \<Rightarrow> real" where
  "keywordSimilarity lc str1 str2 =
     (let keywords1 = matchKeywords (lc str1);
          keywords2 = matchKeywords (lc str2)
      in if length keywords1 = 0 \<and> length keywords2 = 0 then 100
         else if length keywords1 = 0 \<or> length keywords2 = 0 then 0
         else (let set1 = newSet keywords1;
                   set2 = newSet keywords2;
                   intersection = newSet (filter (\<lambda>x. x \<in> set set2) set1);
                   union = newSet (set1 @ set2)
               in real (length intersection) / real (length union) * 100))"

subsection \<open>calculateSimilarity and calculateContextualSimilarity\<close>

definition weightedScore :: "real \<Rightarrow> real \<Rightarrow> jsnum \<Rightarrow> real \<Rightarrow> jsnum" where
  "weightedScore levenshtein jaccard cosine keyword =
     nplus (nplus (nplus (Num (levenshtein * (2 / 10))) (Num (jaccard * (3 / 10))))
                  (ntimes cosine (Num (3 / 10))))
           (Num (keyword * (2 / 10)))"

definition calculateSimilarity :: "(jsstring \<Rightarrow> jsstring) \<Rightarrow> jsstring \<Rightarrow> jsstring \<Rightarrow> jsnum" where
  "calculateSimilarity lc userMessage qaQuestion =
     (let msg1 = lc (trim userMessage);
          msg2 = lc (trim qaQuestion)
      in if msg1 = msg2 then Num 100
         else if length msg1 = 0 \<or> length msg2 = 0 then Num 0
         else round2 (weightedScore (levenshteinSimilarity msg1 msg2)
                                    (jaccardSimilarity lc msg1 msg2)
                                    (cosineSimilarity lc msg1 msg2)
                                    (keywordSimilarity lc msg1 msg2)))"

definition tagMatches :: "(jsstring \<Rightarrow> jsstring) \<Rightarrow> jsstring \<Rightarrow> jsstring list \<Rightarrow> jsstring list" where
  "tagMatches lc userMessage qaTags =
     (let userWords = splitWs (lc userMessage)
      in filter (\<lambda>tag. list_ex (\<lambda>word. strIncludes word (lc tag) \<or> strIncludes (lc tag) word) userWords)
                qaTags)"

definition calculateContextualSimilarity ::
  "(jsstring \<Rightarrow> jsstring) \<Rightarrow> jsstring \<Rightarrow> jsstring \<Rightarrow> jsstring \<Rightarrow> jsstring list \<Rightarrow> jsnum" where
  "calculateContextualSimilarity lc userMessage qaQuestion qaAnswer qaTags =
     (let score = calculateSimilarity lc userMessage qaQuestion;
          matches = tagMatches lc userMessage qaTags;
          score = (if length matches > 0
                   then nplus score (Num (min (real (length matches) * 5) 15))
                   else score);
          answerSimilarity = calculateSimilarity lc userMessage qaAnswer;
          score = (if ngt answerSimilarity (Num 30)
                   then nplus score (nmin (ntimes answerSimilarity (Num (1 / 10))) (Num 10))
                   else score)
      in nmin score (Num 100))"

section \<open>Notions of the specification\<close>

subsection \<open>The classic edit distance\<close>

text \<open>
  One single-character edit inserts, deletes or substitutes one character somewhere in
  the string.  \<open>editsTo xs ys n\<close>: \<open>n\<close> such edits, one after the other, turn \<open>xs\<close> into
  \<open>ys\<close>.  The edit distance is the least such \<open>n\<close>.
\<close>

inductive edit1 :: "'a list \<Rightarrow> 'a list \<Rightarrow> bool" where
  insert: "edit1 (p @ s) (p @ c # s)"
| delete: "edit1 (p @ c # s) (p @ s)"
| substitute: "edit1 (p @ c # s) (p @ d # s)"

inductive editsTo :: "'a list \<Rightarrow> 'a list \<Rightarrow> nat \<Rightarrow> bool" where
  none: "editsTo xs xs 0"
| more: "edit1 xs zs \<Longrightarrow> editsTo zs ys n \<Longrightarrow> editsTo xs ys (Suc n)"

definition editDistance :: "'a list \<Rightarrow> 'a list \<Rightarrow> nat" where
  "editDistance xs ys = (LEAST n. editsTo xs ys n)"

text \<open>The usual recurrence for it, used to connect the matrix of the source with it.\<close>

fun edRec :: "'a list \<Rightarrow> 'a list \<Rightarrow> nat" where
  "edRec [] ys = length ys"
| "edRec (x # xs) [] = Suc (length xs)"
| "edRec (x # xs) (y # ys) =
     min (edRec xs ys + (if x = y then 0 else 1))
         (min (edRec xs (y # ys) + 1) (edRec (x # xs) ys + 1))"

text \<open>
  The meaning of the matrix entry in row \<open>i\<close> and column \<open>j\<close>: the distance between the
  first \<open>j\<close> characters of \<open>str1\<close> and the first \<open>i\<close> characters of \<open>str2\<close>.
\<close>

definition prefixDistance :: "'a list \<Rightarrow> 'a list \<Rightarrow> nat \<Rightarrow> nat \<Rightarrow> nat" where
  "prefixDistance str1 str2 i j = edRec (rev (take j str1)) (rev (take i str2))"

definition distanceRow :: "'a list \<Rightarrow> 'a list \<Rightarrow> nat \<Rightarrow> nat list" where
  "distanceRow str1 str2 i = map (prefixDistance str1 str2 i) [0 ..< Suc (length str1)]"

subsection \<open>Word frequencies\<close>

text \<open>
  What a read of a frequency map gives: a value that is not a number for the keys of
  \<open>Object.prototype\<close>, and the count \<open>c w\<close> for every other word \<open>w\<close>.
\<close>

definition counts :: "freqmap \<Rightarrow> (jsstring \<Rightarrow> real) \<Rightarrow> bool" where
  "counts freq c \<longleftrightarrow>
     (\<forall>w. orZero (getProp freq w) =
            (if w \<in> set objectPrototypeKeys then JOther else JNumber (c w)))"

definition wordCount :: "(jsstring \<Rightarrow> jsstring) \<Rightarrow> jsstring \<Rightarrow> jsstring \<Rightarrow> real" where
  "wordCount lc str w = real (count_list (splitWs (lc str)) w)"

definition vocabulary :: "(jsstring \<Rightarrow> jsstring) \<Rightarrow> jsstring \<Rightarrow> jsstring \<Rightarrow> jsstring set" where
  "vocabulary lc str1 str2 = set (splitWs (lc str1)) \<union> set (splitWs (lc str2))"

text \<open>
  The frequency-vector cosine as the specification describes it: the cosine of the angle
  between the vectors of the word counts of the two strings, as a percentage, and 0 when
  one of the vectors is zero.
\<close>

definition frequencyCosine :: "(jsstring \<Rightarrow> jsstring) \<Rightarrow> jsstring \<Rightarrow> jsstring \<Rightarrow> real" where
  "frequencyCosine lc str1 str2 =
     (let allWords = newSet (splitWs (lc str1) @ splitWs (lc str2));
          dotProduct = (\<Sum>w\<leftarrow>allWords. wordCount lc str1 w * wordCount lc str2 w);
          magnitude1 = (\<Sum>w\<leftarrow>allWords. wordCount lc str1 w * wordCount lc str1 w);
          magnitude2 = (\<Sum>w\<leftarrow>allWords. wordCount lc str2 w * wordCount lc str2 w)
      in if magnitude1 = 0 \<or> magnitude2 = 0 then 0
         else dotProduct / (sqrt magnitude1 * sqrt magnitude2) * 100)"

subsection \<open>Runs of ASCII word characters\<close>

text \<open>The string contains three consecutive ASCII word characters.\<close>

fun hasWordRun3 :: "jsstring \<Rightarrow> bool" where
  "hasWordRun3 (a # b # c # rest) =
     ((isWordChar a \<and> isWordChar b \<and> isWordChar c) \<or> hasWordRun3 (b # c # rest))"
| "hasWordRun3 _ = False"

section \<open>findRelevantQAPairs\<close>

text \<open>An exception thrown by a collaborator; its message is only logged.\<close>

datatype error = Exception

text \<open>
  The fields that a row of the table \<open>QAPair\<close> (prisma/schema.prisma) and a
  \<open>QAPairWithSimilarity\<close> have in common, the row, and the scored candidate.
\<close>

record QAFields =
  qaId :: jsstring
  question :: jsstring
  answer :: jsstring
  category :: jsstring
  language :: jsstring
  tags :: "jsstring list"
  priority :: int

record QAPair = QAFields +
  isActive :: bool
  createdAt :: int

record QAPairWithSimilarity = QAFields +
  similarity :: jsnum

definition withSimilarity :: "'a QAFields_scheme \<Rightarrow> jsnum \<Rightarrow> QAPairWithSimilarity" where
  "withSimilarity qa s =
     \<lparr>qaId = qaId qa, question = question qa, answer = answer qa, category = category qa,
      language = language qa, tags = tags qa, priority = priority qa, similarity = s\<rparr>"

text \<open>
  The collaborators of findRelevantQAPairs.  \<open>qaTable\<close> holds the rows of the table and
  \<open>findManyFails\<close> says that the query \<open>prisma.qAPair.findMany\<close> throws.  The functions
  findExactMatch, extractKeywords, findMatchByFullMessage and findMatchByKeywords are
  imported from files that are not part of the sources at hand: they are parameters, and
  each may return a value or throw.
\<close>

record KnowledgeBase =
  qaTable :: "QAPair list"
  findManyFails :: bool
  findExactMatch :: "jsstring \<Rightarrow> error + QAPair list"
  extractKeywords :: "jsstring \<Rightarrow> nat \<Rightarrow> error + jsstring list"
  findMatchByFullMessage :: "jsstring \<Rightarrow> nat \<Rightarrow> error + QAPair list"
  findMatchByKeywords :: "jsstring list \<Rightarrow> nat \<Rightarrow> error + QAPair list"

text \<open>
  A stable sort: \<open>after x y\<close> says that \<open>x\<close> has to come after \<open>y\<close>; elements that need
  not be swapped keep their order (\<open>Array.prototype.sort\<close> is stable).
\<close>

fun insertStable :: "('a \<Rightarrow> 'a \<Rightarrow> bool) \<Rightarrow> 'a \<Rightarrow> 'a list \<Rightarrow> 'a list" where
  "insertStable after x [] = [x]"
| "insertStable after x (y # ys) =
     (if after x y then y # insertStable after x ys else x # y # ys)"

definition sortStable :: "('a \<Rightarrow> 'a \<Rightarrow> bool) \<Rightarrow> 'a list \<Rightarrow> 'a list" where
  "sortStable after xs = foldr (insertStable after) xs []"

text \<open>
  \<open>findMany({ where: { isActive: true }, orderBy: [{ priority: 'desc' }, { createdAt: 'desc' }] })\<close>
\<close>

definition findManyActive :: "QAPair list \<Rightarrow> QAPair list" where
  "findManyActive table =
     sortStable (\<lambda>a b. priority a < priority b
                        \<or> (priority a = priority b \<and> createdAt a < createdAt b))
       (filter isActive table)"

text \<open>\<open>a !== b\<close> on numbers: \<open>NaN\<close> is different from everything.\<close>

fun nneq :: "jsnum \<Rightarrow> jsnum \<Rightarrow> bool" where
  "nneq (Num a) (Num b) = (a \<noteq> b)"
| "nneq _ _ = True"

text \<open>\<open>a == b\<close> on numbers: false as soon as one of them is \<open>NaN\<close>.\<close>

definition numEq :: "jsnum \<Rightarrow> jsnum \<Rightarrow> bool" where
  "numEq a b \<longleftrightarrow> \<not> nneq a b"

text \<open>The comparator given to \<open>sort\<close>; a positive result puts \<open>a\<close> after \<open>b\<close>.\<close>

definition compareQA :: "QAPairWithSimilarity \<Rightarrow> QAPairWithSimilarity \<Rightarrow> jsnum" where
  "compareQA a b =
     (if nneq (similarity b) (similarity a) then nminus (similarity b) (similarity a)
      else Num (of_int (priority b - priority a)))"

definition scoreAll ::
  "(jsstring \<Rightarrow> jsstring) \<Rightarrow> jsstring \<Rightarrow> QAPair list \<Rightarrow> QAPairWithSimilarity list" where
  "scoreAll lc message allQAPairs =
     map (\<lambda>qa. withSimilarity qa
                 (calculateContextualSimilarity lc message (question qa) (answer qa) (tags qa)))
         allQAPairs"

definition rankCandidates :: "nat \<Rightarrow> QAPairWithSimilarity list \<Rightarrow> QAPairWithSimilarity list" where
  "rankCandidates limit qaPairsWithSimilarity =
     take limit
       (sortStable (\<lambda>a b. ngt (compareQA a b) (Num 0))
          (filter (\<lambda>qa. ngt (similarity qa) (Num 20)) qaPairsWithSimilarity))"

text \<open>The body of the outer \<open>try\<close>: an exact match first, then the scoring of all active rows.\<close>

definition scoringAttempt ::
  "(jsstring \<Rightarrow> jsstring) \<Rightarrow> KnowledgeBase \<Rightarrow> jsstring \<Rightarrow> nat
     \<Rightarrow> error + QAPairWithSimilarity list" where
  "scoringAttempt lc kb message limit =
     (case findExactMatch kb message of
        Inl e \<Rightarrow> Inl e
      | Inr exactMatches \<Rightarrow>
          if length exactMatches > 0
          then Inr (map (\<lambda>qa. withSimilarity qa (Num 100)) exactMatches)
          else if findManyFails kb then Inl Exception
          else (let allQAPairs = findManyActive (qaTable kb)
                in if length allQAPairs = 0 then Inr []
                   else Inr (rankCandidates limit (scoreAll lc message allQAPairs))))"

text \<open>The body of the \<open>catch\<close>: the older keyword matching, every result with similarity 50.\<close>

definition keywordFallback ::
  "KnowledgeBase \<Rightarrow> jsstring \<Rightarrow> nat \<Rightarrow> error + QAPairWithSimilarity list" where
  "keywordFallback kb message limit =
     (case extractKeywords kb message 2 of
        Inl e \<Rightarrow> Inl e
      | Inr keywords \<Rightarrow>
          if length keywords = 0
          then (case findMatchByFullMessage kb message limit of
                  Inl e \<Rightarrow> Inl e
                | Inr fallbackResults \<Rightarrow>
                    Inr (map (\<lambda>qa. withSimilarity qa (Num 50)) fallbackResults))
          else (case findMatchByKeywords kb keywords limit of
                  Inl e \<Rightarrow> Inl e
                | Inr fallbackResults \<Rightarrow>
                    Inr (map (\<lambda>qa. withSimilarity qa (Num 50)) fallbackResults)))"

definition findRelevantQAPairs ::
  "(jsstring \<Rightarrow> jsstring) \<Rightarrow> KnowledgeBase \<Rightarrow> jsstring \<Rightarrow> nat \<Rightarrow> QAPairWithSimilarity list" where
  "findRelevantQAPairs lc kb message limit =
     (case scoringAttempt lc kb message limit of
        Inr result \<Rightarrow> result
      | Inl e \<Rightarrow>
          (case keywordFallback kb message limit of
             Inr result \<Rightarrow> result
           | Inl fallbackError \<Rightarrow> []))"

section \<open>The AI agent: AIResponseGenerator.ts\<close>

text \<open>
  The state of a promise when it is awaited: fulfilled with a value, rejected (the \<open>await\<close>
  throws), or never settled.  No call in the sources at hand is given a time limit, so an
  \<open>await\<close> of a promise that never settles never returns.
\<close>

datatype 'a awaited = Fulfilled 'a | Rejected | Pending

record AIResponse =
  response :: jsstring
  confidence :: jsnum

text \<open>
  The values that the services hand to each other and that the generator only passes on:
  the row of a created appointment and the result of a search.  The search criteria are
  computed from the lower-cased message alone (by nine helpers of PropertySearchService)
  and are represented by that message.
\<close>

typedecl appointment
typedecl searchResult

datatype criteria = Criteria jsstring

record Result =
  success :: bool

record AppointmentResult = Result +
  appointment :: "appointment option"

record PropertyResponseResult = Result +
  propertiesFound :: nat
  messagesSent :: nat
  imagesSent :: nat
  processingTime :: nat

text \<open>
  What the generator reaches through its six services and does not compute itself.
  \<open>constructorThrows\<close>: one of the constructors (each creates a database client) throws.
  \<open>createAppointment\<close>, \<open>sendPropertyResponse\<close> and \<open>searchProperties\<close> use the database
  and the WhatsApp API.  \<open>generateConfirmationMessage\<close> and \<open>generatePropertySearchResponse\<close>
  format what these return.  \<open>apiKey\<close> is the environment variable \<open>OPENAI_API_KEY\<close>, and
  \<open>fetchCompletion\<close> is the request of OpenAIService.generateResponse to the completion
  API together with the decoding of its answer: fulfilled with the content of the first
  choice (empty when there is none), rejected when the request fails or the status is not
  ok.  \<open>disconnect\<close> is the sequence of the three \<open>disconnect\<close> calls of \<open>cleanup\<close>.
\<close>

record Services =
  constructorThrows :: bool
  createAppointment :: "jsstring \<Rightarrow> jsstring \<Rightarrow> jsstring \<Rightarrow> AppointmentResult awaited"
  generateConfirmationMessage :: "appointment \<Rightarrow> jsstring \<Rightarrow> error + jsstring"
  sendPropertyResponse :: "jsstring \<Rightarrow> jsstring \<Rightarrow> jsstring \<Rightarrow> PropertyResponseResult awaited"
  searchProperties :: "criteria \<Rightarrow> searchResult awaited"
  generatePropertySearchResponse :: "searchResult \<Rightarrow> jsstring \<Rightarrow> error + jsstring"
  apiKey :: jsstring
  fetchCompletion :: "jsstring \<Rightarrow> jsstring \<Rightarrow> jsstring awaited"
  disconnect :: "unit awaited"

text \<open>A number of type nat inside a template literal: its decimal digits.\<close>

function decimal :: "nat \<Rightarrow> jsstring" where
  "decimal n = (if n < 10 then [48 + n] else decimal (n div 10) @ [48 + n mod 10])"
  by pat_completeness auto
termination
  by (relation "measure id") auto

declare decimal.simps [simp del]

subsection \<open>AppointmentBookingService.detectBookingRequest\<close>

definition BOOKING_KEYWORDS_AR :: "jsstring list" where
  "BOOKING_KEYWORDS_AR =
     [[1571, 1585, 1610, 1583, 32, 1581, 1580, 1586, 32, 1605, 1608, 1593, 1583],
      [1581, 1580, 1586, 32, 1605, 1608, 1593, 1583],
      [1571, 1585, 1610, 1583, 32, 1605, 1608, 1593, 1583],
      [1575, 1581, 1580, 1586, 32, 1605, 1608, 1593, 1583],
      [1605, 1608, 1593, 1583, 32, 1605, 1593, 1575, 1610, 1606, 1577],
      [1571, 1585, 1610, 1583, 32, 1605, 1593, 1575, 1610, 1606, 1577],
      [1605, 1593, 1575, 1610, 1606, 1577, 32, 1575, 1604, 1593, 1602, 1575, 1585],
      [1586, 1610, 1575, 1585, 1577, 32, 1575, 1604, 1593, 1602, 1575, 1585],
      [1571, 1585, 1610, 1583, 32, 1586, 1610, 1575, 1585, 1577],
      [1575, 1578, 1589, 1575, 1604],
      [1571, 1585, 1610, 1583, 32, 1575, 1578, 1589, 1575, 1604],
      [1575, 1578, 1589, 1604, 1608, 1575, 32, 1576, 1610],
      [1578, 1608, 1575, 1589, 1604, 32, 1605, 1593, 1610],
      [1603, 1604, 1605, 1608, 1606, 1610],
      [1571, 1585, 1610, 1583, 32, 1575, 1604, 1578, 1581, 1583, 1579],
      [1571, 1585, 1610, 1583, 32, 1575, 1587, 1578, 1588, 1575, 1585, 1577],
      [1575, 1587, 1578, 1588, 1575, 1585, 1577, 32, 1593, 1602, 1575, 1585, 1610, 1577]]"

definition BOOKING_KEYWORDS_EN :: "jsstring list" where
  "BOOKING_KEYWORDS_EN =
     map ascii
       [''book appointment'', ''schedule appointment'', ''book a call'', ''schedule call'',
        ''want to visit'', ''property viewing'', ''schedule viewing'', ''book viewing'',
        ''contact me'', ''call me'', ''want consultation'', ''real estate consultation'',
        ''schedule meeting'', ''book meeting'', ''arrange visit'']"

definition detectBookingRequest ::
  "(jsstring \<Rightarrow> jsstring) \<Rightarrow> jsstring \<Rightarrow> jsstring \<Rightarrow> bool" where
  "detectBookingRequest lc userMessage lang =
     (let message = lc userMessage;
          keywords = (if lang = ascii ''ar'' then BOOKING_KEYWORDS_AR else BOOKING_KEYWORDS_EN)
      in list_ex (\<lambda>keyword. strIncludes message (lc keyword)) keywords)"

subsection \<open>PropertySearchService.extractSearchCriteria\<close>

definition SEARCH_KEYWORDS_AR :: "jsstring list" where
  "SEARCH_KEYWORDS_AR =
     [[1571, 1585, 1610, 1583, 32, 1593, 1602, 1575, 1585],
      [1571, 1576, 1581, 1579, 32, 1593, 1606],
      [1593, 1602, 1575, 1585, 32, 1601, 1610],
      [1588, 1602, 1577, 32, 1601, 1610],
      [1601, 1610, 1604, 1575, 32, 1601, 1610],
      [1571, 1585, 1610, 1583, 32, 1588, 1585, 1575, 1569],
      [1571, 1585, 1610, 1583, 32, 1575, 1587, 1578, 1574, 1580, 1575, 1585],
      [1575, 1576, 1581, 1579, 32, 1593, 1606, 32, 1593, 1602, 1575, 1585],
      [1593, 1602, 1575, 1585, 32, 1604, 1604, 1576, 1610, 1593],
      [1593, 1602, 1575, 1585, 32, 1604, 1604, 1573, 1610, 1580, 1575, 1585]]"

definition SEARCH_KEYWORDS_EN :: "jsstring list" where
  "SEARCH_KEYWORDS_EN =
     map ascii
       [''i want property'', ''looking for'', ''property in'', ''apartment in'',
        ''villa in'', ''want to buy'', ''want to rent'', ''search for property'',
        ''property for sale'', ''property for rent'']"

text \<open>\<open>None\<close> is \<open>null\<close>; otherwise the field \<open>criteria\<close> of the returned object.\<close>

definition extractSearchCriteria ::
  "(jsstring \<Rightarrow> jsstring) \<Rightarrow> jsstring \<Rightarrow> jsstring \<Rightarrow> criteria option" where
  "extractSearchCriteria lc userMessage lang =
     (let message = lc userMessage;
          searchKeywords = (if lang = ascii ''ar'' then SEARCH_KEYWORDS_AR else SEARCH_KEYWORDS_EN);
          hasSearchIntent = list_ex (\<lambda>keyword. strIncludes message (lc keyword)) searchKeywords
      in if \<not> hasSearchIntent then None else Some (Criteria message))"

subsection \<open>ResponseGeneratorService.generateRuleBasedResponse\<close>

text \<open>The two texts of the rule-based responses, on prices and on appointments.\<close>

definition priceResponse :: "jsstring \<Rightarrow> jsstring" where
  "priceResponse lang =
     (if lang = ascii ''ar''
      then [1605, 1585, 1581, 1576, 1575, 1611, 32, 1576, 1603, 32, 1601, 1610, 32, 42, 1588] @
           [1585, 1603, 1577, 32, 1573, 1578, 1580, 1575, 1607, 32, 1575, 1604, 1593, 1602, 1575] @
           [1585, 1610, 1577, 42, 32, 55356, 57314, 10, 10, 1571, 1601, 1607, 1605, 32, 1571] @
           [1606, 1603, 32, 1578, 1587, 1571, 1604, 32, 1593, 1606, 32, 1575, 1604, 1571, 1587] @
           [1593, 1575, 1585, 46, 32, 1601, 1610, 32, 1573, 1578, 1580, 1575, 1607, 32, 1575] @
           [1604, 1593, 1602, 1575, 1585, 1610, 1577, 1548, 32, 1606, 1602, 1583, 1605, 32, 1571] @
           [1587, 1593, 1575, 1585, 32, 1578, 1606, 1575, 1601, 1587, 1610, 1577, 32, 1578, 1582] @
           [1578, 1604, 1601, 32, 1581, 1587, 1576, 58, 10, 10, 55357, 56525, 32, 42, 1575] @
           [1604, 1605, 1608, 1602, 1593, 42, 58, 32, 1575, 1604, 1585, 1610, 1575, 1590, 1548] @
           [32, 1580, 1583, 1577, 1548, 32, 1575, 1604, 1583, 1605, 1575, 1605, 1548, 32, 1605] @
           [1603, 1577, 1548, 32, 1575, 1604, 1605, 1583, 1610, 1606, 1577, 10, 55357, 56528, 32] @
           [42, 1575, 1604, 1605, 1587, 1575, 1581, 1577, 42, 58, 32, 1605, 1606] @
           ascii '' 100 '' @ [1573, 1604, 1609] @ ascii '' 1000+ '' @
           [1605, 1578, 1585, 32, 1605, 1585, 1576, 1593, 10, 55356, 57312, 32, 42, 1606, 1608] @
           [1593, 32, 1575, 1604, 1593, 1602, 1575, 1585, 42, 58, 32, 1588, 1602, 1602, 1548] @
           [32, 1601, 1610, 1604, 1604, 1548, 32, 1578, 1575, 1608, 1606, 32, 1607, 1575, 1608] @
           [1587, 1548, 32, 1571, 1585, 1575, 1590, 1610, 1548, 32, 1605, 1603, 1575, 1578, 1576] @
           [10, 55357, 56462, 32, 42, 1605, 1587, 1578, 1608, 1609, 32, 1575, 1604, 1578, 1588] @
           [1591, 1610, 1576, 42, 58, 32, 1593, 1575, 1583, 1610, 1548, 32, 1601, 1575, 1582] @
           [1585, 1548, 32, 1587, 1608, 1576, 1585, 32, 1604, 1608, 1603, 1587, 10, 55356, 57263] @
           [32, 42, 1575, 1604, 1594, 1585, 1590, 42, 58, 32, 1587, 1603, 1606, 1610, 1548] @
           [32, 1578, 1580, 1575, 1585, 1610, 1548, 32, 1575, 1587, 1578, 1579, 1605, 1575, 1585] @
           [1610, 10, 10, 55357, 56481, 32, 42, 1604, 1604, 1581, 1589, 1608, 1604, 32, 1593] @
           [1604, 1609, 32, 1578, 1602, 1610, 1610, 1605, 32, 1583, 1602, 1610, 1602, 1548, 32] @
           [1571, 1582, 1576, 1585, 1606, 1610, 58, 42, 10, 8226, 32, 1575, 1604, 1605, 1608] @
           [1602, 1593, 32, 1575, 1604, 1605, 1591, 1604, 1608, 1576, 1567, 10, 8226, 32, 1575] @
           [1604, 1605, 1587, 1575, 1581, 1577, 32, 1575, 1604, 1605, 1591, 1604, 1608, 1576, 1577] @
           [1567, 10, 8226, 32, 1606, 1608, 1593, 32, 1575, 1604, 1593, 1602, 1575, 1585, 1567] @
           [10, 8226, 32, 1575, 1604, 1605, 1610, 1586, 1575, 1606, 1610, 1577, 32, 1575, 1604] @
           [1578, 1602, 1585, 1610, 1576, 1610, 1577, 1567, 10, 8226, 32, 1575, 1604, 1594, 1585] @
           [1590, 32, 1605, 1606, 32, 1575, 1604, 1588, 1585, 1575, 1569, 1567, 10, 10, 42] @
           [1573, 1578, 1580, 1575, 1607, 32, 1575, 1604, 1593, 1602, 1575, 1585, 1610, 1577, 32] @
           [45, 32, 1588, 1585, 1610, 1603, 1603, 32, 1575, 1604, 1605, 1608, 1579, 1608, 1602] @
           [32, 1601, 1610, 32, 1575, 1604, 1593, 1602, 1575, 1585, 1575, 1578, 42, 32, 55356] @
           [57312, 10024]
      else ascii ''Welcome to *Etjahh Real Estate Company* '' @ [55356, 57314, 10, 10] @
           ascii ''I understand you'' @ [39] @
           ascii ''re asking about pricing. At Etjahh Real Estate, we offer competi'' @
           ascii ''tive prices that vary based on:'' @ [10, 10, 55357, 56525] @
           ascii '' *Location*: Riyadh, Jeddah, Dammam, Mecca, Medina'' @ [10, 55357, 56528] @
           ascii '' *Size*: From 100 to 1000+ sqm'' @ [10, 55356, 57312] @
           ascii '' *Property Type*: Apartments, Villas, Townhouses, Land, Offices'' @
           [10, 55357, 56462] @ ascii '' *Finishing Level*: Standard, Luxury, Super Luxury'' @
           [10, 55356, 57263] @ ascii '' *Purpose*: Residential, Commercial, Investment'' @
           [10, 10, 55357, 56481] @ ascii '' *For an accurate estimate, tell me:*'' @
           [10, 8226] @ ascii '' Preferred location?'' @ [10, 8226] @
           ascii '' Required size?'' @ [10, 8226] @ ascii '' Property type?'' @ [10, 8226] @
           ascii '' Approximate budget?'' @ [10, 8226] @ ascii '' Purchase purpose?'' @
           [10, 10] @ ascii ''*Etjahh Real Estate - Your Trusted Real Estate Partner* '' @
           [55356, 57312, 10024])"

definition appointmentResponse :: "jsstring \<Rightarrow> jsstring" where
  "appointmentResponse lang =
     (if lang = ascii ''ar''
      then [1576, 1575, 1604, 1591, 1576, 1593, 33, 32, 1610, 1605, 1603, 1606, 1606, 1610, 32] @
           [1605, 1587, 1575, 1593, 1583, 1578, 1603, 32, 1601, 1610, 32, 1581, 1580, 1586, 32] @
           [1605, 1608, 1593, 1583, 46, 10, 10, 55357, 56517, 32, 1605, 1578, 1609, 32, 1610] @
           [1606, 1575, 1587, 1576, 1603, 1567, 10, 9200, 32, 1571, 1608, 1602, 1575, 1578, 1606] @
           [1575, 32, 1575, 1604, 1605, 1578, 1575, 1581, 1577, 58, 10, 32, 32, 32, 8226] @
           [32, 1575, 1604, 1571, 1581, 1583, 32, 45, 32, 1575, 1604, 1582, 1605, 1610, 1587] @
           ascii '': 9 '' @ [1589, 1576, 1575, 1581, 1575, 1611] @ ascii '' - 6 '' @
           [1605, 1587, 1575, 1569, 1611, 10, 32, 32, 32, 8226, 32, 1575, 1604, 1587, 1576] @
           [1578] @ ascii '': 10 '' @ [1589, 1576, 1575, 1581, 1575, 1611] @ ascii '' - 4 '' @
           [1605, 1587, 1575, 1569, 1611, 10, 10, 55356, 57314, 32, 1610, 1605, 1603, 1606, 32] @
           [1571, 1606, 32, 1610, 1603, 1608, 1606, 32, 1575, 1604, 1605, 1608, 1593, 1583, 58] @
           [10, 32, 32, 32, 8226, 32, 1601, 1610, 32, 1605, 1603, 1578, 1576, 1606, 1575] @
           [10, 32, 32, 32, 8226, 32, 1601, 1610, 32, 1605, 1608, 1602, 1593, 32, 1575] @
           [1604, 1593, 1602, 1575, 1585, 10, 32, 32, 32, 8226, 32, 1593, 1576, 1585, 32] @
           [1575, 1604, 1601, 1610, 1583, 1610, 1608, 10, 10, 1605, 1575, 32, 1575, 1604, 1584] @
           [1610, 32, 1578, 1601, 1590, 1604, 1567, 10, 10, 42, 1588, 1585, 1603, 1577, 32] @
           [1573, 1578, 1580, 1575, 1607, 32, 1575, 1604, 1593, 1602, 1575, 1585, 1610, 1577, 42] @
           [32, 55356, 57314]
      else ascii ''Of course! I can help you schedule an appointment.'' @
           [10, 10, 55357, 56517] @ ascii '' When would be convenient for you?'' @ [10, 9200] @
           ascii '' Our available hours:'' @ [10, 32, 32, 32, 8226] @
           ascii '' Sunday - Thursday: 9 AM - 6 PM'' @ [10, 32, 32, 32, 8226] @
           ascii '' Saturday: 10 AM - 4 PM'' @ [10, 10, 55356, 57314] @
           ascii '' The appointment can be:'' @ [10, 32, 32, 32, 8226] @
           ascii '' At our office'' @ [10, 32, 32, 32, 8226] @
           ascii '' At the property location'' @ [10, 32, 32, 32, 8226] @
           ascii '' Via video call'' @ [10, 10] @ ascii ''What would you prefer?'' @ [10, 10] @
           ascii ''*Etjahh Real Estate Company* '' @ [55356, 57314])"

definition generateRuleBasedResponse ::
  "(jsstring \<Rightarrow> jsstring) \<Rightarrow> jsstring \<Rightarrow> jsstring \<Rightarrow> jsstring option" where
  "generateRuleBasedResponse lc userMessage lang =
     (let message = lc userMessage
      in if strIncludes message (ascii ''price'') \<or> strIncludes message (ascii ''cost'')
            \<or> strIncludes message [1587, 1593, 1585]
            \<or> strIncludes message [1578, 1603, 1604, 1601, 1577]
         then Some (priceResponse lang)
         else if strIncludes message (ascii ''appointment'') \<or> strIncludes message (ascii ''meeting'')
                 \<or> strIncludes message [1605, 1608, 1593, 1583]
                 \<or> strIncludes message [1575, 1580, 1578, 1605, 1575, 1593]
         then Some (appointmentResponse lang)
         else None)"

subsection \<open>OpenAIService\<close>

definition isConfigured :: "Services \<Rightarrow> bool" where
  "isConfigured sv \<longleftrightarrow> apiKey sv \<noteq> []"

text \<open>
  OpenAIService.generateResponse throws when no key is configured, when the request
  fails, and when the answer has no content; it sets no time limit for the request.
\<close>

definition OpenAIService_generateResponse :: "Services \<Rightarrow> jsstring \<Rightarrow> jsstring \<Rightarrow> jsstring awaited" where
  "OpenAIService_generateResponse sv userMessage lang =
     (if \<not> isConfigured sv then Rejected
      else (case fetchCompletion sv userMessage lang of
              Fulfilled aiResponse \<Rightarrow> if aiResponse = [] then Rejected else Fulfilled aiResponse
            | Rejected \<Rightarrow> Rejected
            | Pending \<Rightarrow> Pending))"

subsection \<open>AIResponseGenerator.generateResponse\<close>

text \<open>The texts that the generator itself returns.\<close>

definition bookingErrorMessage :: "jsstring \<Rightarrow> jsstring" where
  "bookingErrorMessage lang =
     (if lang = ascii ''ar''
      then [1593, 1584, 1585, 1575, 1611, 1548, 32, 1581, 1583, 1579, 32, 1582, 1591, 1571, 32] @
           [1571, 1579, 1606, 1575, 1569, 32, 1581, 1580, 1586, 32, 1575, 1604, 1605, 1608, 1593] @
           [1583, 46, 32, 1610, 1585, 1580, 1609, 32, 1575, 1604, 1605, 1581, 1575, 1608, 1604] @
           [1577, 32, 1605, 1585, 1577, 32, 1571, 1582, 1585, 1609, 32, 1571, 1608, 32, 1575] @
           [1604, 1575, 1578, 1589, 1575, 1604, 32, 1576, 1606, 1575, 32, 1605, 1576, 1575, 1588] @
           [1585, 1577, 46, 10, 10, 42, 1588, 1585, 1603, 1577, 32, 1573, 1578, 1580, 1575] @
           [1607, 32, 1575, 1604, 1593, 1602, 1575, 1585, 1610, 1577, 42, 32, 55356, 57314]
      else ascii ''Sorry, there was an error booking your appointment. Please try a'' @
           ascii ''gain or contact us directly.'' @ [10, 10] @
           ascii ''*Etjahh Real Estate Company* '' @ [55356, 57314])"

definition summaryResponse :: "jsstring \<Rightarrow> PropertyResponseResult \<Rightarrow> jsstring" where
  "summaryResponse lang enhancedResult =
     (if lang = ascii ''ar''
      then [9989, 32, 42, 1578, 1605, 32, 1573, 1585, 1587, 1575, 1604, 32] @
           decimal (propertiesFound enhancedResult) @
           [32, 1593, 1602, 1575, 1585, 1575, 1578, 32, 1605, 1591, 1575, 1576, 1602, 1577, 32] @
           [1604, 1605, 1593, 1575, 1610, 1610, 1585, 1603, 42, 10, 10, 55357, 56522, 32, 42] @
           [1605, 1604, 1582, 1589, 32, 1575, 1604, 1606, 1578, 1575, 1574, 1580, 58, 42, 10] @
           [55356, 57312, 32, 1593, 1583, 1583, 32, 1575, 1604, 1593, 1602, 1575, 1585, 1575, 1578] @
           [58, 32] @ decimal (propertiesFound enhancedResult) @
           [10, 55357, 56561, 32, 1575, 1604, 1585, 1587, 1575, 1574, 1604, 32, 1575, 1604, 1605] @
           [1585, 1587, 1604, 1577, 58, 32] @ decimal (messagesSent enhancedResult) @
           [10, 55357, 56568, 32, 1575, 1604, 1589, 1608, 1585, 32, 1575, 1604, 1605, 1585, 1587] @
           [1604, 1577, 58, 32] @ decimal (imagesSent enhancedResult) @
           [10, 9201, 65039, 32, 1608, 1602, 1578, 32, 1575, 1604, 1605, 1593, 1575, 1604, 1580] @
           [1577, 58, 32] @ decimal (processingTime enhancedResult) @
           [109, 115, 10, 10, 42, 1588, 1585, 1603, 1577, 32, 1573, 1578, 1580, 1575, 1607] @
           [32, 1575, 1604, 1593, 1602, 1575, 1585, 1610, 1577, 42, 32, 55356, 57314, 10, 1578] @
           [1605, 32, 1573, 1585, 1587, 1575, 1604, 32, 1578, 1601, 1575, 1589, 1610, 1604, 32] @
           [1575, 1604, 1593, 1602, 1575, 1585, 1575, 1578, 32, 1608, 1575, 1604, 1589, 1608, 1585] @
           [32, 1571, 1593, 1604, 1575, 1607, 32, 11014, 65039]
      else [9989] @ ascii '' *Sent '' @ decimal (propertiesFound enhancedResult) @
           ascii '' properties matching your criteria*'' @ [10, 10, 55357, 56522] @
           ascii '' *Results Summary:*'' @ [10, 55356, 57312] @ ascii '' Properties: '' @
           decimal (propertiesFound enhancedResult) @ [10, 55357, 56561] @
           ascii '' Messages sent: '' @ decimal (messagesSent enhancedResult) @
           [10, 55357, 56568] @ ascii '' Images sent: '' @ decimal (imagesSent enhancedResult) @
           [10, 9201, 65039] @ ascii '' Processing time: '' @
           decimal (processingTime enhancedResult) @ [109, 115, 10, 10] @
           ascii ''*Etjahh Real Estate Company* '' @ [55356, 57314, 10] @
           ascii ''Property details and images sent above '' @ [11014, 65039])"

definition errorResponse :: "jsstring \<Rightarrow> jsstring" where
  "errorResponse lang =
     (if lang = ascii ''ar''
      then [1593, 1584, 1585, 1575, 1611, 1548, 32, 1581, 1583, 1579, 32, 1582, 1591, 1571, 32] @
           [1571, 1579, 1606, 1575, 1569, 32, 1605, 1593, 1575, 1604, 1580, 1577, 32, 1591, 1604] @
           [1576, 1603, 46, 32, 1610, 1585, 1580, 1609, 32, 1575, 1604, 1605, 1581, 1575, 1608] @
           [1604, 1577, 32, 1605, 1585, 1577, 32, 1571, 1582, 1585, 1609, 46, 10, 10, 42] @
           [1588, 1585, 1603, 1577, 32, 1573, 1578, 1580, 1575, 1607, 32, 1575, 1604, 1593, 1602] @
           [1575, 1585, 1610, 1577, 42, 32, 55356, 57314]
      else ascii ''Sorry, an error occurred while processing your request. Please t'' @
           ascii ''ry again.'' @ [10, 10] @ ascii ''*Etjahh Real Estate Company* '' @
           [55356, 57314])"

definition generateDefaultResponse :: "jsstring \<Rightarrow> jsstring" where
  "generateDefaultResponse lang =
     (if lang = ascii ''ar''
      then [1605, 1585, 1581, 1576, 1575, 1611, 32, 1576, 1603, 32, 1601, 1610, 32, 42, 1588] @
           [1585, 1603, 1577, 32, 1573, 1578, 1580, 1575, 1607, 32, 1575, 1604, 1593, 1602, 1575] @
           [1585, 1610, 1577, 42, 33, 32, 55357, 56395, 10, 10, 1571, 1606, 1575, 32, 1605] @
           [1587, 1575, 1593, 1583, 1603, 32, 1575, 1604, 1584, 1603, 1610, 32, 1575, 1604, 1605] @
           [1578, 1582, 1589, 1589, 32, 1601, 1610, 32, 1575, 1604, 1593, 1602, 1575, 1585, 1575] @
           [1578, 32, 1575, 1604, 1587, 1593, 1608, 1583, 1610, 1577, 46, 32, 1610, 1605, 1603] @
           [1606, 1606, 1610, 32, 1605, 1587, 1575, 1593, 1583, 1578, 1603, 32, 1601, 1610, 58] @
           [10, 10, 55356, 57312, 32, 42, 1575, 1604, 1576, 1581, 1579, 32, 1593, 1606, 32] @
           [1593, 1602, 1575, 1585, 1575, 1578, 42, 32, 1604, 1604, 1588, 1585, 1575, 1569, 32] @
           [1571, 1608, 32, 1575, 1604, 1573, 1610, 1580, 1575, 1585, 10, 55357, 56496, 32, 42] @
           [1578, 1602, 1610, 1610, 1605, 32, 1575, 1604, 1593, 1602, 1575, 1585, 1575, 1578, 42] @
           [32, 1608, 1578, 1581, 1604, 1610, 1604, 32, 1575, 1604, 1571, 1587, 1593, 1575, 1585] @
           [10, 55357, 56517, 32, 42, 1581, 1580, 1586, 32, 1605, 1608, 1575, 1593, 1610, 1583] @
           [32, 1575, 1604, 1605, 1593, 1575, 1610, 1606, 1577, 42, 32, 1608, 1575, 1604, 1575] @
           [1587, 1578, 1588, 1575, 1585, 1575, 1578, 10, 55357, 56522, 32, 42, 1578, 1581, 1604] @
           [1610, 1604, 32, 1575, 1604, 1587, 1608, 1602, 42, 32, 1608, 1575, 1604, 1575, 1578] @
           [1580, 1575, 1607, 1575, 1578, 32, 1575, 1604, 1593, 1602, 1575, 1585, 1610, 1577, 10] @
           [55357, 56481, 32, 42, 1575, 1604, 1575, 1587, 1578, 1588, 1575, 1585, 1575, 1578, 32] @
           [1575, 1604, 1593, 1602, 1575, 1585, 1610, 1577, 42, 32, 1575, 1604, 1605, 1578, 1582] @
           [1589, 1589, 1577, 10, 10, 1603, 1610, 1601, 32, 1610, 1605, 1603, 1606, 1606, 1610] @
           [32, 1605, 1587, 1575, 1593, 1583, 1578, 1603, 32, 1575, 1604, 1610, 1608, 1605, 1567] @
           [10, 10, 42, 1588, 1585, 1603, 1577, 32, 1573, 1578, 1580, 1575, 1607, 32, 1575] @
           [1604, 1593, 1602, 1575, 1585, 1610, 1577, 32, 45, 32, 1588, 1585, 1610, 1603, 1603] @
           [32, 1575, 1604, 1605, 1608, 1579, 1608, 1602, 32, 1601, 1610, 32, 1575, 1604, 1593] @
           [1602, 1575, 1585, 1575, 1578, 42, 32, 55356, 57314, 10024]
      else ascii ''Welcome to *Etjahh Real Estate Company*! '' @
           [55357, 56395, 10, 10, 73, 39] @
           ascii ''m your intelligent assistant specializing in Saudi real estate. '' @
           ascii ''I can help you with:'' @ [10, 10, 55356, 57312] @
           ascii '' *Property Search* for buying or renting'' @ [10, 55357, 56496] @
           ascii '' *Property Valuation* and price analysis'' @ [10, 55357, 56517] @
           ascii '' *Booking Viewing Appointments* and consultations'' @ [10, 55357, 56522] @
           ascii '' *Market Analysis* and real estate trends'' @ [10, 55357, 56481] @
           ascii '' *Specialized Real Estate Consultations*'' @ [10, 10] @
           ascii ''How can I help you today?'' @ [10, 10] @
           ascii ''*Etjahh Real Estate Company - Your Trusted Real Estate Partner* '' @
           [55356, 57314, 10024])"

text \<open>
  A step of the generator returns a response (\<open>Some\<close>), falls through to the next step
  (\<open>None\<close>), or throws into the outer \<open>catch\<close> (\<open>Inl\<close>); as it awaits promises, this
  outcome is itself awaited.

  Step 1: a booking request of a known client.  An exception inside the inner \<open>try\<close>
  falls through; an appointment that could not be created is answered with the booking
  error message.
\<close>

definition bookingStep ::
  "(jsstring \<Rightarrow> jsstring) \<Rightarrow> Services \<Rightarrow> jsstring \<Rightarrow> jsstring \<Rightarrow> jsstring
     \<Rightarrow> AIResponse option awaited" where
  "bookingStep lc sv userMessage lang clientPhone =
     (if clientPhone \<noteq> [] \<and> detectBookingRequest lc userMessage lang
      then (case createAppointment sv clientPhone userMessage lang of
              Pending \<Rightarrow> Pending
            | Rejected \<Rightarrow> Fulfilled None
            | Fulfilled appointmentResult \<Rightarrow>
                (case (if success appointmentResult then appointment appointmentResult else None) of
                   Some created \<Rightarrow>
                     (case generateConfirmationMessage sv created lang of
                        Inr confirmationMessage \<Rightarrow>
                          Fulfilled (Some \<lparr>response = confirmationMessage,
                                           confidence = Num (98 / 100)\<rparr>)
                      | Inl bookingError \<Rightarrow> Fulfilled None)
                 | None \<Rightarrow>
                     Fulfilled (Some \<lparr>response = bookingErrorMessage lang,
                                      confidence = Num (7 / 10)\<rparr>)))
      else Fulfilled None)"

text \<open>
  The basic search, used by step 2 in three places: \<open>searchProperties\<close> and then
  \<open>generatePropertySearchResponse\<close>; \<open>Rejected\<close> when either throws.
\<close>

definition basicSearch :: "Services \<Rightarrow> criteria \<Rightarrow> jsstring \<Rightarrow> jsstring awaited" where
  "basicSearch sv searchCriteria lang =
     (case searchProperties sv searchCriteria of
        Pending \<Rightarrow> Pending
      | Rejected \<Rightarrow> Rejected
      | Fulfilled searchResults \<Rightarrow>
          (case generatePropertySearchResponse sv searchResults lang of
             Inr text \<Rightarrow> Fulfilled text
           | Inl e \<Rightarrow> Rejected))"

text \<open>The body of the \<open>try\<close> around the enhanced property response.\<close>

definition enhancedSearch ::
  "Services \<Rightarrow> criteria \<Rightarrow> jsstring \<Rightarrow> jsstring \<Rightarrow> jsstring \<Rightarrow> AIResponse awaited" where
  "enhancedSearch sv searchCriteria userMessage lang clientPhone =
     (case sendPropertyResponse sv clientPhone userMessage lang of
        Pending \<Rightarrow> Pending
      | Rejected \<Rightarrow> Rejected
      | Fulfilled enhancedResult \<Rightarrow>
          if success enhancedResult
          then Fulfilled \<lparr>response = summaryResponse lang enhancedResult,
                          confidence = Num (98 / 100)\<rparr>
          else (case basicSearch sv searchCriteria lang of
                  Pending \<Rightarrow> Pending
                | Rejected \<Rightarrow> Rejected
                | Fulfilled text \<Rightarrow> Fulfilled \<lparr>response = text, confidence = Num (85 / 100)\<rparr>))"

text \<open>Step 2: a property search.\<close>

definition propertyStep ::
  "(jsstring \<Rightarrow> jsstring) \<Rightarrow> Services \<Rightarrow> jsstring \<Rightarrow> jsstring \<Rightarrow> jsstring
     \<Rightarrow> AIResponse option awaited" where
  "propertyStep lc sv userMessage lang clientPhone =
     (case extractSearchCriteria lc userMessage lang of
        None \<Rightarrow> Fulfilled None
      | Some searchCriteria \<Rightarrow>
          if clientPhone \<noteq> []
          then (case enhancedSearch sv searchCriteria userMessage lang clientPhone of
                  Pending \<Rightarrow> Pending
                | Fulfilled found \<Rightarrow> Fulfilled (Some found)
                | Rejected \<Rightarrow>
                    (case basicSearch sv searchCriteria lang of
                       Pending \<Rightarrow> Pending
                     | Fulfilled text \<Rightarrow>
                         Fulfilled (Some \<lparr>response = text, confidence = Num (8 / 10)\<rparr>)
                     | Rejected \<Rightarrow> Fulfilled None))
          else (case basicSearch sv searchCriteria lang of
                  Pending \<Rightarrow> Pending
                | Fulfilled text \<Rightarrow>
                    Fulfilled (Some \<lparr>response = text, confidence = Num (9 / 10)\<rparr>)
                | Rejected \<Rightarrow> Fulfilled None))"

text \<open>Step 3: the OpenAI request, when a key is configured.\<close>

definition openAIStep :: "Services \<Rightarrow> jsstring \<Rightarrow> jsstring \<Rightarrow> AIResponse option awaited" where
  "openAIStep sv userMessage lang =
     (if isConfigured sv
      then (case OpenAIService_generateResponse sv userMessage lang of
              Pending \<Rightarrow> Pending
            | Fulfilled openAIResponse \<Rightarrow>
                Fulfilled (Some \<lparr>response = openAIResponse, confidence = Num (9 / 10)\<rparr>)
            | Rejected \<Rightarrow> Fulfilled None)
      else Fulfilled None)"

text \<open>Steps 4 and 5: a rule-based response that is not empty, or the default response.\<close>

definition ruleBasedStep :: "(jsstring \<Rightarrow> jsstring) \<Rightarrow> jsstring \<Rightarrow> jsstring \<Rightarrow> AIResponse" where
  "ruleBasedStep lc userMessage lang =
     (case generateRuleBasedResponse lc userMessage lang of
        Some ruleBasedResponse \<Rightarrow>
          if ruleBasedResponse \<noteq> []
          then \<lparr>response = ruleBasedResponse, confidence = Num (85 / 100)\<rparr>
          else \<lparr>response = generateDefaultResponse lang, confidence = Num (6 / 10)\<rparr>
      | None \<Rightarrow> \<lparr>response = generateDefaultResponse lang, confidence = Num (6 / 10)\<rparr>)"

text \<open>
  The method \<open>generateResponse\<close> of the class.  None of the calls modelled here throws
  outside an inner \<open>try\<close>, so the outer \<open>catch\<close>, which would return \<open>errorResponse\<close> with
  confidence 0.1, is not reached; the method never rejects.
\<close>

definition AIResponseGenerator_generateResponse ::
  "(jsstring \<Rightarrow> jsstring) \<Rightarrow> Services \<Rightarrow> jsstring \<Rightarrow> jsstring \<Rightarrow> jsstring
     \<Rightarrow> AIResponse awaited" where
  "AIResponseGenerator_generateResponse lc sv userMessage lang clientPhone =
     (case bookingStep lc sv userMessage lang clientPhone of
        Pending \<Rightarrow> Pending
      | Rejected \<Rightarrow> Fulfilled \<lparr>response = errorResponse lang, confidence = Num (1 / 10)\<rparr>
      | Fulfilled (Some booked) \<Rightarrow> Fulfilled booked
      | Fulfilled None \<Rightarrow>
          (case propertyStep lc sv userMessage lang clientPhone of
             Pending \<Rightarrow> Pending
           | Rejected \<Rightarrow> Fulfilled \<lparr>response = errorResponse lang, confidence = Num (1 / 10)\<rparr>
           | Fulfilled (Some found) \<Rightarrow> Fulfilled found
           | Fulfilled None \<Rightarrow>
               (case openAIStep sv userMessage lang of
                  Pending \<Rightarrow> Pending
                | Rejected \<Rightarrow>
                    Fulfilled \<lparr>response = errorResponse lang, confidence = Num (1 / 10)\<rparr>
                | Fulfilled (Some generated) \<Rightarrow> Fulfilled generated
                | Fulfilled None \<Rightarrow> Fulfilled (ruleBasedStep lc userMessage lang))))"

text \<open>\<open>cleanup\<close> catches what the \<open>disconnect\<close> calls throw.\<close>

definition cleanup :: "Services \<Rightarrow> unit awaited" where
  "cleanup sv = (case disconnect sv of Pending \<Rightarrow> Pending | _ \<Rightarrow> Fulfilled ())"

text \<open>
  The exported function.  The generator is constructed outside the \<open>try\<close>; the language is
  detected again when it is empty or \<open>en\<close>; \<open>cleanup\<close> is awaited in the \<open>finally\<close> block.
  detectLanguage (utils/helpers, not among the sources at hand) is a parameter.
\<close>

definition generateAIResponse ::
  "(jsstring \<Rightarrow> jsstring) \<Rightarrow> Services \<Rightarrow> (jsstring \<Rightarrow> jsstring) \<Rightarrow> jsstring \<Rightarrow> jsstring \<Rightarrow> jsstring
     \<Rightarrow> AIResponse awaited" where
  "generateAIResponse lc sv detectLanguage userMessage lang clientPhone =
     (if constructorThrows sv then Rejected
      else (let lang = (if lang = [] \<or> lang = ascii ''en'' then detectLanguage userMessage
                        else lang);
                response = AIResponseGenerator_generateResponse lc sv userMessage lang clientPhone
            in case response of
                 Pending \<Rightarrow> Pending
               | _ \<Rightarrow>
                   (case cleanup sv of
                      Pending \<Rightarrow> Pending
                    | Rejected \<Rightarrow> Rejected
                    | Fulfilled u \<Rightarrow> response)))"

section \<open>generateResponse\<close>

text \<open>
  The value of the local variable \<open>responseSource\<close>, which is only logged: one of the four
  templates \<open>QA Database (s% match)\<close>, \<open>AI Agent (confidence: c%)\<close>, \<open>QA Fallback (s% match)\<close>
  and \<open>Default Response\<close>, with the number that is printed into it.
\<close>

datatype source = QADatabase jsnum | AIAgent jsnum | QAFallback jsnum | DefaultResponse

text \<open>
  The collaborators of generateResponse.  \<open>persistIncoming sender senderName message\<close>
  says that findOrCreateClient, saveMessage and updateClientActivity succeed for the
  incoming message, \<open>persistResponse text\<close> that saving the response succeeds.
  \<open>services\<close> is what generateAIResponse reaches.  detectLanguage and getDefaultResponse
  are imported from files that are not part of the sources at hand.
\<close>

record World =
  knowledgeBase :: KnowledgeBase
  persistIncoming :: "jsstring \<Rightarrow> jsstring \<Rightarrow> jsstring \<Rightarrow> bool"
  persistResponse :: "jsstring \<Rightarrow> bool"
  detectLanguage :: "jsstring \<Rightarrow> jsstring"
  services :: Services
  getDefaultResponse :: "jsstring \<Rightarrow> jsstring \<Rightarrow> jsstring"

text \<open>
  What a call of generateResponse does: the promise it returns (fulfilled with the
  response text, rejected if the function threw, pending if it never returns), the source
  it logged (none if it did not get to choose a response) and the number of calls of
  generateAIResponse.
\<close>

record Outcome =
  promise :: "jsstring awaited"
  loggedSource :: "source option"
  aiCalls :: nat

text \<open>The suffix \<open>\n\n(light bulb) *Related topic*: question\<close>.\<close>

definition relatedTopic :: "jsstring \<Rightarrow> jsstring" where
  "relatedTopic q = [10, 10, 55357, 56481, 32] @ ascii ''*Related topic*: '' @ q"

definition errorReply :: jsstring where
  "errorReply =
     ascii ''Sorry, there was an error processing your message. Please try again later.''"

text \<open>
  The choice of the response from the candidates (the \<open>if\<close> on \<open>relevantQAs.length\<close>).
  The label of the AI agent prints \<open>confidence * 100\<close>.
\<close>

definition chooseResponse ::
  "(jsstring \<Rightarrow> jsstring) \<Rightarrow> World \<Rightarrow> jsstring \<Rightarrow> jsstring \<Rightarrow> jsstring
     \<Rightarrow> QAPairWithSimilarity list \<Rightarrow> Outcome" where
  "chooseResponse lc w message sender lang relevantQAs =
     (case relevantQAs of
        bestMatch # _ \<Rightarrow>
          if nge (similarity bestMatch) (Num 90)
          then \<lparr>promise = Fulfilled (answer bestMatch),
                loggedSource = Some (QADatabase (similarity bestMatch)), aiCalls = 0\<rparr>
          else (case generateAIResponse lc (services w) (detectLanguage w) message lang sender of
                  Fulfilled aiResponse \<Rightarrow>
                    \<lparr>promise = Fulfilled (response aiResponse
                                 @ (if nge (similarity bestMatch) (Num 50)
                                    then relatedTopic (question bestMatch) else [])),
                     loggedSource = Some (AIAgent (ntimes (confidence aiResponse) (Num 100))),
                     aiCalls = 1\<rparr>
                | Rejected \<Rightarrow>
                    \<lparr>promise = Fulfilled (answer bestMatch),
                     loggedSource = Some (QAFallback (similarity bestMatch)), aiCalls = 1\<rparr>
                | Pending \<Rightarrow> \<lparr>promise = Pending, loggedSource = None, aiCalls = 1\<rparr>)
      | [] \<Rightarrow>
          (case generateAIResponse lc (services w) (detectLanguage w) message lang sender of
             Fulfilled aiResponse \<Rightarrow>
               \<lparr>promise = Fulfilled (response aiResponse),
                loggedSource = Some (AIAgent (ntimes (confidence aiResponse) (Num 100))),
                aiCalls = 1\<rparr>
           | Rejected \<Rightarrow>
               \<lparr>promise = Fulfilled (getDefaultResponse w message lang),
                loggedSource = Some DefaultResponse, aiCalls = 1\<rparr>
           | Pending \<Rightarrow> \<lparr>promise = Pending, loggedSource = None, aiCalls = 1\<rparr>))"

text \<open>
  The whole function: any exception of the persistence calls is caught by the outer
  \<open>catch\<close>, which returns the fixed apology.  findRelevantQAPairs is called with its
  default limit 5.
\<close>

definition generateResponse ::
  "(jsstring \<Rightarrow> jsstring) \<Rightarrow> World \<Rightarrow> jsstring \<Rightarrow> jsstring \<Rightarrow> jsstring \<Rightarrow> Outcome" where
  "generateResponse lc w message sender senderName =
     (if \<not> persistIncoming w sender senderName message
      then \<lparr>promise = Fulfilled errorReply, loggedSource = None, aiCalls = 0\<rparr>
      else (let relevantQAs = findRelevantQAPairs lc (knowledgeBase w) message 5;
                lang = detectLanguage w message;
                chosen = chooseResponse lc w message sender lang relevantQAs
            in case promise chosen of
                 Fulfilled text \<Rightarrow>
                   if persistResponse w text then chosen
                   else chosen\<lparr>promise := Fulfilled errorReply\<rparr>
               | _ \<Rightarrow> chosen))"

section \<open>Collaborators as the specification describes them\<close>

text \<open>
  Modelled from the spec: findExactMatch (file functions/findExactMatch, which is not
  among the sources).  The specification describes it as the lookup of the active
  entries whose question equals the message after case and white-space normalization.
  It gives the lookup no order, so the entries are returned in the order of the table.
\<close>

definition findExactMatch_spec ::
  "(jsstring \<Rightarrow> jsstring) \<Rightarrow> QAPair list \<Rightarrow> jsstring \<Rightarrow> QAPair list" where
  "findExactMatch_spec lc table message =
     filter (\<lambda>qa. isActive qa \<and> lc (trim (question qa)) = lc (trim message)) table"

text \<open>
  Modelled from the spec: getDefaultResponse (file functions/getDefaultResponse, which is
  not among the sources) returns a fixed canned message that only depends on the detected
  language and is not empty.
\<close>

definition staticDefault :: "(jsstring \<Rightarrow> jsstring \<Rightarrow> jsstring) \<Rightarrow> bool" where
  "staticDefault f \<longleftrightarrow> (\<forall>m m' l. f m l = f m' l) \<and> (\<forall>m l. f m l \<noteq> [])"

text \<open>
  The order of a candidate list: descending similarity, ties broken by descending
  priority.
\<close>

definition rankedBefore :: "QAPairWithSimilarity \<Rightarrow> QAPairWithSimilarity \<Rightarrow> bool" where
  "rankedBefore a b \<longleftrightarrow>
     ngt (similarity a) (similarity b)
     \<or> (similarity a = similarity b \<and> priority a \<ge> priority b)"

section \<open>Example data\<close>

text \<open>
  Rows, knowledge bases and worlds on which the functions are evaluated below.  In
  \<open>knowledgeBaseOf\<close> every query succeeds and the keyword matching finds nothing; in
  \<open>unreachableThenFound\<close> the first queries throw and the keyword matching finds the
  given rows.  \<open>servicesOf\<close> has an OpenAI key, the completion request has the given
  outcome, and the database of appointments and properties cannot be reached; in
  \<open>unconstructible\<close> the constructor of the generator throws.  In \<open>worldOf\<close>
  persistence succeeds and every message is detected as English.
  \<open>kelvinLower\<close> agrees with \<open>toLowerCase\<close> on ASCII text and on the Kelvin sign (U+212A),
  whose lower case is the letter k.
\<close>

definition pair :: "string \<Rightarrow> string \<Rightarrow> string list \<Rightarrow> int \<Rightarrow> bool \<Rightarrow> QAPair" where
  "pair q a ts p act =
     \<lparr>qaId = ascii q, question = ascii q, answer = ascii a, category = ascii ''general'',
      language = ascii ''en'', tags = map ascii ts, priority = p, isActive = act,
      createdAt = 0\<rparr>"

definition knowledgeBaseOf :: "QAPair list \<Rightarrow> KnowledgeBase" where
  "knowledgeBaseOf table =
     \<lparr>qaTable = table, findManyFails = False,
      findExactMatch = (\<lambda>m. Inr (findExactMatch_spec asciiLower table m)),
      extractKeywords = (\<lambda>m n. Inr []),
      findMatchByFullMessage = (\<lambda>m n. Inr []),
      findMatchByKeywords = (\<lambda>ks n. Inr [])\<rparr>"

definition unreachableThenFound :: "QAPair list \<Rightarrow> KnowledgeBase" where
  "unreachableThenFound found =
     \<lparr>qaTable = found, findManyFails = True,
      findExactMatch = (\<lambda>m. Inl Exception),
      extractKeywords = (\<lambda>m n. Inr [m]),
      findMatchByFullMessage = (\<lambda>m n. Inr found),
      findMatchByKeywords = (\<lambda>ks n. Inr found)\<rparr>"

definition servicesOf :: "jsstring awaited \<Rightarrow> Services" where
  "servicesOf completion =
     \<lparr>constructorThrows = False,
      createAppointment = (\<lambda>clientPhone userMessage lang.
         Fulfilled \<lparr>success = False, appointment = None\<rparr>),
      generateConfirmationMessage = (\<lambda>created lang. Inl Exception),
      sendPropertyResponse = (\<lambda>clientPhone userMessage lang. Rejected),
      searchProperties = (\<lambda>searchCriteria. Rejected),
      generatePropertySearchResponse = (\<lambda>searchResults lang. Inl Exception),
      apiKey = ascii ''sk-test'',
      fetchCompletion = (\<lambda>userMessage lang. completion),
      disconnect = Fulfilled ()\<rparr>"

definition worldOf :: "KnowledgeBase \<Rightarrow> Services \<Rightarrow> World" where
  "worldOf b sv =
     \<lparr>knowledgeBase = b,
      persistIncoming = (\<lambda>sender senderName message. True),
      persistResponse = (\<lambda>text. True),
      detectLanguage = (\<lambda>message. ascii ''en''),
      services = sv,
      getDefaultResponse = (\<lambda>message lang. ascii ''Hello! How can we help you?'')\<rparr>"

definition generated :: Services where
  "generated = servicesOf (Fulfilled (ascii ''We have several offers.''))"

definition unconstructible :: Services where
  "unconstructible = (servicesOf Rejected)\<lparr>constructorThrows := True\<rparr>"

definition exampleTable :: "QAPair list" where
  "exampleTable =
     [pair ''c d e'' ''f'' [] 1 True, pair ''zzz'' ''f'' [] 7 True, pair ''c d e'' ''f'' [] 3 True,
      pair ''b a'' ''a b'' [''a''] 2 True, pair ''b a'' ''a b'' [''a''] 9 False]"

definition kelvinLower :: "jsstring \<Rightarrow> jsstring" where
  "kelvinLower s =
     map (\<lambda>c. if 65 \<le> c \<and> c \<le> 90 then c + 32 else if c = 8490 then 107 else c) s"

section \<open>Properties of the similarity engine\<close>

subsection \<open>levenshteinDistance computes the edit distance\<close>

lemma edRec_Nil2 [simp]: "edRec xs [] = length xs"
  by (cases xs) auto

lemma edRec_sym: "edRec xs ys = edRec ys xs"
  by (induction xs ys rule: edRec.induct) (auto simp: min.commute min.left_commute eq_commute)

lemma edRec_drop_left: "edRec (c # s) ys \<le> Suc (edRec s ys)"
  by (cases ys) auto

lemma edRec_drop_right: "edRec xs (c # s) \<le> Suc (edRec xs s)"
  using edRec_drop_left [of c s xs] by (simp add: edRec_sym)

lemma edRec_add_left: "edRec s ys \<le> Suc (edRec (c # s) ys)"
proof (induction ys)
  case Nil
  then show ?case by simp
next
  case (Cons y ys)
  have "edRec s (y # ys) \<le> Suc (edRec s ys)" by (rule edRec_drop_right)
  with Cons show ?case by (auto simp: min_def)
qed

lemma edRec_add_right: "edRec xs s \<le> Suc (edRec xs (c # s))"
  using edRec_add_left [of s xs c] by (simp add: edRec_sym)

lemma edRec_subst_left: "edRec (c # s) ys \<le> Suc (edRec (d # s) ys)"
proof (induction ys)
  case Nil
  then show ?case by simp
next
  case (Cons y ys)
  then show ?case by (auto simp: min_def)
qed

lemma edRec_Cons_same [simp]: "edRec (x # xs) (x # ys) = edRec xs ys"
  using edRec_add_left [of xs ys x] edRec_add_right [of xs ys x] by (simp add: min_def)

lemma edRec_prefix_step:
  assumes "\<And>ys. edRec X ys \<le> Suc (edRec Z ys)" and "length X \<le> Suc (length Z)"
  shows "edRec (a # X) ys \<le> Suc (edRec (a # Z) ys)"
proof (induction ys)
  case Nil
  then show ?case using assms(2) by simp
next
  case (Cons y ys)
  have 1: "edRec X ys \<le> Suc (edRec Z ys)" and 2: "edRec X (y # ys) \<le> Suc (edRec Z (y # ys))"
    using assms(1) by blast+
  show ?case using 1 2 Cons by (auto simp: min_def)
qed

lemma edRec_prefix:
  assumes "\<And>ys. edRec X ys \<le> Suc (edRec Z ys)" and "length X \<le> Suc (length Z)"
  shows "edRec (p @ X) ys \<le> Suc (edRec (p @ Z) ys)"
proof (induction p arbitrary: ys)
  case Nil
  then show ?case using assms(1) by simp
next
  case (Cons a p)
  show ?case using edRec_prefix_step [of "p @ X" "p @ Z" a ys] Cons assms(2) by simp
qed

lemma edit1_edRec: "edit1 xs zs \<Longrightarrow> edRec xs ys \<le> Suc (edRec zs ys)"
proof (induction rule: edit1.induct)
  case (insert p s c)
  show ?case by (rule edRec_prefix) (simp_all add: edRec_add_left)
next
  case (delete p c s)
  show ?case by (rule edRec_prefix) (simp_all add: edRec_drop_left)
next
  case (substitute p c s d)
  show ?case by (rule edRec_prefix) (simp_all add: edRec_subst_left)
qed

lemma editsTo_lower: "editsTo xs ys n \<Longrightarrow> edRec xs ys \<le> n"
proof (induction rule: editsTo.induct)
  case (none xs)
  show ?case by (induction xs) auto
next
  case (more xs zs ys n)
  then show ?case using edit1_edRec [of xs zs ys] by simp
qed

lemma edit1_Cons: "edit1 xs ys \<Longrightarrow> edit1 (a # xs) (a # ys)"
proof (induction rule: edit1.induct)
  case (insert p s c)
  show ?case using edit1.insert [of "a # p" s c] by simp
next
  case (delete p c s)
  show ?case using edit1.delete [of "a # p" c s] by simp
next
  case (substitute p c s d)
  show ?case using edit1.substitute [of "a # p" c s d] by simp
qed

lemma editsTo_Cons: "editsTo xs ys n \<Longrightarrow> editsTo (a # xs) (a # ys) n"
  by (induction rule: editsTo.induct) (auto intro: editsTo.intros edit1_Cons)

lemma editsTo_insert_all: "editsTo [] ys (length ys)"
proof (induction ys)
  case Nil
  show ?case by (simp add: editsTo.none)
next
  case (Cons y ys)
  have "editsTo [y] (y # ys) (length ys)" using editsTo_Cons [OF Cons] by simp
  moreover have "edit1 [] [y]" using edit1.insert [of "[]" "[]" y] by simp
  ultimately show ?case using editsTo.more by fastforce
qed

lemma editsTo_delete_all: "editsTo xs [] (length xs)"
proof (induction xs)
  case Nil
  show ?case by (simp add: editsTo.none)
next
  case (Cons x xs)
  have "edit1 (x # xs) xs" using edit1.delete [of "[]" x xs] by simp
  with Cons show ?case using editsTo.more by fastforce
qed

lemma editsTo_upper: "editsTo xs ys (edRec xs ys)"
proof (induction xs ys rule: edRec.induct)
  case (1 ys)
  show ?case using editsTo_insert_all by simp
next
  case (2 x xs)
  show ?case using editsTo_delete_all [of "x # xs"] by simp
next
  case (3 x xs y ys)
  have del: "editsTo (x # xs) (y # ys) (Suc (edRec xs (y # ys)))"
    using editsTo.more [OF _ "3.IH"(2), of "x # xs"] edit1.delete [of "[]" x xs] by simp
  have ins: "editsTo (x # xs) (y # ys) (Suc (edRec (x # xs) ys))"
    using editsTo.more [OF _ editsTo_Cons [OF "3.IH"(3), of y], of "x # xs"]
      edit1.insert [of "[]" "x # xs" y] by simp
  have sub: "editsTo (x # xs) (y # ys) (edRec xs ys + (if x = y then 0 else 1))"
  proof (cases "x = y")
    case True
    then show ?thesis using editsTo_Cons [OF "3.IH"(1), of y] by simp
  next
    case False
    then show ?thesis
      using editsTo.more [OF _ editsTo_Cons [OF "3.IH"(1), of y], of "x # xs"]
        edit1.substitute [of "[]" x xs y] by simp
  qed
  show ?case using del ins sub by (simp add: min_def)
qed

lemma editDistance_edRec: "editDistance xs ys = edRec xs ys"
  unfolding editDistance_def
  by (rule Least_equality) (auto intro: editsTo_upper editsTo_lower)

lemma edit1_rev: "edit1 xs ys \<Longrightarrow> edit1 (rev xs) (rev ys)"
proof (induction rule: edit1.induct)
  case (insert p s c)
  show ?case using edit1.insert [of "rev s" "rev p" c] by simp
next
  case (delete p c s)
  show ?case using edit1.delete [of "rev s" c "rev p"] by simp
next
  case (substitute p c s d)
  show ?case using edit1.substitute [of "rev s" c "rev p" d] by simp
qed

lemma editsTo_rev: "editsTo xs ys n \<Longrightarrow> editsTo (rev xs) (rev ys) n"
  by (induction rule: editsTo.induct) (auto intro: editsTo.intros edit1_rev)

lemma edRec_rev: "edRec (rev xs) (rev ys) = edRec xs ys"
proof (rule antisym)
  show "edRec (rev xs) (rev ys) \<le> edRec xs ys"
    using editsTo_lower [OF editsTo_rev [OF editsTo_upper [of xs ys]]] .
  show "edRec xs ys \<le> edRec (rev xs) (rev ys)"
    using editsTo_lower [OF editsTo_rev [OF editsTo_upper [of "rev xs" "rev ys"]]] by simp
qed

lemma prefixDistance_0_left [simp]: "j \<le> length str1 \<Longrightarrow> prefixDistance str1 str2 0 j = j"
  by (simp add: prefixDistance_def)

lemma prefixDistance_0_right [simp]: "i \<le> length str2 \<Longrightarrow> prefixDistance str1 str2 i 0 = i"
  by (simp add: prefixDistance_def)

lemma edRec_Cons_Cons:
  "edRec (x # xs) (y # ys) =
     (if x = y then edRec xs ys
      else min (edRec xs ys + 1) (min (edRec xs (y # ys) + 1) (edRec (x # xs) ys + 1)))"
proof (cases "x = y")
  case True
  then show ?thesis by (simp del: edRec.simps)
next
  case False
  then show ?thesis by simp
qed

lemma prefixDistance_Suc:
  assumes "i < length str2" and "j < length str1"
  shows "prefixDistance str1 str2 (Suc i) (Suc j) =
           (if str2 ! i = str1 ! j then prefixDistance str1 str2 i j
            else min (prefixDistance str1 str2 i j + 1)
                     (min (prefixDistance str1 str2 (Suc i) j + 1)
                          (prefixDistance str1 str2 i (Suc j) + 1)))"
  using assms
  by (simp add: prefixDistance_def take_Suc_conv_app_nth edRec_Cons_Cons del: edRec.simps)

lemma fillRow_map:
  assumes "\<And>j. j < length rest \<Longrightarrow>
             g (Suc (j0 + j)) =
               (if c = rest ! j then f (j0 + j)
                else min (f (j0 + j) + 1) (min (g (j0 + j) + 1) (f (Suc (j0 + j)) + 1)))"
  shows "fillRow c rest (map f [j0 ..< Suc (j0 + length rest)]) (g j0) =
           map g [Suc j0 ..< Suc (j0 + length rest)]"
  using assms
proof (induction rest arbitrary: j0)
  case Nil
  then show ?case by simp
next
  case (Cons x xs)
  have head: "g (Suc j0) =
      (if c = x then f j0 else min (f j0 + 1) (min (g j0 + 1) (f (Suc j0) + 1)))"
    using Cons.prems [of 0] by simp
  have tail: "fillRow c xs (map f [Suc j0 ..< Suc (Suc j0 + length xs)]) (g (Suc j0)) =
      map g [Suc (Suc j0) ..< Suc (Suc j0 + length xs)]"
  proof (rule Cons.IH)
    fix j assume "j < length xs"
    then show "g (Suc (Suc j0 + j)) =
        (if c = xs ! j then f (Suc j0 + j)
         else min (f (Suc j0 + j) + 1) (min (g (Suc j0 + j) + 1) (f (Suc (Suc j0 + j)) + 1)))"
      using Cons.prems [of "Suc j"] by simp
  qed
  have upt1: "[j0 ..< Suc (j0 + length (x # xs))] =
      j0 # Suc j0 # [Suc (Suc j0) ..< Suc (Suc j0 + length xs)]"
    by (simp add: upt_conv_Cons del: upt_Suc)
  have upt2: "[Suc j0 ..< Suc (Suc j0 + length xs)] =
      Suc j0 # [Suc (Suc j0) ..< Suc (Suc j0 + length xs)]"
    by (simp add: upt_conv_Cons del: upt_Suc)
  have upt3: "[Suc j0 ..< Suc (j0 + length (x # xs))] =
      Suc j0 # [Suc (Suc j0) ..< Suc (Suc j0 + length xs)]"
    by (simp add: upt_conv_Cons del: upt_Suc)
  show ?case
    unfolding upt1 upt3 using tail head unfolding upt2 by (simp add: Let_def)
qed

lemma nextRow_distanceRow:
  assumes "i < length str2"
  shows "nextRow str1 (distanceRow str1 str2 i) (Suc i) (str2 ! i) = distanceRow str1 str2 (Suc i)"
proof -
  have "fillRow (str2 ! i) str1 (map (prefixDistance str1 str2 i) [0 ..< Suc (0 + length str1)])
          (prefixDistance str1 str2 (Suc i) 0) =
        map (prefixDistance str1 str2 (Suc i)) [Suc 0 ..< Suc (0 + length str1)]"
    by (rule fillRow_map) (use assms in \<open>simp add: prefixDistance_Suc\<close>)
  moreover have "prefixDistance str1 str2 (Suc i) 0 = Suc i"
    using assms by simp
  moreover have "[0 ..< Suc (length str1)] = 0 # [Suc 0 ..< Suc (length str1)]"
    by (simp add: upt_conv_Cons del: upt_Suc)
  ultimately show ?thesis
    by (simp add: nextRow_def distanceRow_def del: upt_Suc)
qed

lemma fillMatrix_rows:
  assumes "str2 = pre @ cs"
    and "matrix = map (distanceRow str1 str2) [0 ..< Suc (length pre)]"
  shows "fillMatrix str1 matrix (Suc (length pre)) cs =
           map (distanceRow str1 str2) [0 ..< Suc (length str2)]"
  using assms
proof (induction cs arbitrary: pre matrix)
  case Nil
  then show ?case by simp
next
  case (Cons c cs)
  have i: "length pre < length str2" and c: "str2 ! length pre = c"
    using Cons.prems(1) by simp_all
  have last: "last matrix = distanceRow str1 str2 (length pre)"
    using Cons.prems(2) by (simp add: last_map)
  have nxt: "nextRow str1 (last matrix) (Suc (length pre)) c =
      distanceRow str1 str2 (Suc (length pre))"
    using nextRow_distanceRow [OF i, of str1] c last by simp
  have "fillMatrix str1 (matrix @ [nextRow str1 (last matrix) (Suc (length pre)) c])
          (Suc (length (pre @ [c]))) cs =
        map (distanceRow str1 str2) [0 ..< Suc (length str2)]"
    by (rule Cons.IH) (use Cons.prems nxt in simp_all)
  then show ?case by simp
qed

lemma levenshteinMatrix_rows:
  "levenshteinMatrix str1 str2 = map (distanceRow str1 str2) [0 ..< Suc (length str2)]"
proof -
  have "distanceRow str1 str2 0 = [0 ..< Suc (length str1)]"
    by (auto simp: distanceRow_def intro!: nth_equalityI simp del: upt_Suc)
  then have "[[0 ..< length str1 + 1]] = map (distanceRow str1 str2) [0 ..< Suc (length ([]::nat list))]"
    by simp
  then show ?thesis
    unfolding levenshteinMatrix_def using fillMatrix_rows [of str2 "[]" str2 _ str1] by simp
qed

lemma levenshteinDistance_edRec: "levenshteinDistance str1 str2 = edRec str1 str2"
proof -
  have "levenshteinDistance str1 str2 = prefixDistance str1 str2 (length str2) (length str1)"
    unfolding levenshteinDistance_def levenshteinMatrix_rows distanceRow_def
    by (simp del: upt_Suc)
  then show ?thesis by (simp add: prefixDistance_def edRec_rev)
qed

lemma levenshteinDistance_editDistance: "levenshteinDistance str1 str2 = editDistance str1 str2"
  by (simp add: levenshteinDistance_edRec editDistance_edRec)

lemma edRec_le_max: "edRec xs ys \<le> max (length xs) (length ys)"
  by (induction xs ys rule: edRec.induct) (auto simp: min_def)

subsection \<open>Word sets, ranges and symmetry of the components\<close>

lemma newSet_foldl:
  "set (foldl (\<lambda>acc x. if x \<in> set acc then acc else acc @ [x]) acc xs) = set acc \<union> set xs
   \<and> (distinct acc \<longrightarrow> distinct (foldl (\<lambda>acc x. if x \<in> set acc then acc else acc @ [x]) acc xs))"
  by (induction xs arbitrary: acc) auto

lemma set_newSet [simp]: "set (newSet xs) = set xs"
  using newSet_foldl [of "[]" xs] by (simp add: newSet_def)

lemma distinct_newSet [simp]: "distinct (newSet xs)"
  using newSet_foldl [of "[]" xs] by (simp add: newSet_def)

lemma length_newSet: "length (newSet xs) = card (set xs)"
  using distinct_card [OF distinct_newSet, of xs] by simp

lemma overlap_ratio:
  "real (length (newSet (filter (\<lambda>x. x \<in> set (newSet ys)) (newSet xs))))
     / real (length (newSet (newSet xs @ newSet ys))) * 100 =
   real (card (set xs \<inter> set ys)) / real (card (set xs \<union> set ys)) * 100"
proof -
  have "set (filter (\<lambda>x. x \<in> set ys) (newSet xs)) = set xs \<inter> set ys" by auto
  then show ?thesis by (simp add: length_newSet)
qed

lemma jaccardSimilarity_closed:
  "jaccardSimilarity lc str1 str2 =
     real (card (set (splitWs (lc str1)) \<inter> set (splitWs (lc str2))))
       / real (card (set (splitWs (lc str1)) \<union> set (splitWs (lc str2)))) * 100"
proof -
  have "splitWs (lc str1) \<noteq> []" by (cases "lc str1") (auto split: list.splits)
  then have "card (set (splitWs (lc str1)) \<union> set (splitWs (lc str2))) \<noteq> 0" by simp
  then show ?thesis
    unfolding jaccardSimilarity_def Let_def overlap_ratio by (simp add: length_newSet)
qed

lemma jaccardSimilarity_sym: "jaccardSimilarity lc str1 str2 = jaccardSimilarity lc str2 str1"
  by (simp add: jaccardSimilarity_closed Int_commute Un_commute)

lemma percent_range: "0 \<le> r \<Longrightarrow> r \<le> 1 \<Longrightarrow> 0 \<le> r * 100 \<and> r * 100 \<le> (100::real)"
  by simp

lemma ratio_range:
  assumes "finite A" "finite B"
  shows "0 \<le> real (card (A \<inter> B)) / real (card (A \<union> B)) * 100"
    and "real (card (A \<inter> B)) / real (card (A \<union> B)) * 100 \<le> 100"
proof -
  show "0 \<le> real (card (A \<inter> B)) / real (card (A \<union> B)) * 100" by simp
  have "card (A \<inter> B) \<le> card (A \<union> B)" using assms by (intro card_mono) auto
  then have "real (card (A \<inter> B)) / real (card (A \<union> B)) \<le> 1"
    by (cases "card (A \<union> B) = 0") (simp_all add: divide_le_eq_1)
  then have "real (card (A \<inter> B)) / real (card (A \<union> B)) * 100 \<le> 1 * 100"
    by (intro mult_right_mono) simp_all
  then show "real (card (A \<inter> B)) / real (card (A \<union> B)) * 100 \<le> 100" by simp
qed

lemma jaccardSimilarity_range:
  "0 \<le> jaccardSimilarity lc str1 str2 \<and> jaccardSimilarity lc str1 str2 \<le> 100"
  unfolding jaccardSimilarity_closed
  using ratio_range [of "set (splitWs (lc str1))" "set (splitWs (lc str2))"] by simp

lemma keywordSimilarity_closed:
  "keywordSimilarity lc str1 str2 =
     (let k1 = set (matchKeywords (lc str1)); k2 = set (matchKeywords (lc str2))
      in if k1 = {} \<and> k2 = {} then 100
         else if k1 = {} \<or> k2 = {} then 0
         else real (card (k1 \<inter> k2)) / real (card (k1 \<union> k2)) * 100)"
  unfolding keywordSimilarity_def Let_def overlap_ratio by simp

lemma keywordSimilarity_sym: "keywordSimilarity lc str1 str2 = keywordSimilarity lc str2 str1"
  by (auto simp: keywordSimilarity_closed Let_def Int_commute Un_commute)

lemma keywordSimilarity_range:
  "0 \<le> keywordSimilarity lc str1 str2 \<and> keywordSimilarity lc str1 str2 \<le> 100"
  unfolding keywordSimilarity_closed Let_def
  using ratio_range [of "set (matchKeywords (lc str1))" "set (matchKeywords (lc str2))"] by simp

lemma levenshteinDistance_le_max:
  "levenshteinDistance str1 str2 \<le> max (length str1) (length str2)"
  by (simp add: levenshteinDistance_edRec edRec_le_max)

lemma levenshteinDistance_sym: "levenshteinDistance str1 str2 = levenshteinDistance str2 str1"
  unfolding levenshteinDistance_edRec by (rule edRec_sym)

lemma levenshteinSimilarity_sym: "levenshteinSimilarity str1 str2 = levenshteinSimilarity str2 str1"
  unfolding levenshteinSimilarity_def levenshteinDistance_sym [of str1 str2]
    max.commute [of "length str1" "length str2"] by (rule refl)

lemma levenshteinSimilarity_range:
  "0 \<le> levenshteinSimilarity str1 str2 \<and> levenshteinSimilarity str1 str2 \<le> 100"
proof -
  let ?m = "max (length str1) (length str2)"
  have le: "real (levenshteinDistance str1 str2) \<le> real ?m"
    using levenshteinDistance_le_max [of str1 str2] by (simp only: of_nat_le_iff)
  show ?thesis
  proof (cases "?m = 0")
    case True
    then show ?thesis by (simp add: levenshteinSimilarity_def)
  next
    case False
    then have "0 < ?m" by (rule neq0_conv [THEN iffD1])
    then have pos: "0 < real ?m" by (simp only: of_nat_0_less_iff)
    have "(real ?m - real (levenshteinDistance str1 str2)) / real ?m \<le> 1"
      using pos by (simp add: divide_le_eq_1)
    moreover have "0 \<le> (real ?m - real (levenshteinDistance str1 str2)) / real ?m"
      using pos le by simp
    ultimately have "0 \<le> (real ?m - real (levenshteinDistance str1 str2)) / real ?m * 100
      \<and> (real ?m - real (levenshteinDistance str1 str2)) / real ?m * 100 \<le> 100"
      by (intro percent_range)
    then show ?thesis using False by (simp add: levenshteinSimilarity_def Let_def)
  qed
qed

lemma hasWordRun3_Cons: "hasWordRun3 cs \<Longrightarrow> hasWordRun3 (c # cs)"
  by (cases cs; cases "tl cs"; cases "tl (tl cs)") auto

lemma hasWordRun3_drop: "hasWordRun3 (drop n s) \<Longrightarrow> hasWordRun3 s"
  by (induction s arbitrary: n) (auto simp: drop_Cons hasWordRun3_Cons split: nat.splits)

lemma hasWordRun3_dropWhile: "hasWordRun3 (dropWhile P s) \<Longrightarrow> hasWordRun3 s"
  using hasWordRun3_drop [of "length (takeWhile P s)" s] by (simp add: dropWhile_eq_drop)

lemma hasWordRun3_takeWhile:
  "\<not> hasWordRun3 (c # cs) \<Longrightarrow> isWordChar c \<Longrightarrow> length (takeWhile isWordChar cs) < 2"
  by (cases cs; cases "tl cs"; cases "tl (tl cs)") auto

lemma matchKeywords_none: "\<not> hasWordRun3 s \<Longrightarrow> matchKeywords s = []"
  unfolding matchKeywords_def
proof (induction s rule: wordRuns.induct)
  case 1
  then show ?case by simp
next
  case (2 c cs)
  show ?case
  proof (cases "isWordChar c")
    case True
    have "\<not> hasWordRun3 (dropWhile isWordChar cs)"
      using "2.prems" hasWordRun3_dropWhile hasWordRun3_Cons by blast
    with True "2.IH"(1) hasWordRun3_takeWhile [OF "2.prems" True] show ?thesis by simp
  next
    case False
    have "\<not> hasWordRun3 cs" using "2.prems" hasWordRun3_Cons by blast
    with False "2.IH"(2) show ?thesis by simp
  qed
qed

text \<open>Lower-casing ASCII letters neither creates nor removes a run of word characters.\<close>

lemma hasWordRun3_asciiLower: "hasWordRun3 (asciiLower s) = hasWordRun3 s"
proof (induction s rule: hasWordRun3.induct)
  case (1 a b c rest)
  have w: "isWordChar (if 65 \<le> x \<and> x \<le> 90 then x + 32 else x) = isWordChar x" for x
    by (auto simp: isWordChar_def)
  from 1 show ?case by (simp add: asciiLower_def w)
qed (simp_all add: asciiLower_def)

subsection \<open>The loop of cosineSimilarity\<close>

lemma orZero_Some [simp]: "orZero (Some v) = v"
  by (cases v) simp_all

lemma counts_empty: "counts Map.empty (\<lambda>w. 0)"
  by (simp add: counts_def getProp_def)

lemma counts_countWord:
  assumes "counts freq c"
  shows "counts (countWord freq word) (c(word := c word + 1))"
  unfolding counts_def
proof
  fix w
  show "orZero (getProp (countWord freq word) w) =
          (if w \<in> set objectPrototypeKeys then JOther else JNumber ((c(word := c word + 1)) w))"
  proof (cases "w = word")
    case True
    have "getProp (countWord freq word) word = Some (plusOne (orZero (getProp freq word)))"
      by (simp add: getProp_def countWord_def)
    with True assms show ?thesis by (simp add: counts_def)
  next
    case False
    then have "getProp (countWord freq word) w = getProp freq w"
      by (simp add: getProp_def countWord_def)
    with False assms show ?thesis by (simp add: counts_def)
  qed
qed

lemma counts_foldl:
  "counts freq c \<Longrightarrow> counts (foldl countWord freq ws) (\<lambda>w. c w + real (count_list ws w))"
proof (induction ws arbitrary: freq c)
  case Nil
  then show ?case by simp
next
  case (Cons x xs)
  have "counts (foldl countWord (countWord freq x) xs)
          (\<lambda>w. (c(x := c x + 1)) w + real (count_list xs w))"
    by (rule Cons.IH) (rule counts_countWord [OF Cons.prems])
  moreover have "(\<lambda>w. (c(x := c x + 1)) w + real (count_list xs w)) =
      (\<lambda>w. c w + real (count_list (x # xs) w))"
    by auto
  ultimately show ?case by simp
qed

lemma counts_wordFrequencies:
  "counts (wordFrequencies ws) (\<lambda>w. real (count_list ws w))"
  using counts_foldl [OF counts_empty, of ws] by (simp add: wordFrequencies_def)

lemma cosineStep_NaN_acc: "foldl (cosineStep freq1 freq2) (NaN, NaN, NaN) ws = (NaN, NaN, NaN)"
  by (induction ws) (simp_all add: cosineStep_def Let_def)

lemma cosineStep_prototype_key:
  assumes "counts freq1 c1" and "counts freq2 c2" and "w \<in> set objectPrototypeKeys"
  shows "cosineStep freq1 freq2 acc w = (NaN, NaN, NaN)"
proof -
  have "orZero (getProp freq1 w) = JOther" and "orZero (getProp freq2 w) = JOther"
    using assms by (simp_all add: counts_def)
  then show ?thesis
    by (cases acc) (simp add: cosineStep_def Let_def split: prod.splits)
qed

lemma nplus_NaN [simp]: "nplus x NaN = NaN"
  by (cases x) simp_all

lemma cosineStep_number:
  assumes "counts freq1 c1" and "counts freq2 c2" and "w \<notin> set objectPrototypeKeys"
  shows "cosineStep freq1 freq2 (Num d, Num a, Num b) w =
           (Num (d + c1 w * c2 w), Num (a + c1 w * c1 w), Num (b + c2 w * c2 w))"
proof -
  have "orZero (getProp freq1 w) = JNumber (c1 w)" and "orZero (getProp freq2 w) = JNumber (c2 w)"
    using assms by (simp_all add: counts_def)
  then show ?thesis by (simp add: cosineStep_def Let_def)
qed

lemma cosine_loop_NaN:
  assumes "counts freq1 c1" and "counts freq2 c2"
    and "\<exists>w \<in> set ws. w \<in> set objectPrototypeKeys"
  shows "foldl (cosineStep freq1 freq2) acc ws = (NaN, NaN, NaN)"
  using assms(3)
proof (induction ws arbitrary: acc)
  case Nil
  then show ?case by simp
next
  case (Cons x xs)
  show ?case
  proof (cases "x \<in> set objectPrototypeKeys")
    case True
    then show ?thesis
      using cosineStep_prototype_key [OF assms(1,2) True] by (simp add: cosineStep_NaN_acc)
  next
    case False
    with Cons.prems have "\<exists>w \<in> set xs. w \<in> set objectPrototypeKeys" by auto
    then show ?thesis using Cons.IH by simp
  qed
qed

lemma cosine_loop_numbers:
  assumes "counts freq1 c1" and "counts freq2 c2"
    and "\<forall>w \<in> set ws. w \<notin> set objectPrototypeKeys"
  shows "foldl (cosineStep freq1 freq2) (Num d, Num a, Num b) ws =
           (Num (d + (\<Sum>w\<leftarrow>ws. c1 w * c2 w)),
            Num (a + (\<Sum>w\<leftarrow>ws. c1 w * c1 w)),
            Num (b + (\<Sum>w\<leftarrow>ws. c2 w * c2 w)))"
  using assms(3)
proof (induction ws arbitrary: d a b)
  case Nil
  then show ?case by simp
next
  case (Cons x xs)
  then show ?case
    using cosineStep_number [OF assms(1,2), of x d a b] by (simp add: add.assoc)
qed

lemma cosineSimilarity_closed:
  "cosineSimilarity lc str1 str2 =
     (if vocabulary lc str1 str2 \<inter> set objectPrototypeKeys \<noteq> {} then NaN
      else let dotProduct = (\<Sum>w \<in> vocabulary lc str1 str2. wordCount lc str1 w * wordCount lc str2 w);
               magnitude1 = (\<Sum>w \<in> vocabulary lc str1 str2. wordCount lc str1 w * wordCount lc str1 w);
               magnitude2 = (\<Sum>w \<in> vocabulary lc str1 str2. wordCount lc str2 w * wordCount lc str2 w)
           in if magnitude1 = 0 \<or> magnitude2 = 0 then Num 0
              else Num (dotProduct / (sqrt magnitude1 * sqrt magnitude2) * 100))"
proof -
  let ?w1 = "splitWs (lc str1)" and ?w2 = "splitWs (lc str2)"
  let ?all = "newSet (?w1 @ ?w2)"
  note c1 = counts_wordFrequencies [of ?w1] and c2 = counts_wordFrequencies [of ?w2]
  have set_all: "set ?all = vocabulary lc str1 str2" by (simp add: vocabulary_def)
  show ?thesis
  proof (cases "vocabulary lc str1 str2 \<inter> set objectPrototypeKeys \<noteq> {}")
    case True
    then have "\<exists>w \<in> set ?all. w \<in> set objectPrototypeKeys" unfolding set_all by auto
    from cosine_loop_NaN [OF c1 c2 this] True show ?thesis
      by (simp add: cosineSimilarity_def Let_def)
  next
    case False
    then have ok: "\<forall>w \<in> set ?all. w \<notin> set objectPrototypeKeys" unfolding set_all by auto
    have sums: "(\<Sum>w\<leftarrow>?all. f w) = (\<Sum>w \<in> vocabulary lc str1 str2. f w)" for f :: "jsstring \<Rightarrow> real"
      using sum_list_distinct_conv_sum_set [of ?all f] set_all by simp
    have nonneg: "0 \<le> (\<Sum>w \<in> vocabulary lc str1 str2. wordCount lc s w * wordCount lc s w)" for s
      by (intro sum_nonneg) simp
    have n1: "\<not> (\<Sum>w \<in> vocabulary lc str1 str2. wordCount lc str1 w * wordCount lc str1 w) < 0"
      and n2: "\<not> (\<Sum>w \<in> vocabulary lc str1 str2. wordCount lc str2 w * wordCount lc str2 w) < 0"
      using nonneg [of str1] nonneg [of str2] by (simp_all only: not_less)
    have loop: "foldl (cosineStep (wordFrequencies ?w1) (wordFrequencies ?w2)) (Num 0, Num 0, Num 0) ?all =
        (Num (\<Sum>w \<in> vocabulary lc str1 str2. wordCount lc str1 w * wordCount lc str2 w),
         Num (\<Sum>w \<in> vocabulary lc str1 str2. wordCount lc str1 w * wordCount lc str1 w),
         Num (\<Sum>w \<in> vocabulary lc str1 str2. wordCount lc str2 w * wordCount lc str2 w))"
      using cosine_loop_numbers [OF c1 c2 ok, of 0 0 0] unfolding sums
      by (simp add: wordCount_def [symmetric])
    show ?thesis
      unfolding cosineSimilarity_def Let_def loop using False n1 n2 by simp
  qed
qed

lemma vocabulary_sym: "vocabulary lc str1 str2 = vocabulary lc str2 str1"
  by (auto simp: vocabulary_def)

lemma cosineSimilarity_sym: "cosineSimilarity lc str1 str2 = cosineSimilarity lc str2 str1"
  unfolding cosineSimilarity_closed vocabulary_sym [of lc str1 str2] Let_def
  by (simp add: mult.commute disj_commute)

subsection \<open>The range of the score\<close>

text \<open>
  The cosine component is at most 100 by the Cauchy-Schwarz inequality.  The score is in
  the interval from 0 to 100 whenever it is a number, and it is \<open>NaN\<close> exactly when the
  normalized messages are distinct, non-empty and one of their words is a key of
  \<open>Object.prototype\<close>.
\<close>

lemma cross_term_bound:
  fixes A B C x y :: real
  assumes "C * C \<le> A * B" and "0 \<le> A" and "0 \<le> B"
  shows "2 * C * x * y \<le> A * (y * y) + B * (x * x)"
proof -
  have "(2 * C * x * y)\<^sup>2 = 4 * (C * C) * ((x * y)\<^sup>2)"
    by (simp add: power2_eq_square algebra_simps)
  also have "\<dots> \<le> 4 * (A * B) * ((x * y)\<^sup>2)"
    using assms(1) by (intro mult_right_mono mult_left_mono) simp_all
  also have "\<dots> \<le> 4 * (A * B) * ((x * y)\<^sup>2) + (A * (y * y) - B * (x * x))\<^sup>2"
    by simp
  also have "\<dots> = (A * (y * y) + B * (x * x))\<^sup>2"
    by (simp add: power2_eq_square algebra_simps)
  finally have "(2 * C * x * y)\<^sup>2 \<le> (A * (y * y) + B * (x * x))\<^sup>2" .
  moreover have "0 \<le> A * (y * y) + B * (x * x)"
    using assms(2,3) by simp
  ultimately show ?thesis by (rule power2_le_imp_le)
qed

lemma cauchy_schwarz_sum:
  fixes f g :: "'a \<Rightarrow> real"
  assumes "finite S"
  shows "(\<Sum>w\<in>S. f w * g w) * (\<Sum>w\<in>S. f w * g w) \<le> (\<Sum>w\<in>S. f w * f w) * (\<Sum>w\<in>S. g w * g w)"
  using assms
proof (induction S rule: finite_induct)
  case empty
  then show ?case by simp
next
  case (insert x S)
  let ?C = "\<Sum>w\<in>S. f w * g w" and ?A = "\<Sum>w\<in>S. f w * f w" and ?B = "\<Sum>w\<in>S. g w * g w"
  have A: "0 \<le> ?A" and B: "0 \<le> ?B" by (intro sum_nonneg, simp)+
  have cross: "2 * ?C * f x * g x \<le> ?A * (g x * g x) + ?B * (f x * f x)"
    by (rule cross_term_bound [OF insert.IH A B])
  have "(f x * g x + ?C) * (f x * g x + ?C) =
      ?C * ?C + 2 * ?C * f x * g x + (f x * f x) * (g x * g x)"
    by (simp add: algebra_simps)
  also have "\<dots> \<le> ?A * ?B + (?A * (g x * g x) + ?B * (f x * f x)) + (f x * f x) * (g x * g x)"
    using insert.IH cross by linarith
  also have "\<dots> = (f x * f x + ?A) * (g x * g x + ?B)"
    by (simp add: algebra_simps)
  finally show ?case using insert.hyps by simp
qed

lemma quotient_le_one: "a \<le> d \<Longrightarrow> 0 \<le> d \<Longrightarrow> a / d \<le> (1::real)"
  by (cases "d = 0") (simp_all add: divide_le_eq_1)

lemma cosine_ratio_range:
  fixes f g :: "'a \<Rightarrow> real"
  assumes "finite S" and "\<And>w. 0 \<le> f w" and "\<And>w. 0 \<le> g w"
  shows "0 \<le> (\<Sum>w\<in>S. f w * g w) / (sqrt (\<Sum>w\<in>S. f w * f w) * sqrt (\<Sum>w\<in>S. g w * g w))"
    and "(\<Sum>w\<in>S. f w * g w) / (sqrt (\<Sum>w\<in>S. f w * f w) * sqrt (\<Sum>w\<in>S. g w * g w)) \<le> 1"
proof -
  let ?C = "\<Sum>w\<in>S. f w * g w" and ?A = "\<Sum>w\<in>S. f w * f w" and ?B = "\<Sum>w\<in>S. g w * g w"
  have C: "0 \<le> ?C" using assms(2,3) by (intro sum_nonneg) simp
  have A: "0 \<le> ?A" and B: "0 \<le> ?B" by (intro sum_nonneg, simp)+
  show "0 \<le> ?C / (sqrt ?A * sqrt ?B)" using A B C by simp
  have "sqrt (?C * ?C) \<le> sqrt (?A * ?B)"
    using cauchy_schwarz_sum [OF assms(1), of f g] by (simp only: real_sqrt_le_iff)
  then have "?C \<le> sqrt ?A * sqrt ?B" using C by (simp add: real_sqrt_mult)
  moreover have "0 \<le> sqrt ?A * sqrt ?B" using A B by simp
  ultimately show "?C / (sqrt ?A * sqrt ?B) \<le> 1"
    by (rule quotient_le_one)
qed

lemma cosineSimilarity_range:
  "cosineSimilarity lc str1 str2 = NaN
   \<or> (\<exists>c. cosineSimilarity lc str1 str2 = Num c \<and> 0 \<le> c \<and> c \<le> 100)"
proof (cases "vocabulary lc str1 str2 \<inter> set objectPrototypeKeys \<noteq> {}")
  case True
  then show ?thesis by (simp add: cosineSimilarity_closed)
next
  case False
  let ?S = "vocabulary lc str1 str2"
  have fin: "finite ?S" by (simp add: vocabulary_def)
  note r = cosine_ratio_range [OF fin, of "wordCount lc str1" "wordCount lc str2"]
  have "0 \<le> (\<Sum>w\<in>?S. wordCount lc str1 w * wordCount lc str2 w)
            / (sqrt (\<Sum>w\<in>?S. wordCount lc str1 w * wordCount lc str1 w)
               * sqrt (\<Sum>w\<in>?S. wordCount lc str2 w * wordCount lc str2 w)) * 100
        \<and> (\<Sum>w\<in>?S. wordCount lc str1 w * wordCount lc str2 w)
            / (sqrt (\<Sum>w\<in>?S. wordCount lc str1 w * wordCount lc str1 w)
               * sqrt (\<Sum>w\<in>?S. wordCount lc str2 w * wordCount lc str2 w)) * 100 \<le> 100"
    by (rule percent_range) (rule r; simp add: wordCount_def)+
  with False show ?thesis
    unfolding cosineSimilarity_closed Let_def by auto
qed

lemma round2_range: "0 \<le> x \<Longrightarrow> x \<le> 100 \<Longrightarrow> \<exists>s. round2 (Num x) = Num s \<and> 0 \<le> s \<and> s \<le> 100"
proof -
  assume "0 \<le> x" and "x \<le> 100"
  then have "0 \<le> \<lfloor>x * 100 + 1 / 2\<rfloor>" and "\<lfloor>x * 100 + 1 / 2\<rfloor> \<le> 10000"
    by (simp, linarith)
  then have "0 \<le> (of_int \<lfloor>x * 100 + 1 / 2\<rfloor> :: real) / 100"
    and "(of_int \<lfloor>x * 100 + 1 / 2\<rfloor> :: real) / 100 \<le> 100"
    by simp_all
  moreover have "round2 (Num x) = Num (of_int \<lfloor>x * 100 + 1 / 2\<rfloor> / 100)" by simp
  ultimately show ?thesis by blast
qed

lemma calculateSimilarity_range_or_NaN:
  "calculateSimilarity lc a b = NaN
   \<or> (\<exists>s. calculateSimilarity lc a b = Num s \<and> 0 \<le> s \<and> s \<le> 100)"
proof -
  let ?m1 = "lc (trim a)" and ?m2 = "lc (trim b)"
  consider "cosineSimilarity lc ?m1 ?m2 = NaN"
    | c where "cosineSimilarity lc ?m1 ?m2 = Num c" "0 \<le> c" "c \<le> 100"
    using cosineSimilarity_range [of lc ?m1 ?m2] by blast
  then show ?thesis
  proof cases
    case 1
    then show ?thesis by (simp add: calculateSimilarity_def Let_def weightedScore_def)
  next
    case 2
    note l = levenshteinSimilarity_range [of ?m1 ?m2]
      and j = jaccardSimilarity_range [of lc ?m1 ?m2]
      and k = keywordSimilarity_range [of lc ?m1 ?m2]
    let ?w = "levenshteinSimilarity ?m1 ?m2 * (2 / 10) + jaccardSimilarity lc ?m1 ?m2 * (3 / 10)
        + c * (3 / 10) + keywordSimilarity lc ?m1 ?m2 * (2 / 10)"
    have "0 \<le> ?w" and "?w \<le> 100" using l j k 2(2,3) by linarith+
    then obtain s where "round2 (Num ?w) = Num s" "0 \<le> s" "s \<le> 100"
      using round2_range by blast
    then show ?thesis
      using 2(1) by (simp add: calculateSimilarity_def Let_def weightedScore_def)
  qed
qed

lemma calculateContextualSimilarity_range_or_NaN:
  "calculateContextualSimilarity lc m q ans ts = NaN
   \<or> (\<exists>s. calculateContextualSimilarity lc m q ans ts = Num s \<and> 0 \<le> s \<and> s \<le> 100)"
proof -
  consider "calculateSimilarity lc m q = NaN"
    | s where "calculateSimilarity lc m q = Num s" "0 \<le> s" "s \<le> 100"
    using calculateSimilarity_range_or_NaN [of lc m q] by blast
  then show ?thesis
  proof cases
    case 1
    then show ?thesis by (simp add: calculateContextualSimilarity_def Let_def)
  next
    case 2
    consider "calculateSimilarity lc m ans = NaN"
      | t where "calculateSimilarity lc m ans = Num t" "0 \<le> t" "t \<le> 100"
      using calculateSimilarity_range_or_NaN [of lc m ans] by blast
    then show ?thesis
    proof cases
      case 1
      with 2 show ?thesis by (simp add: calculateContextualSimilarity_def Let_def)
    next
      case 2
      with \<open>calculateSimilarity lc m q = Num s\<close> \<open>0 \<le> s\<close> show ?thesis
        by (simp add: calculateContextualSimilarity_def Let_def min_def)
    qed
  qed
qed

lemma calculateSimilarity_NaN_iff:
  "calculateSimilarity lc a b = NaN \<longleftrightarrow>
     lc (trim a) \<noteq> lc (trim b) \<and> lc (trim a) \<noteq> [] \<and> lc (trim b) \<noteq> []
     \<and> vocabulary lc (lc (trim a)) (lc (trim b)) \<inter> set objectPrototypeKeys \<noteq> {}"
proof (cases "vocabulary lc (lc (trim a)) (lc (trim b)) \<inter> set objectPrototypeKeys \<noteq> {}")
  case True
  then have "cosineSimilarity lc (lc (trim a)) (lc (trim b)) = NaN"
    by (simp add: cosineSimilarity_closed)
  with True show ?thesis by (simp add: calculateSimilarity_def Let_def weightedScore_def)
next
  case False
  then have "cosineSimilarity lc (lc (trim a)) (lc (trim b)) \<noteq> NaN"
    unfolding cosineSimilarity_closed Let_def by simp
  then obtain c where "cosineSimilarity lc (lc (trim a)) (lc (trim b)) = Num c"
    by (cases "cosineSimilarity lc (lc (trim a)) (lc (trim b))") simp_all
  with False show ?thesis by (simp add: calculateSimilarity_def Let_def weightedScore_def)
qed

subsection \<open>Claims about calculateSimilarity\<close>

lemmas eval_defs = ascii_def asciiLower_def trim_def isWhiteSpace_def isWordChar_def

text \<open>
  C8.  If the two inputs are identical after trimming and lower-casing, the score is
  exactly 100 (also when both are empty); if exactly one of them is empty after
  normalization, the score is 0.
\<close>

theorem calculateSimilarity_edge_cases:
  "(lc (trim a) = lc (trim b) \<longrightarrow> calculateSimilarity lc a b = Num 100)
   \<and> ((lc (trim a) = []) \<noteq> (lc (trim b) = []) \<longrightarrow> calculateSimilarity lc a b = Num 0)"
  by (auto simp: calculateSimilarity_def Let_def)

theorem calculateSimilarity_edge_cases_witness:
  "calculateSimilarity asciiLower (ascii '' Hello'') (ascii ''hello '') = Num 100
   \<and> calculateSimilarity asciiLower (ascii ''  '') (ascii ''x'') = Num 0"
  using calculateSimilarity_edge_cases [of asciiLower "ascii '' Hello''" "ascii ''hello ''"]
        calculateSimilarity_edge_cases [of asciiLower "ascii ''  ''" "ascii ''x''"]
  by (simp add: eval_defs)

text \<open>
  The two orders of the arguments give the same result, a number or \<open>NaN\<close>: the early
  checks and the four components do not depend on the order.
\<close>

lemma calculateSimilarity_sym: "calculateSimilarity lc a b = calculateSimilarity lc b a"
proof -
  let ?m1 = "lc (trim a)" and ?m2 = "lc (trim b)"
  have "weightedScore (levenshteinSimilarity ?m1 ?m2) (jaccardSimilarity lc ?m1 ?m2)
          (cosineSimilarity lc ?m1 ?m2) (keywordSimilarity lc ?m1 ?m2) =
        weightedScore (levenshteinSimilarity ?m2 ?m1) (jaccardSimilarity lc ?m2 ?m1)
          (cosineSimilarity lc ?m2 ?m1) (keywordSimilarity lc ?m2 ?m1)"
    by (simp only: levenshteinSimilarity_sym [of ?m1 ?m2] jaccardSimilarity_sym [of lc ?m1 ?m2]
        cosineSimilarity_sym [of lc ?m1 ?m2] keywordSimilarity_sym [of lc ?m1 ?m2])
  then have w: "round2 (weightedScore (levenshteinSimilarity ?m1 ?m2) (jaccardSimilarity lc ?m1 ?m2)
          (cosineSimilarity lc ?m1 ?m2) (keywordSimilarity lc ?m1 ?m2)) =
        round2 (weightedScore (levenshteinSimilarity ?m2 ?m1) (jaccardSimilarity lc ?m2 ?m1)
          (cosineSimilarity lc ?m2 ?m1) (keywordSimilarity lc ?m2 ?m1))"
    by (rule arg_cong)
  show ?thesis
  proof (cases "?m1 = ?m2")
    case True
    then show ?thesis by (simp add: calculateSimilarity_def Let_def)
  next
    case False
    then have "?m2 \<noteq> ?m1" by (rule not_sym)
    with False w show ?thesis by (auto simp: calculateSimilarity_def Let_def)
  qed
qed

text \<open>
  The comparison \<open>score(a, b) == score(b, a)\<close> holds exactly when the score is a number,
  that is, when no word of the two normalized messages is a key of \<open>Object.prototype\<close>.
\<close>

lemma numEq_swapped_iff:
  "numEq (calculateSimilarity lc a b) (calculateSimilarity lc b a) \<longleftrightarrow>
     calculateSimilarity lc a b \<noteq> NaN"
  unfolding calculateSimilarity_sym [of lc b a]
  by (cases "calculateSimilarity lc a b") (simp_all add: numEq_def)

lemmas constructor_eval = calculateSimilarity_def Let_def eval_defs cosineSimilarity_def
  newSet_def wordFrequencies_def countWord_def getProp_def objectPrototypeKeys_def
  cosineStep_def weightedScore_def

lemma score_constructor_x: "calculateSimilarity asciiLower (ascii ''constructor'') (ascii ''x'') = NaN"
  by (simp add: constructor_eval)

lemma score_x_constructor: "calculateSimilarity asciiLower (ascii ''x'') (ascii ''constructor'') = NaN"
  by (simp add: constructor_eval)

text \<open>
  C10.  The symmetry \<open>score(a, b) == score(b, a)\<close> does not hold for all inputs: for the
  messages \<open>constructor\<close> and \<open>x\<close> both orders give \<open>NaN\<close> (the read of the frequency map
  in cosineSimilarity finds \<open>Object.prototype.constructor\<close>), and \<open>NaN\<close> is not equal to
  itself, so the comparison is false.
\<close>

theorem calculateSimilarity_not_equal_to_swapped:
  "calculateSimilarity asciiLower (ascii ''constructor'') (ascii ''x'') = NaN
   \<and> calculateSimilarity asciiLower (ascii ''x'') (ascii ''constructor'') = NaN
   \<and> \<not> numEq (calculateSimilarity asciiLower (ascii ''constructor'') (ascii ''x''))
               (calculateSimilarity asciiLower (ascii ''x'') (ascii ''constructor''))"
  by (simp add: score_constructor_x score_x_constructor numEq_def)

text \<open>
  As long as no word is a key of \<open>Object.prototype\<close>, cosineSimilarity is the
  frequency-vector cosine of the specification.
\<close>

lemma cosineSimilarity_frequencyCosine:
  assumes "vocabulary lc str1 str2 \<inter> set objectPrototypeKeys = {}"
  shows "cosineSimilarity lc str1 str2 = Num (frequencyCosine lc str1 str2)"
proof -
  let ?all = "newSet (splitWs (lc str1) @ splitWs (lc str2))"
  have set_all: "set ?all = vocabulary lc str1 str2" by (simp add: vocabulary_def)
  have sums: "(\<Sum>w\<leftarrow>?all. f w) = (\<Sum>w \<in> vocabulary lc str1 str2. f w)" for f :: "jsstring \<Rightarrow> real"
    using sum_list_distinct_conv_sum_set [of ?all f] set_all by simp
  show ?thesis
    unfolding cosineSimilarity_closed frequencyCosine_def Let_def sums using assms by simp
qed

lemma components_constructor_x:
  "editDistance (asciiLower (trim (ascii ''constructor''))) (asciiLower (trim (ascii ''x''))) = 11"
  "jaccardSimilarity asciiLower (asciiLower (trim (ascii ''constructor'')))
     (asciiLower (trim (ascii ''x''))) = 0"
  "frequencyCosine asciiLower (asciiLower (trim (ascii ''constructor'')))
     (asciiLower (trim (ascii ''x''))) = 0"
  "keywordSimilarity asciiLower (asciiLower (trim (ascii ''constructor'')))
     (asciiLower (trim (ascii ''x''))) = 0"
proof -
  show "editDistance (asciiLower (trim (ascii ''constructor''))) (asciiLower (trim (ascii ''x''))) = 11"
    unfolding levenshteinDistance_editDistance [symmetric]
    by (simp add: eval_defs levenshteinDistance_def levenshteinMatrix_def nextRow_def)
  show "jaccardSimilarity asciiLower (asciiLower (trim (ascii ''constructor'')))
      (asciiLower (trim (ascii ''x''))) = 0"
    by (simp add: eval_defs jaccardSimilarity_def newSet_def Let_def)
  show "frequencyCosine asciiLower (asciiLower (trim (ascii ''constructor'')))
      (asciiLower (trim (ascii ''x''))) = 0"
    by (simp add: eval_defs frequencyCosine_def wordCount_def newSet_def Let_def)
  show "keywordSimilarity asciiLower (asciiLower (trim (ascii ''constructor'')))
      (asciiLower (trim (ascii ''x''))) = 0"
    by (simp add: eval_defs keywordSimilarity_def matchKeywords_def Let_def)
qed

text \<open>
  C6.  The score is not the weighted sum for all inputs with non-empty and distinct
  normalized forms.  For the messages \<open>constructor\<close> and \<open>x\<close> the edit distance is 11 and
  the four components of the specification (edit similarity, word-set overlap,
  frequency-vector cosine, keyword overlap) are all 0, so the weighted sum
  0.20 editSim + 0.30 jaccardSim + 0.30 cosineSim + 0.20 keywordSim rounded to two
  decimal places is 0; calculateSimilarity returns \<open>NaN\<close>.
\<close>

theorem calculateSimilarity_constructor_not_weighted_sum:
  "let msg1 = asciiLower (trim (ascii ''constructor''));
       msg2 = asciiLower (trim (ascii ''x''));
       maxLen = max (length msg1) (length msg2);
       editSim = 100 * (real maxLen - real (editDistance msg1 msg2)) / real maxLen;
       weighted = editSim * (2 / 10) + jaccardSimilarity asciiLower msg1 msg2 * (3 / 10)
                  + frequencyCosine asciiLower msg1 msg2 * (3 / 10)
                  + keywordSimilarity asciiLower msg1 msg2 * (2 / 10)
   in msg1 \<noteq> [] \<and> msg2 \<noteq> [] \<and> msg1 \<noteq> msg2
      \<and> editDistance msg1 msg2 = 11
      \<and> round2 (Num weighted) = Num 0
      \<and> calculateSimilarity asciiLower (ascii ''constructor'') (ascii ''x'') = NaN"
  unfolding Let_def components_constructor_x score_constructor_x
  by (simp add: eval_defs)

text \<open>
  C9 (as the source has it).  The keyword pattern only matches ASCII word characters, and
  it is applied to the lower-cased strings.  For two strings whose lower-cased forms
  contain no run of three ASCII word characters (two Arabic messages, for example) both
  keyword lists are empty and the keyword component is 100, so it adds its full weight,
  20 points, to the weighted sum.
\<close>

theorem keyword_component_of_text_without_ascii_words:
  assumes "\<not> hasWordRun3 (lc str1)" and "\<not> hasWordRun3 (lc str2)"
  shows "matchKeywords (lc str1) = [] \<and> matchKeywords (lc str2) = []
         \<and> keywordSimilarity lc str1 str2 = 100
         \<and> weightedScore levenshtein jaccard cosine (keywordSimilarity lc str1 str2) =
             nplus (nplus (nplus (Num (levenshtein * (2 / 10))) (Num (jaccard * (3 / 10))))
                          (ntimes cosine (Num (3 / 10))))
                   (Num 20)"
  using assms by (simp add: keywordSimilarity_def matchKeywords_none weightedScore_def)

theorem keyword_component_of_text_without_ascii_words_witness:
  "keywordSimilarity asciiLower [1605, 1585, 1581, 1576, 1575] [1588, 1603, 1585, 1575] = 100"
  using keyword_component_of_text_without_ascii_words
          [of asciiLower "[1605, 1585, 1581, 1576, 1575]" "[1588, 1603, 1585, 1575]"]
  by (simp add: eval_defs)

text \<open>
  The claim as stated, for strings that themselves contain no run of three ASCII word
  characters, fails: lower-casing can create ASCII letters.  Three Kelvin signs contain
  no ASCII word character, their lower-cased form is the keyword \<open>kkk\<close>, the Arabic
  letter of the other string gives no keyword, and the keyword component is 0.
\<close>

theorem keyword_component_kelvin_counterexample:
  "\<not> hasWordRun3 [8490, 8490, 8490] \<and> \<not> hasWordRun3 [1605]
   \<and> matchKeywords (kelvinLower [8490, 8490, 8490]) = [ascii ''kkk'']
   \<and> matchKeywords (kelvinLower [1605]) = []
   \<and> keywordSimilarity kelvinLower [8490, 8490, 8490] [1605] = 0"
  by (simp add: keywordSimilarity_def matchKeywords_def kelvinLower_def isWordChar_def ascii_def)

text \<open>
  C5.  The source documents the score as a number between 0 and 100.  For a message with
  the word \<open>constructor\<close> the read \<open>freq2[word] || 0\<close> in cosineSimilarity finds
  \<open>Object.prototype.constructor\<close>, the products are \<open>NaN\<close>, and so are the score and the
  contextual score: they are not in the interval from 0 to 100.
\<close>

theorem calculateSimilarity_constructor_NaN:
  "calculateSimilarity asciiLower (ascii ''constructor'') (ascii ''x'') = NaN
   \<and> calculateContextualSimilarity asciiLower (ascii ''constructor'') (ascii ''x'') (ascii ''y'') [] = NaN"
proof -
  have s: "calculateSimilarity asciiLower (ascii ''constructor'') (ascii ''x'') = NaN"
    by (simp add: calculateSimilarity_def Let_def eval_defs cosineSimilarity_def newSet_def
        wordFrequencies_def countWord_def getProp_def objectPrototypeKeys_def cosineStep_def
        weightedScore_def)
  then show ?thesis
    by (simp add: calculateContextualSimilarity_def tagMatches_def Let_def)
qed

section \<open>Properties of findRelevantQAPairs and generateResponse\<close>

lemmas world_defs = pair_def knowledgeBaseOf_def unreachableThenFound_def worldOf_def
  generated_def servicesOf_def unconstructible_def

subsection \<open>Sorting\<close>

lemma set_insertStable [simp]: "set (insertStable after x ys) = insert x (set ys)"
  by (induction ys) auto

lemma set_sortStable [simp]: "set (sortStable after xs) = set xs"
  by (induction xs) (simp_all add: sortStable_def)

lemma length_insertStable [simp]: "length (insertStable after x ys) = Suc (length ys)"
  by (induction ys) auto

lemma length_sortStable [simp]: "length (sortStable after xs) = length xs"
  by (induction xs) (simp_all add: sortStable_def)

lemma sorted_insertStable:
  assumes total: "\<And>a b. a \<in> S \<Longrightarrow> b \<in> S \<Longrightarrow> after a b \<Longrightarrow> le b a"
    and keep: "\<And>a b. a \<in> S \<Longrightarrow> b \<in> S \<Longrightarrow> \<not> after a b \<Longrightarrow> le a b"
    and trans: "\<And>a b c. a \<in> S \<Longrightarrow> b \<in> S \<Longrightarrow> c \<in> S \<Longrightarrow> le a b \<Longrightarrow> le b c \<Longrightarrow> le a c"
    and "sorted_wrt le ys" and "set ys \<subseteq> S" and "x \<in> S"
  shows "sorted_wrt le (insertStable after x ys)"
  using assms(4,5)
proof (induction ys)
  case Nil
  then show ?case by simp
next
  case (Cons y ys)
  show ?case
  proof (cases "after x y")
    case True
    have "le y x" using total [of x y] True Cons.prems(2) assms(6) by simp
    with True Cons show ?thesis by auto
  next
    case False
    have xy: "le x y" using keep [of x y] False Cons.prems(2) assms(6) by simp
    have "le x z" if "z \<in> set ys" for z
      using trans [of x y z] xy that Cons.prems assms(6) by auto
    with False xy Cons.prems(1) show ?thesis by auto
  qed
qed

lemma sorted_sortStable:
  assumes total: "\<And>a b. a \<in> S \<Longrightarrow> b \<in> S \<Longrightarrow> after a b \<Longrightarrow> le b a"
    and keep: "\<And>a b. a \<in> S \<Longrightarrow> b \<in> S \<Longrightarrow> \<not> after a b \<Longrightarrow> le a b"
    and trans: "\<And>a b c. a \<in> S \<Longrightarrow> b \<in> S \<Longrightarrow> c \<in> S \<Longrightarrow> le a b \<Longrightarrow> le b c \<Longrightarrow> le a c"
    and "set xs \<subseteq> S"
  shows "sorted_wrt le (sortStable after xs)"
  using assms(4)
proof (induction xs)
  case Nil
  then show ?case by (simp add: sortStable_def)
next
  case (Cons x xs)
  have "sorted_wrt le (insertStable after x (sortStable after xs))"
    by (rule sorted_insertStable [where S = S, OF total keep trans]) (use Cons in auto)
  then show ?case by (simp add: sortStable_def)
qed

lemma compareQA_after:
  assumes "similarity a = Num x" and "similarity b = Num y"
  shows "ngt (compareQA a b) (Num 0) \<longleftrightarrow> y > x \<or> (y = x \<and> priority b > priority a)"
  using assms by (auto simp: compareQA_def)

lemma rankedBefore_numbers:
  assumes "similarity a = Num x" and "similarity b = Num y"
  shows "rankedBefore a b \<longleftrightarrow> x > y \<or> (x = y \<and> priority a \<ge> priority b)"
  using assms by (simp add: rankedBefore_def)

lemma sorted_rankCandidates: "sorted_wrt rankedBefore (rankCandidates limit scored)"
proof -
  let ?S = "{c. \<exists>s. similarity c = Num s}"
  let ?kept = "filter (\<lambda>qa. ngt (similarity qa) (Num 20)) scored"
  have sub: "set ?kept \<subseteq> ?S"
  proof
    fix c assume "c \<in> set ?kept"
    then have "ngt (similarity c) (Num 20)" by simp
    then show "c \<in> ?S" by (cases "similarity c") simp_all
  qed
  have "sorted_wrt rankedBefore (sortStable (\<lambda>a b. ngt (compareQA a b) (Num 0)) ?kept)"
  proof (rule sorted_sortStable [where S = ?S, OF _ _ _ sub])
    fix a b assume "a \<in> ?S" "b \<in> ?S" "ngt (compareQA a b) (Num 0)"
    then show "rankedBefore b a"
      by (auto simp: compareQA_after rankedBefore_numbers)
  next
    fix a b assume "a \<in> ?S" "b \<in> ?S" "\<not> ngt (compareQA a b) (Num 0)"
    then show "rankedBefore a b"
      by (auto simp: compareQA_after rankedBefore_numbers)
  next
    fix a b c assume "a \<in> ?S" "b \<in> ?S" "c \<in> ?S" "rankedBefore a b" "rankedBefore b c"
    then show "rankedBefore a c"
      by (auto simp: rankedBefore_numbers)
  qed
  then show ?thesis unfolding rankCandidates_def by (rule sorted_wrt_take)
qed

lemma rankCandidates_subset:
  "set (rankCandidates limit scored) \<subseteq> {c \<in> set scored. ngt (similarity c) (Num 20)}"
  unfolding rankCandidates_def using set_take_subset [of limit] by fastforce

lemma length_rankCandidates: "length (rankCandidates limit scored) \<le> limit"
  by (simp add: rankCandidates_def)

lemma set_findManyActive: "set (findManyActive table) = {qa \<in> set table. isActive qa}"
  by (simp add: findManyActive_def)

subsection \<open>Failure of the knowledge base\<close>



subsection \<open>The AI agent\<close>

text \<open>
  The method of the class never rejects, and the exported function rejects only when
  the constructor throws: every other failure inside it is turned into a response.
\<close>

lemma bookingStep_not_Rejected: "bookingStep lc sv userMessage lang clientPhone \<noteq> Rejected"
  by (simp add: bookingStep_def split: awaited.splits option.splits sum.splits)

lemma propertyStep_not_Rejected: "propertyStep lc sv userMessage lang clientPhone \<noteq> Rejected"
  by (simp add: propertyStep_def split: awaited.splits option.splits)

lemma openAIStep_not_Rejected: "openAIStep sv userMessage lang \<noteq> Rejected"
  by (simp add: openAIStep_def split: awaited.splits)

lemma AIResponseGenerator_generateResponse_not_Rejected:
  "AIResponseGenerator_generateResponse lc sv userMessage lang clientPhone \<noteq> Rejected"
  by (simp add: AIResponseGenerator_generateResponse_def split: awaited.splits option.splits)

lemma cleanup_not_Rejected: "cleanup sv \<noteq> Rejected"
  by (simp add: cleanup_def split: awaited.splits)

lemma generateAIResponse_Rejected_iff:
  "generateAIResponse lc sv detect userMessage lang clientPhone = Rejected \<longleftrightarrow> constructorThrows sv"
  using AIResponseGenerator_generateResponse_not_Rejected cleanup_not_Rejected
  by (auto simp: generateAIResponse_def Let_def split: awaited.splits)

text \<open>
  A message that is neither a booking request nor a property search goes to OpenAI when a
  key is configured.  If the request fails or has no content, the generator answers with
  a rule-based response or its default response; if the request never settles, neither
  does the generator.
\<close>

lemma generateAIResponse_general_question:
  assumes "\<not> constructorThrows sv" and "disconnect sv \<noteq> Pending" and "apiKey sv \<noteq> []"
    and "\<not> detectBookingRequest lc userMessage (detect userMessage)"
    and "extractSearchCriteria lc userMessage (detect userMessage) = None"
  shows "generateAIResponse lc sv detect userMessage (ascii ''en'') clientPhone =
           (case fetchCompletion sv userMessage (detect userMessage) of
              Fulfilled aiResponse \<Rightarrow>
                if aiResponse = [] then Fulfilled (ruleBasedStep lc userMessage (detect userMessage))
                else Fulfilled \<lparr>response = aiResponse, confidence = Num (9 / 10)\<rparr>
            | Rejected \<Rightarrow> Fulfilled (ruleBasedStep lc userMessage (detect userMessage))
            | Pending \<Rightarrow> Pending)"
  using assms
  by (simp add: generateAIResponse_def Let_def AIResponseGenerator_generateResponse_def
      bookingStep_def propertyStep_def openAIStep_def OpenAIService_generateResponse_def
      isConfigured_def cleanup_def split: awaited.splits)

subsection \<open>The choice of the response\<close>

lemma generateResponse_persisted:
  assumes "persistIncoming w sender senderName message" and "\<forall>t. persistResponse w t"
  shows "generateResponse lc w message sender senderName =
           chooseResponse lc w message sender (detectLanguage w message)
             (findRelevantQAPairs lc (knowledgeBase w) message 5)"
  using assms by (simp add: generateResponse_def Let_def split: awaited.splits)

text \<open>generateResponse never throws: its promise is fulfilled or never settles.\<close>

lemma chooseResponse_not_Rejected:
  "promise (chooseResponse lc w message sender lang relevantQAs) \<noteq> Rejected"
  by (simp add: chooseResponse_def split: list.splits awaited.splits)

lemma generateResponse_not_Rejected:
  "promise (generateResponse lc w message sender senderName) \<noteq> Rejected"
  using chooseResponse_not_Rejected
    [of lc w message sender "detectLanguage w message" "findRelevantQAPairs lc (knowledgeBase w) message 5"]
  by (simp add: generateResponse_def Let_def split: awaited.splits)

text \<open>The threshold: a best candidate with score 90.00 is answered from the knowledge
  base, one with 89.99 goes to generateAIResponse.\<close>

lemma threshold_boundary:
  "aiCalls (chooseResponse lc w message sender lang [withSimilarity qa (Num 90)]) = 0
   \<and> promise (chooseResponse lc w message sender lang [withSimilarity qa (Num 90)])
       = Fulfilled (answer qa)
   \<and> aiCalls (chooseResponse lc w message sender lang [withSimilarity qa (Num (8999 / 100))]) = 1"
  by (simp add: chooseResponse_def withSimilarity_def split: awaited.splits)

subsection \<open>Evaluation on the example data\<close>

lemma normalized_a_b: "asciiLower (trim (ascii ''a b'')) = [97, 32, 98]"
  and normalized_b_a: "asciiLower (trim (ascii ''b a'')) = [98, 32, 97]"
  and normalized_c_d_e: "asciiLower (trim (ascii ''c d e'')) = [99, 32, 100, 32, 101]"
  and normalized_f: "asciiLower (trim (ascii ''f'')) = [102]"
  and normalized_empty: "asciiLower (trim (ascii '''')) = []"
  by (simp_all add: eval_defs)

lemma words_a_b: "splitWs (asciiLower [97, 32, 98]) = [[97], [98]]"
  and words_b_a: "splitWs (asciiLower [98, 32, 97]) = [[98], [97]]"
  and words_c_d_e: "splitWs (asciiLower [99, 32, 100, 32, 101]) = [[99], [100], [101]]"
  and words_f: "splitWs (asciiLower [102]) = [[102]]"
  by (simp_all add: eval_defs)

lemmas cosine_eval = cosineSimilarity_def newSet_def Let_def wordFrequencies_def countWord_def
  getProp_def objectPrototypeKeys_def cosineStep_def ascii_def

lemmas levenshtein_eval = levenshteinSimilarity_def levenshteinDistance_def levenshteinMatrix_def
  nextRow_def Let_def

lemma score_a_b_vs_b_a: "calculateSimilarity asciiLower (ascii ''a b'') (ascii ''b a'') = Num (8667 / 100)"
proof -
  have l: "levenshteinSimilarity [97, 32, 98] [98, 32, 97] = 100 / 3"
    by (simp add: levenshtein_eval)
  have j: "jaccardSimilarity asciiLower [97, 32, 98] [98, 32, 97] = 100"
    by (simp add: jaccardSimilarity_def words_a_b words_b_a newSet_def Let_def)
  have c: "cosineSimilarity asciiLower [97, 32, 98] [98, 32, 97] = Num 100"
    by (simp add: cosine_eval words_a_b words_b_a)
  have k: "keywordSimilarity asciiLower [97, 32, 98] [98, 32, 97] = 100"
    by (simp add: keywordSimilarity_def matchKeywords_def eval_defs)
  show ?thesis
    unfolding calculateSimilarity_def Let_def normalized_a_b normalized_b_a l j c k
    by (simp add: weightedScore_def)
qed

lemma score_a_b_vs_c_d_e: "calculateSimilarity asciiLower (ascii ''a b'') (ascii ''c d e'') = Num 24"
proof -
  have l: "levenshteinSimilarity [97, 32, 98] [99, 32, 100, 32, 101] = 20"
    by (simp add: levenshtein_eval)
  have j: "jaccardSimilarity asciiLower [97, 32, 98] [99, 32, 100, 32, 101] = 0"
    by (simp add: jaccardSimilarity_def words_a_b words_c_d_e newSet_def Let_def)
  have c: "cosineSimilarity asciiLower [97, 32, 98] [99, 32, 100, 32, 101] = Num 0"
    by (simp add: cosine_eval words_a_b words_c_d_e)
  have k: "keywordSimilarity asciiLower [97, 32, 98] [99, 32, 100, 32, 101] = 100"
    by (simp add: keywordSimilarity_def matchKeywords_def eval_defs)
  show ?thesis
    unfolding calculateSimilarity_def Let_def normalized_a_b normalized_c_d_e l j c k
    by (simp add: weightedScore_def)
qed

lemma score_a_b_vs_f: "calculateSimilarity asciiLower (ascii ''a b'') (ascii ''f'') = Num 20"
proof -
  have l: "levenshteinSimilarity [97, 32, 98] [102] = 0"
    by (simp add: levenshtein_eval)
  have j: "jaccardSimilarity asciiLower [97, 32, 98] [102] = 0"
    by (simp add: jaccardSimilarity_def words_a_b words_f newSet_def Let_def)
  have c: "cosineSimilarity asciiLower [97, 32, 98] [102] = Num 0"
    by (simp add: cosine_eval words_a_b words_f)
  have k: "keywordSimilarity asciiLower [97, 32, 98] [102] = 100"
    by (simp add: keywordSimilarity_def matchKeywords_def eval_defs)
  show ?thesis
    unfolding calculateSimilarity_def Let_def normalized_a_b normalized_f l j c k
    by (simp add: weightedScore_def)
qed

lemma score_a_b_vs_a_b: "calculateSimilarity asciiLower (ascii ''a b'') (ascii ''a b'') = Num 100"
  by (simp add: calculateSimilarity_def)

lemma score_a_b_vs_empty: "calculateSimilarity asciiLower (ascii ''a b'') (ascii '''') = Num 0"
  unfolding calculateSimilarity_def Let_def normalized_a_b normalized_empty by simp

lemma contextual_b_a:
  "calculateContextualSimilarity asciiLower (ascii ''a b'') (ascii ''b a'') (ascii ''a b'') [ascii ''a'']
     = Num 100"
proof -
  have "tagMatches asciiLower (ascii ''a b'') [ascii ''a''] = [ascii ''a'']"
    by (simp add: tagMatches_def eval_defs)
  then show ?thesis
    unfolding calculateContextualSimilarity_def Let_def score_a_b_vs_b_a score_a_b_vs_a_b by simp
qed

lemma contextual_c_d_e:
  "calculateContextualSimilarity asciiLower (ascii ''a b'') (ascii ''c d e'') (ascii ''f'') [] = Num 24"
  unfolding calculateContextualSimilarity_def Let_def score_a_b_vs_c_d_e score_a_b_vs_f
  by (simp add: tagMatches_def)

lemma contextual_c_d_e_empty_answer:
  "calculateContextualSimilarity asciiLower (ascii ''a b'') (ascii ''c d e'') (ascii '''') [] = Num 24"
  unfolding calculateContextualSimilarity_def Let_def score_a_b_vs_c_d_e score_a_b_vs_empty
  by (simp add: tagMatches_def)

lemma no_exact_match_b_a:
  "findExactMatch_spec asciiLower [pair ''b a'' a ts p act] (ascii ''a b'') = []"
  unfolding findExactMatch_spec_def
  by (simp add: pair_def normalized_a_b normalized_b_a)

lemma no_exact_match_c_d_e:
  "findExactMatch_spec asciiLower [pair ''c d e'' a ts p act] (ascii ''a b'') = []"
  unfolding findExactMatch_spec_def
  by (simp add: pair_def normalized_a_b normalized_c_d_e)

lemma candidates_high:
  "findRelevantQAPairs asciiLower (knowledgeBaseOf [pair ''b a'' ''a b'' [''a''] 1 True]) (ascii ''a b'') 5
     = [withSimilarity (pair ''b a'' ''a b'' [''a''] 1 True) (Num 100)]"
proof -
  have "scoreAll asciiLower (ascii ''a b'') [pair ''b a'' ''a b'' [''a''] 1 True] =
      [withSimilarity (pair ''b a'' ''a b'' [''a''] 1 True) (Num 100)]"
    using contextual_b_a by (simp add: scoreAll_def pair_def)
  then show ?thesis
    by (simp add: findRelevantQAPairs_def scoringAttempt_def knowledgeBaseOf_def no_exact_match_b_a
        findManyActive_def sortStable_def rankCandidates_def withSimilarity_def)
      (simp add: pair_def)
qed

lemma candidates_low:
  "findRelevantQAPairs asciiLower (knowledgeBaseOf [pair ''c d e'' ''f'' [] 1 True]) (ascii ''a b'') 5
     = [withSimilarity (pair ''c d e'' ''f'' [] 1 True) (Num 24)]"
proof -
  have "scoreAll asciiLower (ascii ''a b'') [pair ''c d e'' ''f'' [] 1 True] =
      [withSimilarity (pair ''c d e'' ''f'' [] 1 True) (Num 24)]"
    using contextual_c_d_e by (simp add: scoreAll_def pair_def)
  then show ?thesis
    by (simp add: findRelevantQAPairs_def scoringAttempt_def knowledgeBaseOf_def no_exact_match_c_d_e
        findManyActive_def sortStable_def rankCandidates_def withSimilarity_def)
      (simp add: pair_def)
qed

lemma candidates_low_empty_answer:
  "findRelevantQAPairs asciiLower (knowledgeBaseOf [pair ''c d e'' '''' [] 1 True]) (ascii ''a b'') 5
     = [withSimilarity (pair ''c d e'' '''' [] 1 True) (Num 24)]"
proof -
  have "scoreAll asciiLower (ascii ''a b'') [pair ''c d e'' '''' [] 1 True] =
      [withSimilarity (pair ''c d e'' '''' [] 1 True) (Num 24)]"
    using contextual_c_d_e_empty_answer by (simp add: scoreAll_def pair_def)
  then show ?thesis
    by (simp add: findRelevantQAPairs_def scoringAttempt_def knowledgeBaseOf_def no_exact_match_c_d_e
        findManyActive_def sortStable_def rankCandidates_def withSimilarity_def)
      (simp add: pair_def)
qed

lemma candidates_none:
  "findRelevantQAPairs asciiLower (knowledgeBaseOf []) message 5 = []"
  by (simp add: findRelevantQAPairs_def scoringAttempt_def knowledgeBaseOf_def
      findExactMatch_spec_def findManyActive_def sortStable_def)

lemma candidates_fallback:
  "findRelevantQAPairs asciiLower (unreachableThenFound [pair ''opening hours'' ''9 to 5'' [] 0 True])
     (ascii ''hours'') 5 = [withSimilarity (pair ''opening hours'' ''9 to 5'' [] 0 True) (Num 50)]"
  by (simp add: findRelevantQAPairs_def scoringAttempt_def keywordFallback_def world_defs)

lemma worldOf_persists:
  "persistIncoming (worldOf b sv) sender senderName message" "\<forall>t. persistResponse (worldOf b sv) t"
  by (simp_all add: worldOf_def)

text \<open>
  The example table and the message \<open>a b\<close>: the row \<open>zzz\<close> scores 0, the rows \<open>c d e\<close>
  score 24, and the rows \<open>b a\<close>, of which one is not active, score 100.
\<close>

lemma normalized_zzz: "asciiLower (trim (ascii ''zzz'')) = [122, 122, 122]"
  by (simp add: eval_defs)

lemma words_zzz: "splitWs (asciiLower [122, 122, 122]) = [[122, 122, 122]]"
  by (simp add: eval_defs)

lemma score_a_b_vs_zzz: "calculateSimilarity asciiLower (ascii ''a b'') (ascii ''zzz'') = Num 0"
proof -
  have l: "levenshteinSimilarity [97, 32, 98] [122, 122, 122] = 0"
    by (simp add: levenshtein_eval)
  have j: "jaccardSimilarity asciiLower [97, 32, 98] [122, 122, 122] = 0"
    by (simp add: jaccardSimilarity_def words_a_b words_zzz newSet_def Let_def)
  have c: "cosineSimilarity asciiLower [97, 32, 98] [122, 122, 122] = Num 0"
    by (simp add: cosine_eval words_a_b words_zzz)
  have k: "keywordSimilarity asciiLower [97, 32, 98] [122, 122, 122] = 0"
    by (simp add: keywordSimilarity_def matchKeywords_def eval_defs)
  show ?thesis
    unfolding calculateSimilarity_def Let_def normalized_a_b normalized_zzz l j c k
    by (simp add: weightedScore_def)
qed

lemma contextual_zzz:
  "calculateContextualSimilarity asciiLower (ascii ''a b'') (ascii ''zzz'') (ascii ''f'') [] = Num 0"
  unfolding calculateContextualSimilarity_def Let_def score_a_b_vs_zzz score_a_b_vs_f
  by (simp add: tagMatches_def)

lemma no_exact_match_exampleTable:
  "findExactMatch_spec asciiLower exampleTable (ascii ''a b'') = []"
  unfolding findExactMatch_spec_def exampleTable_def
  by (simp add: pair_def normalized_a_b normalized_b_a normalized_c_d_e normalized_zzz)

lemma findManyActive_exampleTable:
  "findManyActive exampleTable =
     [pair ''zzz'' ''f'' [] 7 True, pair ''c d e'' ''f'' [] 3 True,
      pair ''b a'' ''a b'' [''a''] 2 True, pair ''c d e'' ''f'' [] 1 True]"
  by (simp add: findManyActive_def exampleTable_def sortStable_def pair_def)

lemma scoreAll_exampleTable:
  "scoreAll asciiLower (ascii ''a b'') (findManyActive exampleTable) =
     [withSimilarity (pair ''zzz'' ''f'' [] 7 True) (Num 0),
      withSimilarity (pair ''c d e'' ''f'' [] 3 True) (Num 24),
      withSimilarity (pair ''b a'' ''a b'' [''a''] 2 True) (Num 100),
      withSimilarity (pair ''c d e'' ''f'' [] 1 True) (Num 24)]"
  unfolding findManyActive_exampleTable
  using contextual_zzz contextual_c_d_e contextual_b_a by (simp add: scoreAll_def pair_def)

lemma candidates_exampleTable:
  "findRelevantQAPairs asciiLower (knowledgeBaseOf exampleTable) (ascii ''a b'') 2 =
     [withSimilarity (pair ''b a'' ''a b'' [''a''] 2 True) (Num 100),
      withSimilarity (pair ''c d e'' ''f'' [] 3 True) (Num 24)]"
  "findRelevantQAPairs asciiLower (knowledgeBaseOf exampleTable) (ascii ''a b'') 5 =
     [withSimilarity (pair ''b a'' ''a b'' [''a''] 2 True) (Num 100),
      withSimilarity (pair ''c d e'' ''f'' [] 3 True) (Num 24),
      withSimilarity (pair ''c d e'' ''f'' [] 1 True) (Num 24)]"
proof -
  have nonempty: "findManyActive exampleTable \<noteq> []"
    unfolding findManyActive_exampleTable by simp
  have r: "findRelevantQAPairs asciiLower (knowledgeBaseOf exampleTable) (ascii ''a b'') limit =
      rankCandidates limit (scoreAll asciiLower (ascii ''a b'') (findManyActive exampleTable))" for limit
    using nonempty
    by (simp add: findRelevantQAPairs_def scoringAttempt_def knowledgeBaseOf_def
        no_exact_match_exampleTable Let_def)
  show "findRelevantQAPairs asciiLower (knowledgeBaseOf exampleTable) (ascii ''a b'') 2 =
     [withSimilarity (pair ''b a'' ''a b'' [''a''] 2 True) (Num 100),
      withSimilarity (pair ''c d e'' ''f'' [] 3 True) (Num 24)]"
    unfolding r scoreAll_exampleTable
    by (simp add: rankCandidates_def sortStable_def compareQA_def withSimilarity_def pair_def)
  show "findRelevantQAPairs asciiLower (knowledgeBaseOf exampleTable) (ascii ''a b'') 5 =
     [withSimilarity (pair ''b a'' ''a b'' [''a''] 2 True) (Num 100),
      withSimilarity (pair ''c d e'' ''f'' [] 3 True) (Num 24),
      withSimilarity (pair ''c d e'' ''f'' [] 1 True) (Num 24)]"
    unfolding r scoreAll_exampleTable
    by (simp add: rankCandidates_def sortStable_def compareQA_def withSimilarity_def pair_def)
qed

subsection \<open>Evaluation of the AI agent on the example data\<close>

lemmas intent_eval = detectBookingRequest_def extractSearchCriteria_def
  generateRuleBasedResponse_def BOOKING_KEYWORDS_EN_def SEARCH_KEYWORDS_EN_def Let_def eval_defs

lemma general_question_a_b:
  "\<not> detectBookingRequest asciiLower (ascii ''a b'') (ascii ''en'')"
  "extractSearchCriteria asciiLower (ascii ''a b'') (ascii ''en'') = None"
  "generateRuleBasedResponse asciiLower (ascii ''a b'') (ascii ''en'') = None"
  by (simp_all add: intent_eval)

lemma general_question_hours:
  "\<not> detectBookingRequest asciiLower (ascii ''hours'') (ascii ''en'')"
  "extractSearchCriteria asciiLower (ascii ''hours'') (ascii ''en'') = None"
  by (simp_all add: intent_eval)

lemma booking_request_call_me:
  "detectBookingRequest asciiLower (ascii ''call me'') (ascii ''en'')"
  by (simp add: intent_eval)

lemma generateAIResponse_a_b:
  "generateAIResponse asciiLower (servicesOf completion) (\<lambda>message. ascii ''en'') (ascii ''a b'')
     (ascii ''en'') clientPhone =
   (case completion of
      Fulfilled aiResponse \<Rightarrow>
        if aiResponse = []
        then Fulfilled \<lparr>response = generateDefaultResponse (ascii ''en''), confidence = Num (6 / 10)\<rparr>
        else Fulfilled \<lparr>response = aiResponse, confidence = Num (9 / 10)\<rparr>
    | Rejected \<Rightarrow>
        Fulfilled \<lparr>response = generateDefaultResponse (ascii ''en''), confidence = Num (6 / 10)\<rparr>
    | Pending \<Rightarrow> Pending)"
proof -
  have rule: "ruleBasedStep asciiLower (ascii ''a b'') (ascii ''en'') =
      \<lparr>response = generateDefaultResponse (ascii ''en''), confidence = Num (6 / 10)\<rparr>"
    by (simp add: ruleBasedStep_def general_question_a_b)
  have "generateAIResponse asciiLower (servicesOf completion) (\<lambda>message. ascii ''en'') (ascii ''a b'')
      (ascii ''en'') clientPhone =
    (case fetchCompletion (servicesOf completion) (ascii ''a b'') (ascii ''en'') of
       Fulfilled aiResponse \<Rightarrow>
         if aiResponse = [] then Fulfilled (ruleBasedStep asciiLower (ascii ''a b'') (ascii ''en''))
         else Fulfilled \<lparr>response = aiResponse, confidence = Num (9 / 10)\<rparr>
     | Rejected \<Rightarrow> Fulfilled (ruleBasedStep asciiLower (ascii ''a b'') (ascii ''en''))
     | Pending \<Rightarrow> Pending)"
    by (rule generateAIResponse_general_question)
      (simp_all add: servicesOf_def general_question_a_b, simp add: ascii_def)
  then show ?thesis unfolding rule by (simp add: servicesOf_def)
qed

lemma generateAIResponse_hours:
  "generateAIResponse asciiLower generated (\<lambda>message. ascii ''en'') (ascii ''hours'')
     (ascii ''en'') clientPhone =
   Fulfilled \<lparr>response = ascii ''We have several offers.'', confidence = Num (9 / 10)\<rparr>"
proof -
  have "generateAIResponse asciiLower generated (\<lambda>message. ascii ''en'') (ascii ''hours'')
      (ascii ''en'') clientPhone =
    (case fetchCompletion generated (ascii ''hours'') (ascii ''en'') of
       Fulfilled aiResponse \<Rightarrow>
         if aiResponse = [] then Fulfilled (ruleBasedStep asciiLower (ascii ''hours'') (ascii ''en''))
         else Fulfilled \<lparr>response = aiResponse, confidence = Num (9 / 10)\<rparr>
     | Rejected \<Rightarrow> Fulfilled (ruleBasedStep asciiLower (ascii ''hours'') (ascii ''en''))
     | Pending \<Rightarrow> Pending)"
    by (rule generateAIResponse_general_question)
      (simp_all add: generated_def servicesOf_def general_question_hours, simp add: ascii_def)
  then show ?thesis by (simp add: generated_def servicesOf_def) (simp add: ascii_def)
qed

lemma generateAIResponse_call_me:
  "generateAIResponse asciiLower (servicesOf completion) (\<lambda>message. ascii ''en'') (ascii ''call me'')
     (ascii ''en'') (ascii ''+100'') =
   Fulfilled \<lparr>response = bookingErrorMessage (ascii ''en''), confidence = Num (7 / 10)\<rparr>"
proof -
  have phone: "ascii ''+100'' \<noteq> []" by (simp add: ascii_def)
  show ?thesis
    by (simp add: generateAIResponse_def Let_def AIResponseGenerator_generateResponse_def
        bookingStep_def booking_request_call_me phone cleanup_def servicesOf_def)
qed

lemma generateAIResponse_unconstructible:
  "generateAIResponse lc unconstructible detect userMessage lang clientPhone = Rejected"
  by (simp add: generateAIResponse_Rejected_iff unconstructible_def)

subsection \<open>Exact matches\<close>

lemma set_findExactMatch_spec:
  "set (findExactMatch_spec lc table message) =
     {qa \<in> set table. isActive qa \<and> lc (trim (question qa)) = lc (trim message)}"
  by (auto simp: findExactMatch_spec_def)

lemma withSimilarity_fields [simp]:
  "question (withSimilarity qa s) = question qa"
  "answer (withSimilarity qa s) = answer qa"
  "priority (withSimilarity qa s) = priority qa"
  "similarity (withSimilarity qa s) = s"
  by (simp_all add: withSimilarity_def)

lemma exact_matches_low_high:
  "findExactMatch_spec asciiLower [pair ''A B'' ''low'' [] 1 True, pair ''a b'' ''high'' [] 9 True]
     (ascii ''a b'') = [pair ''A B'' ''low'' [] 1 True, pair ''a b'' ''high'' [] 9 True]"
  unfolding findExactMatch_spec_def
  by (simp add: pair_def) (simp add: eval_defs)

lemma exact_matches_first_second:
  "findExactMatch_spec asciiLower
     [pair ''a b'' ''first'' [] 1 True, pair ''c d e'' ''f'' [] 5 True, pair ''A B'' ''second'' [] 9 True]
     (ascii ''a b'') = [pair ''a b'' ''first'' [] 1 True, pair ''A B'' ''second'' [] 9 True]"
  unfolding findExactMatch_spec_def
  by (simp add: pair_def) (simp add: eval_defs)

subsection \<open>Claims about the router\<close>

text \<open>
  C7.  When there is no exact match (and the table can be read), the returned candidates
  all have a similarity greater than 20, are sorted by descending similarity with ties
  broken by descending priority, are at most \<open>limit\<close> many (5 by default), and each one is
  an active row of the table with its contextual score.
\<close>

theorem scored_candidates_filtered_sorted_limited:
  assumes "findExactMatch kb message = Inr []" and "\<not> findManyFails kb"
  shows "(\<forall>c \<in> set (findRelevantQAPairs lc kb message limit). ngt (similarity c) (Num 20))
         \<and> sorted_wrt rankedBefore (findRelevantQAPairs lc kb message limit)
         \<and> length (findRelevantQAPairs lc kb message limit) \<le> limit
         \<and> (\<forall>c \<in> set (findRelevantQAPairs lc kb message limit).
               \<exists>qa \<in> set (qaTable kb). isActive qa
                  \<and> c = withSimilarity qa
                          (calculateContextualSimilarity lc message (question qa) (answer qa) (tags qa)))"
proof (cases "findManyActive (qaTable kb) = []")
  case True
  with assms have "findRelevantQAPairs lc kb message limit = []"
    by (simp add: findRelevantQAPairs_def scoringAttempt_def)
  then show ?thesis by simp
next
  case False
  with assms have r: "findRelevantQAPairs lc kb message limit =
      rankCandidates limit (scoreAll lc message (findManyActive (qaTable kb)))"
    by (simp add: findRelevantQAPairs_def scoringAttempt_def Let_def)
  have "\<exists>qa \<in> set (qaTable kb). isActive qa
          \<and> c = withSimilarity qa
                  (calculateContextualSimilarity lc message (question qa) (answer qa) (tags qa))"
    if "c \<in> set (findRelevantQAPairs lc kb message limit)" for c
  proof -
    from that have "c \<in> set (scoreAll lc message (findManyActive (qaTable kb)))"
      unfolding r using rankCandidates_subset by blast
    then show ?thesis by (auto simp: scoreAll_def set_findManyActive)
  qed
  moreover have "\<forall>c \<in> set (findRelevantQAPairs lc kb message limit). ngt (similarity c) (Num 20)"
    unfolding r using rankCandidates_subset by blast
  ultimately show ?thesis
    unfolding r using sorted_rankCandidates length_rankCandidates by blast
qed

text \<open>
  On the example table, for the message \<open>a b\<close> and the limit 2: the row \<open>zzz\<close> (score 0)
  and the inactive row are left out, the active row \<open>b a\<close> (score 100) comes first, and of
  the two rows \<open>c d e\<close> (score 24) the one with the higher priority is kept.
\<close>

theorem scored_candidates_filtered_sorted_limited_witness:
  "findRelevantQAPairs asciiLower (knowledgeBaseOf exampleTable) (ascii ''a b'') 2 =
     [withSimilarity (pair ''b a'' ''a b'' [''a''] 2 True) (Num 100),
      withSimilarity (pair ''c d e'' ''f'' [] 3 True) (Num 24)]
   \<and> sorted_wrt rankedBefore
        [withSimilarity (pair ''b a'' ''a b'' [''a''] 2 True) (Num 100),
         withSimilarity (pair ''c d e'' ''f'' [] 3 True) (Num 24)]
   \<and> ngt (similarity (withSimilarity (pair ''c d e'' ''f'' [] 3 True) (Num 24))) (Num 20)
   \<and> sorted_wrt rankedBefore
        (findRelevantQAPairs asciiLower (knowledgeBaseOf exampleTable) (ascii ''a b'') 5)
   \<and> length (findRelevantQAPairs asciiLower (knowledgeBaseOf exampleTable) (ascii ''a b'') 5) = 3"
proof -
  let ?kb = "knowledgeBaseOf exampleTable"
  have 1: "findExactMatch ?kb (ascii ''a b'') = Inr []"
    by (simp add: knowledgeBaseOf_def no_exact_match_exampleTable)
  have 2: "\<not> findManyFails ?kb" by (simp add: knowledgeBaseOf_def)
  have two: "findRelevantQAPairs asciiLower ?kb (ascii ''a b'') 2 =
      [withSimilarity (pair ''b a'' ''a b'' [''a''] 2 True) (Num 100),
       withSimilarity (pair ''c d e'' ''f'' [] 3 True) (Num 24)]"
    by (rule candidates_exampleTable)
  have five: "length (findRelevantQAPairs asciiLower ?kb (ascii ''a b'') 5) = 3"
    unfolding candidates_exampleTable by simp
  from scored_candidates_filtered_sorted_limited [OF 1 2, of asciiLower 2]
  have "(\<forall>c \<in> set (findRelevantQAPairs asciiLower ?kb (ascii ''a b'') 2). ngt (similarity c) (Num 20))
      \<and> sorted_wrt rankedBefore (findRelevantQAPairs asciiLower ?kb (ascii ''a b'') 2)"
    by blast
  then have "sorted_wrt rankedBefore
        [withSimilarity (pair ''b a'' ''a b'' [''a''] 2 True) (Num 100),
         withSimilarity (pair ''c d e'' ''f'' [] 3 True) (Num 24)]
      \<and> ngt (similarity (withSimilarity (pair ''c d e'' ''f'' [] 3 True) (Num 24))) (Num 20)"
    unfolding two by simp
  moreover from scored_candidates_filtered_sorted_limited [OF 1 2, of asciiLower 5]
  have "sorted_wrt rankedBefore (findRelevantQAPairs asciiLower ?kb (ascii ''a b'') 5)"
    by blast
  ultimately show ?thesis using two five by blast
qed




text \<open>
  C2.  With a non-empty candidate list (and persistence working): if the best candidate's
  similarity is at least 90 the response is its answer and generateAIResponse is not
  called; otherwise generateAIResponse is called once, and when it succeeds the response
  is its text, followed exactly when the similarity is at least 50 by the suffix that
  consists of two line feeds, the light bulb, \<open>*Related topic*:\<close> and the best candidate's
  question; the response with the suffix differs from the one without it.
\<close>

theorem threshold_decision:
  assumes "persistIncoming w sender senderName message" and "\<forall>t. persistResponse w t"
    and "findRelevantQAPairs lc (knowledgeBase w) message 5 = bestMatch # others"
  shows "(nge (similarity bestMatch) (Num 90) \<longrightarrow>
            promise (generateResponse lc w message sender senderName) = Fulfilled (answer bestMatch)
            \<and> aiCalls (generateResponse lc w message sender senderName) = 0)
         \<and> (\<not> nge (similarity bestMatch) (Num 90) \<longrightarrow>
              aiCalls (generateResponse lc w message sender senderName) = 1
              \<and> (\<forall>ai. generateAIResponse lc (services w) (detectLanguage w) message
                        (detectLanguage w message) sender = Fulfilled ai \<longrightarrow>
                    (nge (similarity bestMatch) (Num 50) \<longrightarrow>
                       promise (generateResponse lc w message sender senderName) =
                         Fulfilled (response ai @ [10, 10, 55357, 56481, 32]
                                    @ ascii ''*Related topic*: '' @ question bestMatch)
                       \<and> promise (generateResponse lc w message sender senderName)
                           \<noteq> Fulfilled (response ai))
                    \<and> (\<not> nge (similarity bestMatch) (Num 50) \<longrightarrow>
                       promise (generateResponse lc w message sender senderName)
                         = Fulfilled (response ai))))"
  unfolding generateResponse_persisted [OF assms(1,2)] assms(3)
  by (auto simp: chooseResponse_def relatedTopic_def split: awaited.splits)

text \<open>
  Three runs: the best candidate scores 100 and its answer is returned without a call of
  generateAIResponse; it scores 50 and the generated text is followed by the suffix with
  the question \<open>opening hours\<close>; it scores 24 and the generated text is returned alone.
\<close>

theorem threshold_decision_witness:
  "promise (generateResponse asciiLower
            (worldOf (knowledgeBaseOf [pair ''b a'' ''a b'' [''a''] 1 True]) generated)
            (ascii ''a b'') (ascii ''+100'') (ascii ''Ann'')) = Fulfilled (ascii ''a b'')
   \<and> aiCalls (generateResponse asciiLower
            (worldOf (knowledgeBaseOf [pair ''b a'' ''a b'' [''a''] 1 True]) generated)
            (ascii ''a b'') (ascii ''+100'') (ascii ''Ann'')) = 0
   \<and> promise (generateResponse asciiLower
            (worldOf (unreachableThenFound [pair ''opening hours'' ''9 to 5'' [] 0 True]) generated)
            (ascii ''hours'') (ascii ''+100'') (ascii ''Ann''))
       = Fulfilled (ascii ''We have several offers.'' @ [10, 10, 55357, 56481, 32]
                    @ ascii ''*Related topic*: opening hours'')
   \<and> promise (generateResponse asciiLower
            (worldOf (knowledgeBaseOf [pair ''c d e'' ''f'' [] 1 True]) generated)
            (ascii ''a b'') (ascii ''+100'') (ascii ''Ann''))
       = Fulfilled (ascii ''We have several offers.'')"
proof -
  let ?high = "worldOf (knowledgeBaseOf [pair ''b a'' ''a b'' [''a''] 1 True]) generated"
  let ?band = "worldOf (unreachableThenFound [pair ''opening hours'' ''9 to 5'' [] 0 True]) generated"
  let ?low = "worldOf (knowledgeBaseOf [pair ''c d e'' ''f'' [] 1 True]) generated"
  let ?ai = "\<lparr>response = ascii ''We have several offers.'', confidence = Num (9 / 10)\<rparr>"
  have high: "findRelevantQAPairs asciiLower (knowledgeBase ?high) (ascii ''a b'') 5 =
      withSimilarity (pair ''b a'' ''a b'' [''a''] 1 True) (Num 100) # []"
    using candidates_high by (simp add: worldOf_def)
  have band: "findRelevantQAPairs asciiLower (knowledgeBase ?band) (ascii ''hours'') 5 =
      withSimilarity (pair ''opening hours'' ''9 to 5'' [] 0 True) (Num 50) # []"
    using candidates_fallback by (simp add: worldOf_def)
  have low: "findRelevantQAPairs asciiLower (knowledgeBase ?low) (ascii ''a b'') 5 =
      withSimilarity (pair ''c d e'' ''f'' [] 1 True) (Num 24) # []"
    using candidates_low by (simp add: worldOf_def)
  have ai_band: "generateAIResponse asciiLower (services ?band) (detectLanguage ?band) (ascii ''hours'')
      (detectLanguage ?band (ascii ''hours'')) (ascii ''+100'') = Fulfilled ?ai"
    by (simp add: worldOf_def generateAIResponse_hours)
  have ai_low: "generateAIResponse asciiLower (services ?low) (detectLanguage ?low) (ascii ''a b'')
      (detectLanguage ?low (ascii ''a b'')) (ascii ''+100'') = Fulfilled ?ai"
    by (simp add: worldOf_def generated_def generateAIResponse_a_b) (simp add: ascii_def)
  have 1: "promise (generateResponse asciiLower ?high (ascii ''a b'') (ascii ''+100'') (ascii ''Ann''))
        = Fulfilled (ascii ''a b'')
      \<and> aiCalls (generateResponse asciiLower ?high (ascii ''a b'') (ascii ''+100'') (ascii ''Ann'')) = 0"
    using threshold_decision [OF worldOf_persists high, of "ascii ''+100''" "ascii ''Ann''"]
    by (simp add: pair_def)
  have 2: "promise (generateResponse asciiLower ?band (ascii ''hours'') (ascii ''+100'') (ascii ''Ann''))
      = Fulfilled (ascii ''We have several offers.'' @ [10, 10, 55357, 56481, 32]
                   @ ascii ''*Related topic*: opening hours'')"
    using threshold_decision [OF worldOf_persists band, of "ascii ''+100''" "ascii ''Ann''"] ai_band
    by (simp add: pair_def ascii_def)
  have 3: "promise (generateResponse asciiLower ?low (ascii ''a b'') (ascii ''+100'') (ascii ''Ann''))
      = Fulfilled (ascii ''We have several offers.'')"
    using threshold_decision [OF worldOf_persists low, of "ascii ''+100''" "ascii ''Ann''"] ai_low
    by simp
  show ?thesis using 1 2 3 by blast
qed

text \<open>
  C3 (as the source has it).  When the call of generateAIResponse throws: with a candidate
  the response is the best candidate's answer, without one it is the default message,
  which only depends on the detected language (both provided that the persistence calls
  succeed).  In every case generateResponse returns a text and does not throw, and the
  text is not empty provided the candidates' stored answers are not empty.
\<close>

theorem generative_failure_recovered:
  assumes "generateAIResponse lc (services w) (detectLanguage w) message
             (detectLanguage w message) sender = Rejected"
    and "staticDefault (getDefaultResponse w)"
  shows "(persistIncoming w sender senderName message \<and> (\<forall>t. persistResponse w t) \<longrightarrow>
            (\<forall>bestMatch others.
                findRelevantQAPairs lc (knowledgeBase w) message 5 = bestMatch # others \<longrightarrow>
                promise (generateResponse lc w message sender senderName)
                  = Fulfilled (answer bestMatch)
                \<and> (\<not> nge (similarity bestMatch) (Num 90) \<longrightarrow>
                     loggedSource (generateResponse lc w message sender senderName)
                       = Some (QAFallback (similarity bestMatch))))
            \<and> (findRelevantQAPairs lc (knowledgeBase w) message 5 = [] \<longrightarrow>
                 loggedSource (generateResponse lc w message sender senderName) = Some DefaultResponse
                 \<and> (\<forall>m. promise (generateResponse lc w message sender senderName) =
                          Fulfilled (getDefaultResponse w m (detectLanguage w message)))))
         \<and> (\<exists>text. promise (generateResponse lc w message sender senderName) = Fulfilled text
               \<and> ((\<forall>c \<in> set (findRelevantQAPairs lc (knowledgeBase w) message 5). answer c \<noteq> [])
                    \<longrightarrow> text \<noteq> []))"
proof -
  let ?cands = "findRelevantQAPairs lc (knowledgeBase w) message 5"
  let ?chosen = "chooseResponse lc w message sender (detectLanguage w message) ?cands"
  have canned: "getDefaultResponse w message (detectLanguage w message) =
      getDefaultResponse w m (detectLanguage w message)" for m
    using assms(2) unfolding staticDefault_def by blast
  have nonempty_default: "getDefaultResponse w message (detectLanguage w message) \<noteq> []"
    using assms(2) unfolding staticDefault_def by blast
  have cons: "promise ?chosen = Fulfilled (answer bestMatch)
      \<and> (\<not> nge (similarity bestMatch) (Num 90) \<longrightarrow>
           loggedSource ?chosen = Some (QAFallback (similarity bestMatch)))"
    if "?cands = bestMatch # others" for bestMatch others
    using that assms(1) by (simp add: chooseResponse_def)
  have nil: "promise ?chosen = Fulfilled (getDefaultResponse w message (detectLanguage w message))
      \<and> loggedSource ?chosen = Some DefaultResponse" if "?cands = []"
    using that assms(1) by (simp add: chooseResponse_def)
  have apology: "errorReply \<noteq> []" by (simp add: errorReply_def ascii_def)
  have chosen: "\<exists>text. promise ?chosen = Fulfilled text
      \<and> ((\<forall>c \<in> set ?cands. answer c \<noteq> []) \<longrightarrow> text \<noteq> [])"
  proof (cases ?cands)
    case Nil
    then show ?thesis using nil nonempty_default by simp
  next
    case (Cons bestMatch others)
    then show ?thesis using cons [OF Cons] by simp
  qed
  then obtain chosenText where chosenText: "promise ?chosen = Fulfilled chosenText"
    and chosenNonempty: "(\<forall>c \<in> set ?cands. answer c \<noteq> []) \<longrightarrow> chosenText \<noteq> []"
    by blast
  have returned: "\<exists>text. promise (generateResponse lc w message sender senderName) = Fulfilled text
      \<and> ((\<forall>c \<in> set ?cands. answer c \<noteq> []) \<longrightarrow> text \<noteq> [])"
  proof (cases "persistIncoming w sender senderName message \<and> persistResponse w chosenText")
    case True
    then have "promise (generateResponse lc w message sender senderName) = Fulfilled chosenText"
      using chosenText by (simp add: generateResponse_def Let_def)
    then show ?thesis using chosenNonempty by blast
  next
    case False
    then have "promise (generateResponse lc w message sender senderName) = Fulfilled errorReply"
      using chosenText by (auto simp: generateResponse_def Let_def)
    then show ?thesis using apology by blast
  qed
  have persisted: "(\<forall>bestMatch others.
        ?cands = bestMatch # others \<longrightarrow>
        promise (generateResponse lc w message sender senderName) = Fulfilled (answer bestMatch)
        \<and> (\<not> nge (similarity bestMatch) (Num 90) \<longrightarrow>
             loggedSource (generateResponse lc w message sender senderName)
               = Some (QAFallback (similarity bestMatch))))
      \<and> (?cands = [] \<longrightarrow>
           loggedSource (generateResponse lc w message sender senderName) = Some DefaultResponse
           \<and> (\<forall>m. promise (generateResponse lc w message sender senderName) =
                    Fulfilled (getDefaultResponse w m (detectLanguage w message))))"
    if p: "persistIncoming w sender senderName message \<and> (\<forall>t. persistResponse w t)"
  proof -
    have eq: "generateResponse lc w message sender senderName = ?chosen"
      using p generateResponse_persisted by blast
    show ?thesis unfolding eq using cons nil canned by auto
  qed
  show ?thesis using persisted returned by blast
qed

theorem generative_failure_recovered_witness:
  "promise (generateResponse asciiLower
            (worldOf (knowledgeBaseOf [pair ''c d e'' ''f'' [] 1 True]) unconstructible)
            (ascii ''a b'') (ascii ''+100'') (ascii ''Ann'')) = Fulfilled (ascii ''f'')
   \<and> promise (generateResponse asciiLower (worldOf (knowledgeBaseOf []) unconstructible)
            (ascii ''a b'') (ascii ''+100'') (ascii ''Ann''))
       = Fulfilled (ascii ''Hello! How can we help you?'')"
proof -
  let ?some = "worldOf (knowledgeBaseOf [pair ''c d e'' ''f'' [] 1 True]) unconstructible"
  let ?none = "worldOf (knowledgeBaseOf []) unconstructible"
  have ai: "generateAIResponse asciiLower (services (worldOf b unconstructible))
      (detectLanguage (worldOf b unconstructible)) m
      (detectLanguage (worldOf b unconstructible) m) s = Rejected" for b m s
    by (simp add: worldOf_def generateAIResponse_unconstructible)
  have canned: "staticDefault (getDefaultResponse (worldOf b sv))" for b sv
    by (simp add: staticDefault_def worldOf_def ascii_def)
  have some: "findRelevantQAPairs asciiLower (knowledgeBase ?some) (ascii ''a b'') 5 =
      withSimilarity (pair ''c d e'' ''f'' [] 1 True) (Num 24) # []"
    using candidates_low by (simp add: worldOf_def)
  have none: "findRelevantQAPairs asciiLower (knowledgeBase ?none) (ascii ''a b'') 5 = []"
    by (simp add: worldOf_def candidates_none)
  have 1: "promise (generateResponse asciiLower ?some (ascii ''a b'') (ascii ''+100'') (ascii ''Ann''))
      = Fulfilled (ascii ''f'')"
    using generative_failure_recovered
        [OF ai [of "knowledgeBaseOf [pair ''c d e'' ''f'' [] 1 True]" "ascii ''a b''" "ascii ''+100''"]
          canned, where senderName = "ascii ''Ann''"]
      some worldOf_persists
    by (simp add: pair_def)
  have 2: "promise (generateResponse asciiLower ?none (ascii ''a b'') (ascii ''+100'') (ascii ''Ann''))
      = Fulfilled (ascii ''Hello! How can we help you?'')"
    using generative_failure_recovered
        [OF ai [of "knowledgeBaseOf []" "ascii ''a b''" "ascii ''+100''"]
          canned, where senderName = "ascii ''Ann''"]
      none worldOf_persists
    by (simp add: worldOf_def)
  show ?thesis using 1 2 by simp
qed

text \<open>
  The claim as stated fails in four ways.  (1) A failure inside the AI agent is surfaced:
  the message \<open>call me\<close> is a booking request, the appointment cannot be created, and
  with an empty knowledge base the response is the booking error message of the agent,
  not the default message.  (2) The request to OpenAI fails while the row \<open>c d e\<close> is a
  candidate with score 24: the agent answers with its default response, and generateResponse
  returns that text, with the source \<open>AI Agent\<close> and confidence 60, not the candidate's
  answer \<open>f\<close>.  (3) The request to OpenAI never settles: neither does generateResponse.
  (4) generateAIResponse throws and the stored answer of the candidate is empty: the
  response is the empty text.
\<close>

theorem generative_failure_surfaced_counterexample:
  "promise (generateResponse asciiLower (worldOf (knowledgeBaseOf []) (servicesOf Rejected))
      (ascii ''call me'') (ascii ''+100'') (ascii ''Ann''))
     = Fulfilled (ascii ''Sorry, there was an error booking your appointment. ''
                  @ ascii ''Please try again or contact us directly.'' @ [10, 10]
                  @ ascii ''*Etjahh Real Estate Company* '' @ [55356, 57314])
   \<and> findRelevantQAPairs asciiLower (knowledgeBaseOf [pair ''c d e'' ''f'' [] 1 True]) (ascii ''a b'') 5
       = [withSimilarity (pair ''c d e'' ''f'' [] 1 True) (Num 24)]
   \<and> promise (generateResponse asciiLower
        (worldOf (knowledgeBaseOf [pair ''c d e'' ''f'' [] 1 True]) (servicesOf Rejected))
        (ascii ''a b'') (ascii ''+100'') (ascii ''Ann''))
       = Fulfilled (generateDefaultResponse (ascii ''en''))
   \<and> generateDefaultResponse (ascii ''en'') \<noteq> ascii ''f''
   \<and> loggedSource (generateResponse asciiLower
        (worldOf (knowledgeBaseOf [pair ''c d e'' ''f'' [] 1 True]) (servicesOf Rejected))
        (ascii ''a b'') (ascii ''+100'') (ascii ''Ann'')) = Some (AIAgent (Num 60))
   \<and> promise (generateResponse asciiLower
        (worldOf (knowledgeBaseOf [pair ''c d e'' ''f'' [] 1 True]) (servicesOf Pending))
        (ascii ''a b'') (ascii ''+100'') (ascii ''Ann'')) = Pending
   \<and> promise (generateResponse asciiLower
        (worldOf (knowledgeBaseOf [pair ''c d e'' '''' [] 1 True]) unconstructible)
        (ascii ''a b'') (ascii ''+100'') (ascii ''Ann'')) = Fulfilled []"
proof -
  let ?booking = "worldOf (knowledgeBaseOf []) (servicesOf Rejected)"
  let ?failing = "worldOf (knowledgeBaseOf [pair ''c d e'' ''f'' [] 1 True]) (servicesOf Rejected)"
  let ?hanging = "worldOf (knowledgeBaseOf [pair ''c d e'' ''f'' [] 1 True]) (servicesOf Pending)"
  let ?empty = "worldOf (knowledgeBaseOf [pair ''c d e'' '''' [] 1 True]) unconstructible"
  have 1: "promise (generateResponse asciiLower ?booking (ascii ''call me'') (ascii ''+100'') (ascii ''Ann''))
      = Fulfilled (ascii ''Sorry, there was an error booking your appointment. ''
                   @ ascii ''Please try again or contact us directly.'' @ [10, 10]
                   @ ascii ''*Etjahh Real Estate Company* '' @ [55356, 57314])"
    unfolding generateResponse_persisted [OF worldOf_persists]
    by (simp add: worldOf_def candidates_none chooseResponse_def generateAIResponse_call_me)
      (simp add: bookingErrorMessage_def ascii_def)
  have low: "findRelevantQAPairs asciiLower (knowledgeBase (worldOf (knowledgeBaseOf
      [pair ''c d e'' ''f'' [] 1 True]) sv)) (ascii ''a b'') 5 =
      [withSimilarity (pair ''c d e'' ''f'' [] 1 True) (Num 24)]" for sv
    using candidates_low by (simp add: worldOf_def)
  have 2: "promise (generateResponse asciiLower ?failing (ascii ''a b'') (ascii ''+100'') (ascii ''Ann''))
        = Fulfilled (generateDefaultResponse (ascii ''en''))
      \<and> loggedSource (generateResponse asciiLower ?failing (ascii ''a b'') (ascii ''+100'') (ascii ''Ann''))
        = Some (AIAgent (Num 60))"
    unfolding generateResponse_persisted [OF worldOf_persists] low
    by (simp add: chooseResponse_def) (simp add: worldOf_def generateAIResponse_a_b)
  have 3: "generateDefaultResponse (ascii ''en'') \<noteq> ascii ''f''"
    by (simp add: generateDefaultResponse_def ascii_def)
  have 4: "promise (generateResponse asciiLower ?hanging (ascii ''a b'') (ascii ''+100'') (ascii ''Ann''))
      = Pending"
    unfolding generateResponse_persisted [OF worldOf_persists] low
    by (simp add: chooseResponse_def) (simp add: worldOf_def generateAIResponse_a_b)
  have "findRelevantQAPairs asciiLower (knowledgeBase ?empty) (ascii ''a b'') 5 =
      [withSimilarity (pair ''c d e'' '''' [] 1 True) (Num 24)]"
    using candidates_low_empty_answer by (simp add: worldOf_def)
  then have 5: "promise (generateResponse asciiLower ?empty (ascii ''a b'') (ascii ''+100'') (ascii ''Ann''))
      = Fulfilled []"
    unfolding generateResponse_persisted [OF worldOf_persists]
    by (simp add: chooseResponse_def)
      (simp add: worldOf_def generateAIResponse_unconstructible pair_def ascii_def)
  show ?thesis using 1 2 3 4 5 candidates_low by blast
qed

text \<open>
  C1 (as the source has it).  When an active row's normalized question equals the
  normalized message, the candidates are exactly the exact matches in the order in which
  the lookup returns them, each with similarity 100 and without any scoring; the first
  one is chosen, its answer is the response and generateAIResponse is not called
  (provided that the persistence calls succeed).  The logged source is the label
  \<open>QA Database\<close> with 100, the same label as for a high-similarity match.
\<close>

theorem exact_match_short_circuit:
  assumes "findExactMatch (knowledgeBase w) message =
             Inr (findExactMatch_spec lc (qaTable (knowledgeBase w)) message)"
    and "\<exists>qa \<in> set (qaTable (knowledgeBase w)).
            isActive qa \<and> lc (trim (question qa)) = lc (trim message)"
    and "persistIncoming w sender senderName message" and "\<forall>t. persistResponse w t"
  shows "\<exists>first others.
           findExactMatch_spec lc (qaTable (knowledgeBase w)) message = first # others
           \<and> findRelevantQAPairs lc (knowledgeBase w) message 5
               = map (\<lambda>qa. withSimilarity qa (Num 100)) (first # others)
           \<and> (\<forall>c \<in> set (findRelevantQAPairs lc (knowledgeBase w) message 5).
                 similarity c = Num 100 \<and> lc (trim (question c)) = lc (trim message))
           \<and> promise (generateResponse lc w message sender senderName) = Fulfilled (answer first)
           \<and> aiCalls (generateResponse lc w message sender senderName) = 0
           \<and> loggedSource (generateResponse lc w message sender senderName)
               = Some (QADatabase (Num 100))"
proof -
  let ?exact = "findExactMatch_spec lc (qaTable (knowledgeBase w)) message"
  have "set ?exact \<noteq> {}"
    using assms(2) unfolding set_findExactMatch_spec by blast
  then obtain e es where exact: "?exact = e # es" by (cases ?exact) auto
  have cands: "findRelevantQAPairs lc (knowledgeBase w) message 5 =
      map (\<lambda>qa. withSimilarity qa (Num 100)) (e # es)"
    using assms(1) exact by (simp add: findRelevantQAPairs_def scoringAttempt_def)
  have same: "lc (trim (question qa)) = lc (trim message)" if "qa \<in> set (e # es)" for qa
    using that set_findExactMatch_spec [of lc "qaTable (knowledgeBase w)" message]
    unfolding exact by blast
  have each: "\<forall>c \<in> set (findRelevantQAPairs lc (knowledgeBase w) message 5).
      similarity c = Num 100 \<and> lc (trim (question c)) = lc (trim message)"
    unfolding cands using same by auto
  have out: "generateResponse lc w message sender senderName =
      \<lparr>promise = Fulfilled (answer e), loggedSource = Some (QADatabase (Num 100)), aiCalls = 0\<rparr>"
    unfolding generateResponse_persisted [OF assms(3,4)] cands
    by (simp add: chooseResponse_def)
  show ?thesis
    using exact cands each out by (intro exI [of _ e] exI [of _ es]) simp
qed

text \<open>
  Two rows match the message \<open>a b\<close>.  Both become candidates with similarity 100, in the
  order of the lookup, and the answer of the first one is the response.
\<close>

theorem exact_match_short_circuit_witness:
  "findRelevantQAPairs asciiLower
     (knowledgeBaseOf [pair ''A B'' ''low'' [] 1 True, pair ''a b'' ''high'' [] 9 True])
     (ascii ''a b'') 5
     = [withSimilarity (pair ''A B'' ''low'' [] 1 True) (Num 100),
        withSimilarity (pair ''a b'' ''high'' [] 9 True) (Num 100)]
   \<and> promise (generateResponse asciiLower
        (worldOf (knowledgeBaseOf [pair ''A B'' ''low'' [] 1 True, pair ''a b'' ''high'' [] 9 True])
           generated)
        (ascii ''a b'') (ascii ''+100'') (ascii ''Ann'')) = Fulfilled (ascii ''low'')
   \<and> aiCalls (generateResponse asciiLower
        (worldOf (knowledgeBaseOf [pair ''A B'' ''low'' [] 1 True, pair ''a b'' ''high'' [] 9 True])
           generated)
        (ascii ''a b'') (ascii ''+100'') (ascii ''Ann'')) = 0"
proof -
  let ?table = "[pair ''A B'' ''low'' [] 1 True, pair ''a b'' ''high'' [] 9 True]"
  let ?w = "worldOf (knowledgeBaseOf ?table) generated"
  have kb: "knowledgeBase ?w = knowledgeBaseOf ?table" and table: "qaTable (knowledgeBaseOf ?table) = ?table"
    by (simp_all add: worldOf_def knowledgeBaseOf_def)
  have 1: "findExactMatch (knowledgeBase ?w) (ascii ''a b'') =
      Inr (findExactMatch_spec asciiLower (qaTable (knowledgeBase ?w)) (ascii ''a b''))"
    by (simp add: worldOf_def knowledgeBaseOf_def)
  have 2: "\<exists>qa \<in> set (qaTable (knowledgeBase ?w)).
      isActive qa \<and> asciiLower (trim (question qa)) = asciiLower (trim (ascii ''a b''))"
    by (simp add: worldOf_def knowledgeBaseOf_def pair_def eval_defs)
  from exact_match_short_circuit [OF 1 2 worldOf_persists, of "ascii ''+100''" "ascii ''Ann''"]
  obtain first others where
    lookup: "findExactMatch_spec asciiLower ?table (ascii ''a b'') = first # others"
    and cands: "findRelevantQAPairs asciiLower (knowledgeBaseOf ?table) (ascii ''a b'') 5
       = map (\<lambda>qa. withSimilarity qa (Num 100)) (first # others)"
    and reply: "promise (generateResponse asciiLower ?w (ascii ''a b'') (ascii ''+100'') (ascii ''Ann''))
       = Fulfilled (answer first)"
    and calls: "aiCalls (generateResponse asciiLower ?w (ascii ''a b'') (ascii ''+100'') (ascii ''Ann'')) = 0"
    unfolding kb table by blast
  from lookup have first: "first = pair ''A B'' ''low'' [] 1 True"
    and others: "others = [pair ''a b'' ''high'' [] 9 True]"
    unfolding exact_matches_low_high by simp_all
  have "answer first = ascii ''low''" unfolding first by (simp add: pair_def)
  with cands reply calls show ?thesis unfolding first others by simp
qed

text \<open>
  The claim as stated fails in two ways.  The source of an exact match is not a tag of its
  own: the message \<open>a b\<close> has an exact match in the first knowledge base and none in the
  second one, where the row \<open>b a\<close> reaches the contextual score 100, and the logged source
  is the same in both runs.  And the exact match that is chosen is the first one of the
  lookup, not the one with the highest priority: in the third knowledge base the rows
  with priority 1 and priority 9 both match, and the response is the answer of the row
  with priority 1.
\<close>

theorem exact_match_source_counterexample:
  "findExactMatch (knowledgeBaseOf [pair ''A B'' ''x'' [] 1 True]) (ascii ''a b'')
     = Inr [pair ''A B'' ''x'' [] 1 True]
   \<and> findExactMatch (knowledgeBaseOf [pair ''b a'' ''a b'' [''a''] 1 True]) (ascii ''a b'') = Inr []
   \<and> loggedSource (generateResponse asciiLower
        (worldOf (knowledgeBaseOf [pair ''A B'' ''x'' [] 1 True]) generated)
        (ascii ''a b'') (ascii ''+100'') (ascii ''Ann'')) = Some (QADatabase (Num 100))
   \<and> loggedSource (generateResponse asciiLower
        (worldOf (knowledgeBaseOf [pair ''b a'' ''a b'' [''a''] 1 True]) generated)
        (ascii ''a b'') (ascii ''+100'') (ascii ''Ann'')) = Some (QADatabase (Num 100))
   \<and> findExactMatch (knowledgeBaseOf
        [pair ''a b'' ''first'' [] 1 True, pair ''c d e'' ''f'' [] 5 True, pair ''A B'' ''second'' [] 9 True])
        (ascii ''a b'')
       = Inr [pair ''a b'' ''first'' [] 1 True, pair ''A B'' ''second'' [] 9 True]
   \<and> promise (generateResponse asciiLower
        (worldOf (knowledgeBaseOf
           [pair ''a b'' ''first'' [] 1 True, pair ''c d e'' ''f'' [] 5 True,
            pair ''A B'' ''second'' [] 9 True]) generated)
        (ascii ''a b'') (ascii ''+100'') (ascii ''Ann'')) = Fulfilled (ascii ''first'')"
proof -
  let ?exact = "worldOf (knowledgeBaseOf [pair ''A B'' ''x'' [] 1 True]) generated"
  let ?fuzzy = "worldOf (knowledgeBaseOf [pair ''b a'' ''a b'' [''a''] 1 True]) generated"
  let ?table = "[pair ''a b'' ''first'' [] 1 True, pair ''c d e'' ''f'' [] 5 True,
                 pair ''A B'' ''second'' [] 9 True]"
  let ?two = "worldOf (knowledgeBaseOf ?table) generated"
  have 1: "findExactMatch (knowledgeBaseOf [pair ''A B'' ''x'' [] 1 True]) (ascii ''a b'')
      = Inr [pair ''A B'' ''x'' [] 1 True]"
    by (simp add: knowledgeBaseOf_def findExactMatch_spec_def pair_def) (simp add: eval_defs)
  have 2: "findExactMatch (knowledgeBaseOf [pair ''b a'' ''a b'' [''a''] 1 True]) (ascii ''a b'') = Inr []"
    by (simp add: knowledgeBaseOf_def no_exact_match_b_a)
  have "findRelevantQAPairs asciiLower (knowledgeBase ?exact) (ascii ''a b'') 5 =
      [withSimilarity (pair ''A B'' ''x'' [] 1 True) (Num 100)]"
    using 1 by (simp add: worldOf_def findRelevantQAPairs_def scoringAttempt_def)
  then have 3: "loggedSource (generateResponse asciiLower ?exact (ascii ''a b'') (ascii ''+100'') (ascii ''Ann''))
      = Some (QADatabase (Num 100))"
    unfolding generateResponse_persisted [OF worldOf_persists] by (simp add: chooseResponse_def)
  have "findRelevantQAPairs asciiLower (knowledgeBase ?fuzzy) (ascii ''a b'') 5 =
      [withSimilarity (pair ''b a'' ''a b'' [''a''] 1 True) (Num 100)]"
    using candidates_high by (simp add: worldOf_def)
  then have 4: "loggedSource (generateResponse asciiLower ?fuzzy (ascii ''a b'') (ascii ''+100'') (ascii ''Ann''))
      = Some (QADatabase (Num 100))"
    unfolding generateResponse_persisted [OF worldOf_persists] by (simp add: chooseResponse_def)
  have 5: "findExactMatch (knowledgeBaseOf ?table) (ascii ''a b'')
      = Inr [pair ''a b'' ''first'' [] 1 True, pair ''A B'' ''second'' [] 9 True]"
    by (simp add: knowledgeBaseOf_def exact_matches_first_second)
  have "findRelevantQAPairs asciiLower (knowledgeBase ?two) (ascii ''a b'') 5 =
      [withSimilarity (pair ''a b'' ''first'' [] 1 True) (Num 100),
       withSimilarity (pair ''A B'' ''second'' [] 9 True) (Num 100)]"
    using 5 by (simp add: worldOf_def findRelevantQAPairs_def scoringAttempt_def)
  then have 6: "promise (generateResponse asciiLower ?two (ascii ''a b'') (ascii ''+100'') (ascii ''Ann''))
      = Fulfilled (ascii ''first'')"
    unfolding generateResponse_persisted [OF worldOf_persists]
    by (simp add: chooseResponse_def) (simp add: pair_def)
  show ?thesis using 1 2 3 4 5 6 by blast
qed

end
